theory Spec2Isabelle
  imports Complex_Main
begin

section \<open>EnergyPlus, module DataHeatBalance: constructions, blinds and window screens\<close>

text \<open>
  A shallow embedding of four routines of \<^verbatim>\<open>src/EnergyPlus/DataHeatBalance.cc\<close>:
  \<^verbatim>\<open>CheckAndSetConstructionProperties\<close>, \<^verbatim>\<open>AssignReverseConstructionNumber\<close>,
  \<^verbatim>\<open>AddVariableSlatBlind\<close> and \<^verbatim>\<open>CalcScreenTransmittance\<close>.

  Conventions of the embedding.
  \<^item> \<^verbatim>\<open>Real64\<close> quantities are real numbers: comparisons, sums and products are the exact
    ones, and \<^verbatim>\<open>std::sin\<close>, \<^verbatim>\<open>std::acos\<close>, ... are the functions of analysis. Rounding and
    NaN are outside the model.
  \<^item> \<^verbatim>\<open>int\<close> quantities (indices, material groups, counters) are integers.
  \<^item> The Fortran-style arrays (\<^verbatim>\<open>FArray1D\<close>, first index 1) are lists, read with
    \<open>at1 xs i\<close> and written with \<open>upd1 xs i v\<close>. The source does not check an index; the
    theorems say which indices they assume to be in range.
  \<^item> The module-level variables a routine reads or writes are passed in and returned.
\<close>

subsection \<open>Arrays with first index 1\<close>

definition at1 :: "'a list \<Rightarrow> int \<Rightarrow> 'a" where
  "at1 xs i = xs ! nat (i - 1)"

definition upd1 :: "'a list \<Rightarrow> int \<Rightarrow> 'a \<Rightarrow> 'a list" where
  "upd1 xs i v = xs[nat (i - 1) := v]"

definition in_range :: "'a list \<Rightarrow> int \<Rightarrow> bool" where
  "in_range xs i \<longleftrightarrow> 1 \<le> i \<and> i \<le> int (length xs)"

subsection \<open>The window screen model: data\<close>

text \<open>
  Modelled from the spec: the constants \<^verbatim>\<open>Pi\<close>, \<^verbatim>\<open>PiOvr2\<close> and \<^verbatim>\<open>DegToRadians\<close> of
  \<^verbatim>\<open>DataGlobals\<close>, which is not among the sources; the spec speaks of \<open>\<pi>/2\<close> and of
  angles in degrees.
\<close>

definition Pi :: real where
  "Pi = pi"

definition PiOvr2 :: real where
  "PiOvr2 = pi / 2"

definition DegToRadians :: real where
  "DegToRadians = pi / 180"

text \<open>\<^verbatim>\<open>Real64 const Small( 1.E-9 )\<close>, local to \<^verbatim>\<open>CalcScreenTransmittance\<close>.\<close>

definition Small :: real where
  "Small = 1 / 10 ^ 9"

text \<open>
  Modelled from the spec: the three values of \<^verbatim>\<open>ScreenBeamReflectanceAccounting\<close>, declared
  in \<^verbatim>\<open>DataSurfaces\<close>, which is not among the sources; the spec gives "three enumerated
  modes: do-not-model-separately, model-as-direct-beam, model-as-diffuse".
\<close>

datatype BeamReflectanceAccounting = DoNotModel | ModelAsDirectBeam | ModelAsDiffuse

text \<open>
  The fields of a \<^verbatim>\<open>SurfaceScreens\<close> entry that \<^verbatim>\<open>CalcScreenTransmittance\<close> reads (the first
  four) and writes (the other twelve).
\<close>

record ScreenTransData =
  ScreenDiameterToSpacingRatio :: real
  ReflectCylinder :: real
  ReflectCylinderVis :: real
  ScreenBeamReflectanceAccounting :: BeamReflectanceAccounting
  BmBmTrans :: real
  BmBmTransVis :: real
  BmBmTransBack :: real
  BmDifTrans :: real
  BmDifTransVis :: real
  BmDifTransBack :: real
  ReflectSolBeamFront :: real
  ReflectVisBeamFront :: real
  AbsorpSolarBeamFront :: real
  ReflectSolBeamBack :: real
  ReflectVisBeamBack :: real
  AbsorpSolarBeamBack :: real

record SurfaceData =
  Azimuth :: real
  Tilt :: real

record SurfaceWindowCalc =
  ScreenNumber :: int

text \<open>The module-level data the screen routine works on.\<close>

record ScreenGlobals =
  Surface :: "SurfaceData list"
  SurfaceWindow :: "SurfaceWindowCalc list"
  SOLCOS :: "real list"
  SurfaceScreens :: "ScreenTransData list"

text \<open>
  Modelled from the spec: \<^verbatim>\<open>ShowFatalError\<close> of \<^verbatim>\<open>UtilityRoutines\<close>, which is not among the
  sources, "halts the entire program"; a call that reaches it has the result \<open>Inl\<close> of the
  message and no state.
\<close>

datatype FatalError = Fatal string

subsection \<open>The window screen model: the sun relative to the screen\<close>

text \<open>\<^verbatim>\<open>std::atan2( y, x )\<close>, with value in \<open>(-\<pi>, \<pi>]\<close> and 0 at the origin.\<close>

definition atan2 :: "real \<Rightarrow> real \<Rightarrow> real" where
  "atan2 y x =
     (if 0 < x then arctan (y / x)
      else if x < 0 then (if 0 \<le> y then arctan (y / x) + pi else arctan (y / x) - pi)
      else if 0 < y then pi / 2
      else if y < 0 then - (pi / 2)
      else 0)"

text \<open>
  Lines 1370-1391. The result is the pair (\<^verbatim>\<open>SunAzimuthToScreenNormal\<close>, \<^verbatim>\<open>NormalAzimuth\<close>).
\<close>

definition AzimuthAngles :: "ScreenGlobals \<Rightarrow> int \<Rightarrow> real option \<Rightarrow> real \<times> real" where
  "AzimuthAngles g SurfaceNum Theta =
     (case Theta of
        Some th \<Rightarrow>
          (let a = \<bar>th\<bar>;
               SunAzimuthToScreenNormal =
                 (if a > Pi then 0 else if a > PiOvr2 then Pi - a else a)
           in (SunAzimuthToScreenNormal, SunAzimuthToScreenNormal))
      | None \<Rightarrow>
          (let SunAzimuth0 = atan2 (at1 (SOLCOS g) 1) (at1 (SOLCOS g) 2);
               SunAzimuth = (if SunAzimuth0 < 0 then SunAzimuth0 + 2 * Pi else SunAzimuth0);
               SurfaceAzimuth = Azimuth (at1 (Surface g) SurfaceNum) * DegToRadians;
               NormalAzimuth = SunAzimuth - SurfaceAzimuth;
               SunAzimuthToScreenNormal =
                 (if \<bar>SunAzimuth - SurfaceAzimuth\<bar> > PiOvr2
                  then \<bar>SunAzimuth - SurfaceAzimuth\<bar> - PiOvr2
                  else \<bar>SunAzimuth - SurfaceAzimuth\<bar>)
           in (SunAzimuthToScreenNormal, NormalAzimuth)))"

text \<open>
  Lines 1393-1406. The result is the triple (\<^verbatim>\<open>SunAltitudeToScreenNormal\<close>, \<^verbatim>\<open>SunAltitude\<close>,
  \<^verbatim>\<open>SurfaceTilt\<close>). The local \<^verbatim>\<open>SurfaceTilt\<close> is assigned only when \<^verbatim>\<open>Phi\<close> is absent;
  \<open>SurfaceTilt0\<close> is the content it has otherwise (the source does not initialise it).
\<close>

definition AltitudeAngles ::
  "ScreenGlobals \<Rightarrow> real \<Rightarrow> int \<Rightarrow> real option \<Rightarrow> real \<times> real \<times> real" where
  "AltitudeAngles g SurfaceTilt0 SurfaceNum Phi =
     (case Phi of
        Some ph \<Rightarrow>
          (let a = \<bar>ph\<bar>;
               SunAltitudeToScreenNormal = (if a > PiOvr2 then Pi - a else a)
           in (SunAltitudeToScreenNormal, SunAltitudeToScreenNormal, SurfaceTilt0))
      | None \<Rightarrow>
          (let SunAltitude = PiOvr2 - arccos (at1 (SOLCOS g) 3);
               SurfaceTilt = Tilt (at1 (Surface g) SurfaceNum) * DegToRadians;
               a = \<bar>SunAltitude + (SurfaceTilt - PiOvr2)\<bar>;
               SunAltitudeToScreenNormal = (if a > PiOvr2 then a - PiOvr2 else a)
           in (SunAltitudeToScreenNormal, SunAltitude, SurfaceTilt)))"

text \<open>Lines 1408-1412.\<close>

definition NormalAltitude_of :: "int \<Rightarrow> int option \<Rightarrow> real \<Rightarrow> real \<Rightarrow> real" where
  "NormalAltitude_of SurfaceNum ScreenNumber_arg SunAltitude SurfaceTilt =
     (if SurfaceNum = 0 \<or> ScreenNumber_arg = None then SunAltitude
      else SunAltitude + (SurfaceTilt - PiOvr2))"

text \<open>Lines 1414-1422.\<close>

definition IncidentAngle_of :: "real \<Rightarrow> real \<Rightarrow> real" where
  "IncidentAngle_of NormalAltitude NormalAzimuth =
     (if NormalAltitude \<noteq> 0 \<and> NormalAzimuth \<noteq> 0
      then arccos (sin NormalAltitude
                    / (tan NormalAzimuth * tan NormalAltitude / sin NormalAzimuth))
      else if NormalAltitude \<noteq> 0 \<and> NormalAzimuth = 0 then NormalAltitude
      else if NormalAltitude = 0 \<and> NormalAzimuth \<noteq> 0 then NormalAzimuth
      else 0)"

subsection \<open>The window screen model: direct and scattered transmittance\<close>

text \<open>
  Lines 1432-1445, the vertical component; arguments \<^verbatim>\<open>Gamma\<close>,
  \<^verbatim>\<open>SunAzimuthToScreenNormal\<close>, \<^verbatim>\<open>SunAltitudeToScreenNormal\<close>.
\<close>

definition TransYDir_of :: "real \<Rightarrow> real \<Rightarrow> real \<Rightarrow> real" where
  "TransYDir_of Gamma az alt =
     (let Beta = PiOvr2 - az in
      if Beta > Small then
        (if \<bar>alt - PiOvr2\<bar> > Small then
           (let AlphaDblPrime = arctan (tan alt / cos az)
            in max 0 (1 - Gamma * (cos AlphaDblPrime
                 + sin AlphaDblPrime * tan alt * sqrt (1 + (1 / tan Beta) ^ 2))))
         else 0)
      else 0)"

text \<open>Line 1447.\<close>

definition COSMu_of :: "real \<Rightarrow> real \<Rightarrow> real" where
  "COSMu_of az alt = sqrt ((cos alt) ^ 2 * (cos az) ^ 2 + (sin alt) ^ 2)"

text \<open>Lines 1448-1464, the horizontal component.\<close>

definition TransXDir_of :: "real \<Rightarrow> real \<Rightarrow> real \<Rightarrow> real" where
  "TransXDir_of Gamma az alt =
     (let COSMu = COSMu_of az alt in
      if COSMu > Small then
        (let Epsilon = arccos (cos alt * cos az / COSMu);
             Eta = PiOvr2 - Epsilon
         in if cos Epsilon \<noteq> 0 then
              (let MuPrime = arctan (tan (arccos COSMu) / cos Epsilon)
               in if Eta \<noteq> 0 then
                    max 0 (1 - Gamma * (cos MuPrime
                      + sin MuPrime * tan (arccos COSMu) * sqrt (1 + (1 / tan Eta) ^ 2)))
                  else 0)
            else 0)
      else 1 - Gamma)"

text \<open>Line 1465.\<close>

definition Tdirect_of :: "real \<Rightarrow> real \<Rightarrow> real \<Rightarrow> real" where
  "Tdirect_of Gamma az alt = max 0 (TransXDir_of Gamma az alt * TransYDir_of Gamma az alt)"

text \<open>
  Line 1474: the sun grazes the screen, in azimuth or in altitude.
\<close>

definition Grazing :: "real \<Rightarrow> real \<Rightarrow> bool" where
  "Grazing az alt \<longleftrightarrow> \<bar>az - PiOvr2\<bar> < Small \<or> \<bar>alt - PiOvr2\<bar> < Small"

text \<open>
  Lines 1479-1505 for one band (the source writes them twice, with \<^verbatim>\<open>ReflectCyl\<close> for the
  solar band and \<^verbatim>\<open>ReflectCylVis\<close> for the visible one): the empirical model of the scattered
  transmittance away from grazing.
\<close>

definition TscatteredModel :: "real \<Rightarrow> real \<Rightarrow> real \<Rightarrow> real \<Rightarrow> real" where
  "TscatteredModel Gamma ReflectCyl az alt =
     (let DeltaMax = 89.7 - (10 * Gamma / 0.16);
          Delta = sqrt ((az / DegToRadians) ^ 2 + (alt / DegToRadians) ^ 2);
          Tscattermax = 0.0229 * Gamma + 0.2971 * ReflectCyl - 0.03624 * Gamma ^ 2
                        + 0.04763 * ReflectCyl ^ 2 - 0.44416 * Gamma * ReflectCyl;
          ExponentInterior = (- (\<bar>Delta - DeltaMax\<bar> ^ 2)) / 600;
          ExponentExterior = (- (\<bar>Delta - DeltaMax\<bar> powr 2.5)) / 600;
          PeakToPlateauRatio = 1 / (0.2 * (1 - Gamma) * ReflectCyl)
      in if Delta > DeltaMax then
           0.2 * (1 - Gamma) * ReflectCyl * Tscattermax
               * (1 + (PeakToPlateauRatio - 1) * exp ExponentExterior)
             - (0.2 * (1 - Gamma) * ReflectCyl * Tscattermax)
               * max 0 ((Delta - DeltaMax) / (90 - DeltaMax))
         else
           0.2 * (1 - Gamma) * ReflectCyl * Tscattermax
               * (1 + (PeakToPlateauRatio - 1) * exp ExponentInterior))"

text \<open>Lines 1474-1508 for one band.\<close>

definition Tscattered_of :: "real \<Rightarrow> real \<Rightarrow> real \<Rightarrow> real \<Rightarrow> real" where
  "Tscattered_of Gamma ReflectCyl az alt =
     max 0 (if Grazing az alt then 0 else TscatteredModel Gamma ReflectCyl az alt)"

subsection \<open>The window screen model: the stored results\<close>

text \<open>
  Lines 1510-1544: the beam-beam fields, by accounting mode. The result also carries the
  values of \<^verbatim>\<open>Tscattered\<close> and \<^verbatim>\<open>TscatteredVis\<close> after the block, which resets them in the
  first two modes.
\<close>

definition StoreBmBm ::
  "ScreenTransData \<Rightarrow> real \<Rightarrow> real \<Rightarrow> real \<Rightarrow> real \<Rightarrow> ScreenTransData \<times> real \<times> real" where
  "StoreBmBm s IncidentAngle Tdirect Tscattered TscatteredVis =
     (case ScreenBeamReflectanceAccounting s of
        DoNotModel \<Rightarrow>
          ((if \<bar>IncidentAngle\<bar> \<le> PiOvr2
            then s\<lparr>BmBmTrans := Tdirect, BmBmTransVis := Tdirect, BmBmTransBack := 0\<rparr>
            else s\<lparr>BmBmTrans := 0, BmBmTransVis := 0, BmBmTransBack := Tdirect\<rparr>), 0, 0)
      | ModelAsDirectBeam \<Rightarrow>
          ((if \<bar>IncidentAngle\<bar> \<le> PiOvr2
            then s\<lparr>BmBmTrans := Tdirect + Tscattered, BmBmTransVis := Tdirect + TscatteredVis,
                   BmBmTransBack := 0\<rparr>
            else s\<lparr>BmBmTrans := 0, BmBmTransVis := 0,
                   BmBmTransBack := Tdirect + Tscattered\<rparr>), 0, 0)
      | ModelAsDiffuse \<Rightarrow>
          ((if \<bar>IncidentAngle\<bar> \<le> PiOvr2
            then s\<lparr>BmBmTrans := Tdirect, BmBmTransVis := Tdirect, BmBmTransBack := 0\<rparr>
            else s\<lparr>BmBmTrans := 0, BmBmTransVis := 0, BmBmTransBack := Tdirect\<rparr>),
           Tscattered, TscatteredVis))"

text \<open>Lines 1546-1566: beam-diffuse transmittance, reflectance and absorptance.\<close>

definition StoreBmDif ::
  "ScreenTransData \<Rightarrow> real \<Rightarrow> real \<Rightarrow> real \<Rightarrow> real \<Rightarrow> ScreenTransData" where
  "StoreBmDif s IncidentAngle Tdirect Tscattered TscatteredVis =
     (let ReflectCyl = ReflectCylinder s; ReflectCylVis = ReflectCylinderVis s in
      if \<bar>IncidentAngle\<bar> \<le> PiOvr2 then
        s\<lparr>BmDifTrans := Tscattered,
          BmDifTransVis := TscatteredVis,
          BmDifTransBack := 0,
          ReflectSolBeamFront := max 0 (ReflectCyl * (1 - Tdirect) - Tscattered),
          ReflectVisBeamFront := max 0 (ReflectCylVis * (1 - Tdirect) - TscatteredVis),
          AbsorpSolarBeamFront := max 0 ((1 - Tdirect) * (1 - ReflectCyl)),
          ReflectSolBeamBack := 0,
          ReflectVisBeamBack := 0,
          AbsorpSolarBeamBack := 0\<rparr>
      else
        s\<lparr>BmDifTrans := 0,
          BmDifTransVis := 0,
          BmDifTransBack := Tscattered,
          ReflectSolBeamBack := max 0 (ReflectCyl * (1 - Tdirect) - Tscattered),
          ReflectVisBeamBack := max 0 (ReflectCylVis * (1 - Tdirect) - TscatteredVis),
          AbsorpSolarBeamBack := max 0 ((1 - Tdirect) * (1 - ReflectCyl)),
          ReflectSolBeamFront := 0,
          ReflectVisBeamFront := 0,
          AbsorpSolarBeamFront := 0\<rparr>)"

text \<open>
  Lines 1361-1368: the screen index, or the fatal error when \<^verbatim>\<open>ScreenNumber\<close> is present
  and \<^verbatim>\<open>Theta\<close> or \<^verbatim>\<open>Phi\<close> is not.
\<close>

definition ScreenIndex ::
  "ScreenGlobals \<Rightarrow> int \<Rightarrow> real option \<Rightarrow> real option \<Rightarrow> int option \<Rightarrow> FatalError + int" where
  "ScreenIndex g SurfaceNum Phi Theta ScreenNumber_arg =
     (case ScreenNumber_arg of
        Some n \<Rightarrow>
          (if Theta = None \<or> Phi = None
           then Inl (Fatal ''Syntax error, optional arguments Theta and Phi must be present when optional ScreenNumber is used.'')
           else Inr n)
      | None \<Rightarrow> Inr (ScreenNumber (at1 (SurfaceWindow g) SurfaceNum)))"

text \<open>
  The incidence angle of a call, lines 1370-1422.
\<close>

definition IncidentAngle_call ::
  "ScreenGlobals \<Rightarrow> real \<Rightarrow> int \<Rightarrow> real option \<Rightarrow> real option \<Rightarrow> int option \<Rightarrow> real" where
  "IncidentAngle_call g SurfaceTilt0 SurfaceNum Phi Theta ScreenNumber_arg =
     (case AzimuthAngles g SurfaceNum Theta of (az, NormalAzimuth) \<Rightarrow>
      case AltitudeAngles g SurfaceTilt0 SurfaceNum Phi of (alt, SunAltitude, SurfaceTilt) \<Rightarrow>
        IncidentAngle_of (NormalAltitude_of SurfaceNum ScreenNumber_arg SunAltitude SurfaceTilt)
          NormalAzimuth)"

text \<open>
  Lines 1425-1566 on the screen record \<open>s\<close>, once the angles are known.
\<close>

definition ScreenResults :: "ScreenTransData \<Rightarrow> real \<Rightarrow> real \<Rightarrow> real \<Rightarrow> ScreenTransData" where
  "ScreenResults s IncidentAngle az alt =
     (let Gamma = ScreenDiameterToSpacingRatio s;
          Tdirect = Tdirect_of Gamma az alt;
          Tscattered = Tscattered_of Gamma (ReflectCylinder s) az alt;
          TscatteredVis = Tscattered_of Gamma (ReflectCylinderVis s) az alt
      in case StoreBmBm s IncidentAngle Tdirect Tscattered TscatteredVis of
           (s1, Tscattered1, TscatteredVis1) \<Rightarrow>
             StoreBmDif s1 IncidentAngle Tdirect Tscattered1 TscatteredVis1)"

text \<open>
  \<^verbatim>\<open>CalcScreenTransmittance( SurfaceNum, Phi, Theta, ScreenNumber )\<close>; an absent optional
  argument is \<open>None\<close>.
\<close>

definition CalcScreenTransmittance ::
  "ScreenGlobals \<Rightarrow> real \<Rightarrow> int \<Rightarrow> real option \<Rightarrow> real option \<Rightarrow> int option
     \<Rightarrow> FatalError + ScreenGlobals" where
  "CalcScreenTransmittance g SurfaceTilt0 SurfaceNum Phi Theta ScreenNumber_arg =
     (case ScreenIndex g SurfaceNum Phi Theta ScreenNumber_arg of
        Inl e \<Rightarrow> Inl e
      | Inr ScNum \<Rightarrow>
          (case AzimuthAngles g SurfaceNum Theta of (az, NormalAzimuth) \<Rightarrow>
           case AltitudeAngles g SurfaceTilt0 SurfaceNum Phi of
             (alt, SunAltitude, SurfaceTilt) \<Rightarrow>
               (let NormalAltitude =
                      NormalAltitude_of SurfaceNum ScreenNumber_arg SunAltitude SurfaceTilt;
                    IncidentAngle = IncidentAngle_of NormalAltitude NormalAzimuth
                in Inr (g\<lparr>SurfaceScreens :=
                     upd1 (SurfaceScreens g) ScNum
                       (ScreenResults (at1 (SurfaceScreens g) ScNum) IncidentAngle az alt)\<rparr>))))"

subsection \<open>Materials, blinds and constructions: data\<close>

text \<open>Lines 62-89: the array bound and the material groups.\<close>

definition MaxLayersInConstruct :: int where
  "MaxLayersInConstruct = 11"

definition RegularMaterial :: int where "RegularMaterial = 0"
definition Air :: int where "Air = 1"
definition Shade :: int where "Shade = 2"
definition WindowGlass :: int where "WindowGlass = 3"
definition WindowGas :: int where "WindowGas = 4"
definition WindowBlind :: int where "WindowBlind = 5"
definition WindowGasMixture :: int where "WindowGasMixture = 6"
definition Screen :: int where "Screen = 7"
definition EcoRoof :: int where "EcoRoof = 8"
definition IRTMaterial :: int where "IRTMaterial = 9"
definition WindowSimpleGlazing :: int where "WindowSimpleGlazing = 10"
definition ComplexWindowShade :: int where "ComplexWindowShade = 11"
definition ComplexWindowGap :: int where "ComplexWindowGap = 12"
definition GlassEquivalentLayer :: int where "GlassEquivalentLayer = 13"
definition ShadeEquivalentLayer :: int where "ShadeEquivalentLayer = 14"
definition DrapeEquivalentLayer :: int where "DrapeEquivalentLayer = 15"
definition BlindEquivalentLayer :: int where "BlindEquivalentLayer = 16"
definition ScreenEquivalentLayer :: int where "ScreenEquivalentLayer = 17"
definition GapEquivalentLayer :: int where "GapEquivalentLayer = 18"

text \<open>Lines 108-109.\<close>

definition FixedSlats :: int where "FixedSlats = 1"
definition VariableSlats :: int where "VariableSlats = 2"

text \<open>
  The fields of a \<^verbatim>\<open>Material\<close> entry that the routines read. The material's name
  appears in diagnostics only and is left out.
\<close>

record MaterialProperties =
  Group :: int
  Roughness :: int
  AbsorpVisible :: real
  AbsorpSolar :: real
  AbsorpThermal :: real
  AbsorpThermalFront :: real
  AbsorpThermalBack :: real
  Thickness :: real
  SolarDiffusing :: bool
  GasType :: "int list"
  GasFract :: "real list"
  BlindDataPtr :: int

text \<open>The fields of a \<^verbatim>\<open>Blind\<close> entry that the routines read or write.\<close>

record WindowBlindProperties =
  Name :: string
  SlatAngleType :: int
  SlatWidth :: real
  SlatSeparation :: real
  SlatThickness :: real
  SlatAngle :: real
  MinSlatAngle :: real
  MaxSlatAngle :: real

text \<open>
  The fields of a \<^verbatim>\<open>Construct\<close> entry that the routines read or write. \<open>LayerPoint\<close> has
  \<open>MaxLayersInConstruct\<close> slots; the slots after \<open>TotLayers\<close> are unused.
\<close>

record ConstructionData =
  Name :: string
  TotLayers :: int
  LayerPoint :: "int list"
  IsUsed :: bool
  DayltPropPtr :: int
  InsideAbsorpVis :: real
  OutsideAbsorpVis :: real
  InsideAbsorpSolar :: real
  OutsideAbsorpSolar :: real
  InsideAbsorpThermal :: real
  OutsideAbsorpThermal :: real
  OutsideRoughness :: int
  ReflectVisDiffBack :: real
  TotSolidLayers :: int
  TotGlassLayers :: int
  AbsDiffShade :: real
  TypeIsWindow :: bool
  NumCTFTerms :: int
  NumHistories :: int
  WindowTypeBSDF :: bool
  WindowTypeEQL :: bool
  TypeIsEcoRoof :: bool
  TypeIsIRT :: bool

text \<open>The module-level data of the construction and blind routines.\<close>

record HeatBalanceData =
  Material :: "MaterialProperties list"
  Blind :: "WindowBlindProperties list"
  TotBlinds :: int
  Construct :: "ConstructionData list"
  TotConstructs :: int
  NominalR :: "real list"
  NominalRforNominalUCalculation :: "real list"
  NominalU :: "real list"

subsection \<open>\<^verbatim>\<open>CheckAndSetConstructionProperties\<close>\<close>

text \<open>
  The routine works on the entry \<^verbatim>\<open>Construct( ConstrNum )\<close> alone; \<open>CheckConstruct\<close> below is
  its body on that entry \<open>c\<close>, with \<open>M\<close> the \<^verbatim>\<open>Material\<close> array and \<open>B\<close> the \<^verbatim>\<open>Blind\<close>
  array. The calls of \<^verbatim>\<open>ShowSevereError\<close> and \<^verbatim>\<open>ShowContinueError\<close> write to the error
  file and change nothing else; the model keeps the flag \<^verbatim>\<open>ErrorsFound\<close> and leaves the
  text out.
\<close>

text \<open>\<^verbatim>\<open>Material( Construct( ConstrNum ).LayerPoint( Layer ) ).Group\<close>\<close>

definition LayerGroup :: "MaterialProperties list \<Rightarrow> ConstructionData \<Rightarrow> int \<Rightarrow> int" where
  "LayerGroup M c Layer = Group (at1 M (at1 (LayerPoint c) Layer))"

text \<open>
  The fifteen groups of line 711; line 726 tests the same fifteen, negated.
\<close>

definition IsWindowGroup :: "int \<Rightarrow> bool" where
  "IsWindowGroup G \<longleftrightarrow>
     G = WindowGlass \<or> G = WindowGas \<or> G = WindowGasMixture \<or> G = Shade \<or> G = WindowBlind
     \<or> G = Screen \<or> G = WindowSimpleGlazing \<or> G = ComplexWindowShade \<or> G = ComplexWindowGap
     \<or> G = GlassEquivalentLayer \<or> G = ShadeEquivalentLayer \<or> G = DrapeEquivalentLayer
     \<or> G = ScreenEquivalentLayer \<or> G = BlindEquivalentLayer \<or> G = GapEquivalentLayer"

text \<open>
  Lines 707-712: the loop that sets \<^verbatim>\<open>TypeIsWindow\<close>. A \<^verbatim>\<open>for\<close> loop over the layers is a
  \<open>fold\<close> of its body over \<open>[1..TotLayers]\<close>; \<^verbatim>\<open>continue\<close> leaves the loop variables as
  they are.
\<close>

definition TypeIsWindow_loop :: "MaterialProperties list \<Rightarrow> ConstructionData \<Rightarrow> bool" where
  "TypeIsWindow_loop M c =
     fold (\<lambda>Layer tw.
             let MaterNum = at1 (LayerPoint c) Layer in
             if MaterNum = 0 then tw
             else if IsWindowGroup (Group (at1 M MaterNum)) then True else tw)
          [1..TotLayers c] False"

text \<open>Lines 721-727.\<close>

definition WrongMaterialsMix_loop :: "MaterialProperties list \<Rightarrow> ConstructionData \<Rightarrow> bool" where
  "WrongMaterialsMix_loop M c =
     fold (\<lambda>Layer wm.
             let MaterNum = at1 (LayerPoint c) Layer in
             if MaterNum = 0 then wm
             else if \<not> IsWindowGroup (Group (at1 M MaterNum)) then True else wm)
          [1..TotLayers c] False"

text \<open>Lines 729-743: the first three tests, an \<^verbatim>\<open>if / else if\<close> chain.\<close>

definition MixCountSingle_check ::
  "MaterialProperties list \<Rightarrow> ConstructionData \<Rightarrow> bool \<Rightarrow> bool" where
  "MixCountSingle_check M c ErrorsFound =
     (if WrongMaterialsMix_loop M c then True
      else if TotLayers c > 8 \<and> \<not> WindowTypeBSDF c \<and> \<not> WindowTypeEQL c then True
      else if TotLayers c = 1 then
        (if LayerGroup M c 1 = Shade \<or> LayerGroup M c 1 = WindowGas
            \<or> LayerGroup M c 1 = WindowGasMixture \<or> LayerGroup M c 1 = WindowBlind
            \<or> LayerGroup M c 1 = Screen \<or> LayerGroup M c 1 = ComplexWindowShade
            \<or> LayerGroup M c 1 = ComplexWindowGap
         then True else ErrorsFound)
      else ErrorsFound)"

text \<open>
  Lines 747-763: the loop variables are \<^verbatim>\<open>TotGlassLayers\<close>, \<^verbatim>\<open>TotShadeLayers\<close>,
  \<^verbatim>\<open>TotGasLayers\<close> and \<^verbatim>\<open>WrongWindowLayering\<close>.
\<close>

definition Count_body ::
  "MaterialProperties list \<Rightarrow> ConstructionData \<Rightarrow> int \<Rightarrow> int \<times> int \<times> int \<times> bool
     \<Rightarrow> int \<times> int \<times> int \<times> bool" where
  "Count_body M c Layer v =
     (case v of (TotGlassLayers0, TotShadeLayers0, TotGasLayers0, WrongWindowLayering0) \<Rightarrow>
      let MaterNum = at1 (LayerPoint c) Layer in
      if MaterNum = 0 then v
      else
        (let G = Group (at1 M MaterNum);
             TotGlassLayers1 = (if G = WindowGlass then TotGlassLayers0 + 1 else TotGlassLayers0);
             TotGlassLayers2 =
               (if G = WindowSimpleGlazing then TotGlassLayers1 + 1 else TotGlassLayers1);
             TotShadeLayers1 =
               (if G = Shade \<or> G = WindowBlind \<or> G = Screen \<or> G = ComplexWindowShade
                then TotShadeLayers0 + 1 else TotShadeLayers0);
             TotGasLayers1 =
               (if G = WindowGas \<or> G = WindowGasMixture \<or> G = ComplexWindowGap
                then TotGasLayers0 + 1 else TotGasLayers0);
             WrongWindowLayering1 =
               (if Layer < TotLayers c then
                  (let MaterNumNext = at1 (LayerPoint c) (Layer + 1) in
                   if MaterNumNext = 0 then WrongWindowLayering0
                   else if G = Group (at1 M MaterNumNext) then True
                   else WrongWindowLayering0)
                else WrongWindowLayering0)
         in (TotGlassLayers2, TotShadeLayers1, TotGasLayers1, WrongWindowLayering1)))"

definition Count_loop ::
  "MaterialProperties list \<Rightarrow> ConstructionData \<Rightarrow> int \<times> int \<times> int \<times> bool" where
  "Count_loop M c = fold (Count_body M c) [1..TotLayers c] (0, 0, 0, False)"

text \<open>
  Lines 785-794: a diffusing layer together with a shading layer. The second loop variable
  records the \<^verbatim>\<open>break\<close>.
\<close>

definition DiffusingShade_loop ::
  "MaterialProperties list \<Rightarrow> ConstructionData \<Rightarrow> int \<Rightarrow> bool \<Rightarrow> bool" where
  "DiffusingShade_loop M c TotShadeLayers_v ErrorsFound =
     fst (fold (\<lambda>Layer (ef, left).
                  if left then (ef, left)
                  else
                    (let MaterNum = at1 (LayerPoint c) Layer in
                     if MaterNum = 0 then (ef, left)
                     else if SolarDiffusing (at1 M MaterNum) \<and> TotShadeLayers_v > 0
                       then (True, True)
                     else (ef, left)))
               [1..TotLayers c] (ErrorsFound, False))"

text \<open>
  Lines 797-811: a diffusing glass layer that is not the innermost glass layer. The loop
  variables are \<^verbatim>\<open>GlassLayNum\<close> and \<^verbatim>\<open>ErrorsFound\<close>.
\<close>

definition DiffusingInnermost_loop ::
  "MaterialProperties list \<Rightarrow> ConstructionData \<Rightarrow> int \<Rightarrow> bool \<Rightarrow> bool" where
  "DiffusingInnermost_loop M c TotGlassLayers_v ErrorsFound =
     (if TotGlassLayers_v > 1 then
        snd (fold (\<lambda>Layer (GlassLayNum, ef).
                     let MaterNum = at1 (LayerPoint c) Layer in
                     if MaterNum = 0 then (GlassLayNum, ef)
                     else if Group (at1 M MaterNum) = WindowGlass then
                       (GlassLayNum + 1,
                        if GlassLayNum + 1 < TotGlassLayers_v \<and> SolarDiffusing (at1 M MaterNum)
                        then True else ef)
                     else (GlassLayNum, ef))
                  [1..TotLayers c] (0, ErrorsFound))
      else ErrorsFound)"

text \<open>
  Lines 876-882: the gases and the gap widths on the two sides of a between-glass shade or
  blind; \<open>MatGapL\<close> and \<open>MatGapR\<close> are the two gas materials.
\<close>

definition GapsDiffer :: "MaterialProperties \<Rightarrow> MaterialProperties \<Rightarrow> bool \<Rightarrow> bool" where
  "GapsDiffer MatGapL MatGapR WrongWindowLayering0 =
     (let w = fold (\<lambda>IGas w.
                      if at1 (GasType MatGapL) IGas \<noteq> at1 (GasType MatGapR) IGas
                         \<or> at1 (GasFract MatGapL) IGas \<noteq> at1 (GasFract MatGapR) IGas
                      then True else w)
                   [1..5] WrongWindowLayering0
      in if \<bar>Thickness MatGapL - Thickness MatGapR\<bar> > 0.0005 then True else w)"

text \<open>Lines 883-893: the slat of a between-glass blind against the two gaps.\<close>

definition SlatWidth_check ::
  "WindowBlindProperties list \<Rightarrow> MaterialProperties \<Rightarrow> MaterialProperties
     \<Rightarrow> MaterialProperties \<Rightarrow> bool \<Rightarrow> bool" where
  "SlatWidth_check B MatSh MatGapL MatGapR ErrorsFound =
     (if Group MatSh = WindowBlind then
        (let BlNum = BlindDataPtr MatSh in
         if BlNum > 0 then
           (if Thickness MatGapL + Thickness MatGapR < SlatWidth (at1 B BlNum) then True
            else ErrorsFound)
         else ErrorsFound)
      else ErrorsFound)"

text \<open>Lines 833 and 839: the two layer patterns.\<close>

definition IsGasGroup :: "int \<Rightarrow> bool" where
  "IsGasGroup G \<longleftrightarrow> G = WindowGas \<or> G = WindowGasMixture"

definition DoublePattern :: "MaterialProperties list \<Rightarrow> ConstructionData \<Rightarrow> bool" where
  "DoublePattern M c \<longleftrightarrow>
     LayerGroup M c 1 = WindowGlass
     \<and> (LayerGroup M c 2 = WindowGas \<or> LayerGroup M c 2 = WindowGasMixture)
     \<and> ((LayerGroup M c 3 = Shade \<or> LayerGroup M c 3 = WindowBlind)
        \<and> LayerGroup M c 3 \<noteq> Screen)
     \<and> (LayerGroup M c 4 = WindowGas \<or> LayerGroup M c 4 = WindowGasMixture)
     \<and> LayerGroup M c 5 = WindowGlass"

definition TriplePattern :: "MaterialProperties list \<Rightarrow> ConstructionData \<Rightarrow> bool" where
  "TriplePattern M c \<longleftrightarrow>
     LayerGroup M c 1 = WindowGlass
     \<and> (LayerGroup M c 2 = WindowGas \<or> LayerGroup M c 2 = WindowGasMixture)
     \<and> LayerGroup M c 3 = WindowGlass
     \<and> (LayerGroup M c 4 = WindowGas \<or> LayerGroup M c 4 = WindowGasMixture)
     \<and> ((LayerGroup M c 5 = Shade \<or> LayerGroup M c 5 = WindowBlind)
        \<and> LayerGroup M c 5 \<noteq> Screen)
     \<and> (LayerGroup M c 6 = WindowGas \<or> LayerGroup M c 6 = WindowGasMixture)
     \<and> LayerGroup M c 7 = WindowGlass"

text \<open>
  Lines 824-896, the body of the test of line 820, entered with \<^verbatim>\<open>WrongWindowLayering\<close>
  false. The result is the pair (\<^verbatim>\<open>WrongWindowLayering\<close>, \<^verbatim>\<open>ErrorsFound\<close>).
\<close>

definition BetweenGlass_body ::
  "MaterialProperties list \<Rightarrow> WindowBlindProperties list \<Rightarrow> ConstructionData \<Rightarrow> int
     \<Rightarrow> bool \<Rightarrow> bool \<times> bool" where
  "BetweenGlass_body M B c TotGlassLayers_v ErrorsFound =
     (if TotGlassLayers_v = 4 then (True, ErrorsFound)
      else if TotGlassLayers_v = 2 \<or> TotGlassLayers_v = 3 then
        (let (w1, ValidBGShadeBlindConst) =
               (if TotGlassLayers_v = 2 then
                  (if TotLayers c \<noteq> 5 then (True, False) else (False, DoublePattern M c))
                else
                  (if TotLayers c \<noteq> 7 then (True, False) else (False, TriplePattern M c)));
             w2 = (if \<not> ValidBGShadeBlindConst then True else w1)
         in if \<not> w2 then
              (let LayNumSh = 2 * TotGlassLayers_v - 1;
                   MatSh = at1 (LayerPoint c) LayNumSh;
                   w3 = (if Group (at1 M MatSh) \<noteq> Shade \<and> Group (at1 M MatSh) \<noteq> WindowBlind
                         then True else w2);
                   w4 = (if TotLayers c \<noteq> 2 * TotGlassLayers_v + 1 then True else w3)
               in if \<not> w4 then
                    (let MatGapL = at1 (LayerPoint c) (LayNumSh - 1);
                         MatGapR = at1 (LayerPoint c) (LayNumSh + 1)
                     in (GapsDiffer (at1 M MatGapL) (at1 M MatGapR) w4,
                         SlatWidth_check B (at1 M MatSh) (at1 M MatGapL) (at1 M MatGapR)
                           ErrorsFound))
                  else (w4, ErrorsFound))
            else (w2, ErrorsFound))
      else (False, ErrorsFound))"

text \<open>Line 820: a single shading layer that is neither the first nor the last layer.\<close>

definition BetweenGlass_cond ::
  "MaterialProperties list \<Rightarrow> ConstructionData \<Rightarrow> int \<Rightarrow> bool \<Rightarrow> bool" where
  "BetweenGlass_cond M c TotShadeLayers_v WrongWindowLayering0 \<longleftrightarrow>
     TotShadeLayers_v = 1
     \<and> LayerGroup M c 1 \<noteq> Shade \<and> LayerGroup M c 1 \<noteq> WindowBlind
     \<and> LayerGroup M c 1 \<noteq> Screen
     \<and> LayerGroup M c (TotLayers c) \<noteq> Shade \<and> LayerGroup M c (TotLayers c) \<noteq> WindowBlind
     \<and> LayerGroup M c (TotLayers c) \<noteq> ComplexWindowShade
     \<and> \<not> WrongWindowLayering0"

text \<open>Lines 900-918: a simple glazing system with other glass or gas layers.\<close>

definition SimpleGlazing_check ::
  "MaterialProperties list \<Rightarrow> ConstructionData \<Rightarrow> bool \<Rightarrow> bool" where
  "SimpleGlazing_check M c ErrorsFound =
     (if LayerGroup M c 1 = WindowSimpleGlazing then
        (if TotLayers c > 1 then
           fold (\<lambda>Layer ef.
                   let MaterNum = at1 (LayerPoint c) Layer in
                   if MaterNum = 0 then ef
                   else
                     (let ef1 = (if Group (at1 M MaterNum) = WindowGlass then True else ef)
                      in if Group (at1 M MaterNum) = WindowGas then True else ef1))
                [1..TotLayers c] ErrorsFound
         else ErrorsFound)
      else ErrorsFound)"

text \<open>
  Lines 781-940: the layering rules of a window that is neither a BSDF nor an
  equivalent-layer window. The arguments are the counts of the loop of lines 750-763 and
  the values of \<^verbatim>\<open>WrongWindowLayering\<close> and \<^verbatim>\<open>ErrorsFound\<close> after it; the result is the
  pair (\<^verbatim>\<open>WrongWindowLayering\<close> at line 920, \<^verbatim>\<open>ErrorsFound\<close> after line 940).
\<close>

definition WindowLayering ::
  "MaterialProperties list \<Rightarrow> WindowBlindProperties list \<Rightarrow> ConstructionData \<Rightarrow> int \<Rightarrow> int
     \<Rightarrow> bool \<Rightarrow> bool \<Rightarrow> bool \<times> bool" where
  "WindowLayering M B c TotGlassLayers_v TotShadeLayers_v WrongWindowLayering0 ErrorsFound =
     (let w1 = (if LayerGroup M c 1 = WindowGas \<or> LayerGroup M c 1 = WindowGasMixture
                   \<or> LayerGroup M c (TotLayers c) = WindowGas
                   \<or> LayerGroup M c (TotLayers c) = WindowGasMixture
                then True else WrongWindowLayering0);
          w2 = (if TotShadeLayers_v > 1 then True else w1);
          ef1 = DiffusingShade_loop M c TotShadeLayers_v ErrorsFound;
          ef2 = DiffusingInnermost_loop M c TotGlassLayers_v ef1;
          w3 = (if TotShadeLayers_v = 1 \<and> LayerGroup M c (TotLayers c) = Screen
                   \<and> TotLayers c \<noteq> 1
                then True else w2);
          (w4, ef3) = (if BetweenGlass_cond M c TotShadeLayers_v w3
                       then BetweenGlass_body M B c TotGlassLayers_v ef2
                       else (w3, ef2));
          ef4 = SimpleGlazing_check M c ef3
      in (w4, if w4 then True else ef4))"

text \<open>
  Lines 942-964: the counts and absorptances of a window. The arguments \<open>InsideLayer\<close> and
  \<open>InsideMaterNum\<close> are the locals of that name; the result carries the new
  \<^verbatim>\<open>InsideLayer\<close>.
\<close>

definition WindowProperties ::
  "MaterialProperties list \<Rightarrow> ConstructionData \<Rightarrow> int \<Rightarrow> int \<Rightarrow> int \<Rightarrow> int
     \<Rightarrow> ConstructionData \<times> int" where
  "WindowProperties M c TotGlassLayers_v TotShadeLayers_v InsideLayer InsideMaterNum =
     (let c1 = c\<lparr>TotGlassLayers := TotGlassLayers_v,
                 TotSolidLayers := TotGlassLayers_v + TotShadeLayers_v\<rparr>;
          InsideLayer1 =
            (if LayerGroup M c1 InsideLayer = Shade \<or> LayerGroup M c1 InsideLayer = WindowBlind
             then InsideLayer - 1 else InsideLayer);
          (InsideMaterNum1, c2) =
            (if InsideLayer1 > 0
             then (at1 (LayerPoint c1) InsideLayer1,
                   c1\<lparr>InsideAbsorpThermal :=
                        AbsorpThermalBack (at1 M (at1 (LayerPoint c1) InsideLayer1))\<rparr>)
             else (InsideMaterNum, c1));
          c3 = (if InsideMaterNum1 \<noteq> 0
                then c2\<lparr>InsideAbsorpVis := AbsorpVisible (at1 M InsideMaterNum1),
                        InsideAbsorpSolar := AbsorpSolar (at1 M InsideMaterNum1)\<rparr>
                else c2);
          c4 = (if LayerGroup M c3 1 = WindowGlass \<or> LayerGroup M c3 1 = WindowSimpleGlazing
                then c3\<lparr>OutsideAbsorpThermal :=
                          AbsorpThermalFront (at1 M (at1 (LayerPoint c3) 1))\<rparr>
                else c3\<lparr>OutsideAbsorpThermal :=
                          AbsorpThermal (at1 M (at1 (LayerPoint c3) 1))\<rparr>)
      in (c4, InsideLayer1))"

text \<open>
  Lines 717-965, the window branch. \<open>Inl\<close> is the \<^verbatim>\<open>return\<close> of a BSDF or equivalent-layer
  window (lines 767-779); \<open>Inr\<close> carries on to line 971 with the construction, the flag
  and \<^verbatim>\<open>InsideLayer\<close>.
\<close>

definition WindowBranch ::
  "MaterialProperties list \<Rightarrow> WindowBlindProperties list \<Rightarrow> ConstructionData \<Rightarrow> int \<Rightarrow> int
     \<Rightarrow> bool \<Rightarrow> (ConstructionData \<times> bool) + (ConstructionData \<times> bool \<times> int)" where
  "WindowBranch M B c InsideLayer InsideMaterNum ErrorsFound =
     (let c1 = c\<lparr>NumCTFTerms := 0, NumHistories := 0\<rparr>;
          ef1 = MixCountSingle_check M c1 ErrorsFound
      in case Count_loop M c1 of
           (TotGlassLayers_v, TotShadeLayers_v, TotGasLayers_v, w0) \<Rightarrow>
             if WindowTypeBSDF c1 then
               Inl (c1\<lparr>TotGlassLayers := TotGlassLayers_v,
                       TotSolidLayers := TotGlassLayers_v + TotShadeLayers_v,
                       InsideAbsorpThermal :=
                         AbsorpThermalBack (at1 M (at1 (LayerPoint c1) InsideLayer)),
                       OutsideAbsorpThermal :=
                         AbsorpThermalFront (at1 M (at1 (LayerPoint c1) 1))\<rparr>, ef1)
             else if WindowTypeEQL c1 then
               Inl (c1\<lparr>InsideAbsorpThermal :=
                         AbsorpThermalBack (at1 M (at1 (LayerPoint c1) InsideLayer)),
                       OutsideAbsorpThermal :=
                         AbsorpThermalFront (at1 M (at1 (LayerPoint c1) 1))\<rparr>, ef1)
             else
               (case WindowLayering M B c1 TotGlassLayers_v TotShadeLayers_v w0 ef1 of
                  (w, ef2) \<Rightarrow>
                    (case WindowProperties M c1 TotGlassLayers_v TotShadeLayers_v InsideLayer
                            InsideMaterNum of
                       (c2, InsideLayer1) \<Rightarrow> Inr (c2, ef2, InsideLayer1))))"

text \<open>Lines 986-996: the vegetated roof.\<close>

definition EcoRoof_check ::
  "MaterialProperties list \<Rightarrow> ConstructionData \<Rightarrow> bool \<Rightarrow> ConstructionData \<times> bool" where
  "EcoRoof_check M c ErrorsFound =
     (if LayerGroup M c 1 = EcoRoof then
        (c\<lparr>TypeIsEcoRoof := True\<rparr>,
         fold (\<lambda>Layer ef. if LayerGroup M c Layer = EcoRoof then True else ef)
              [2..TotLayers c] ErrorsFound)
      else (c, ErrorsFound))"

text \<open>Lines 998-1005: the infrared-transparent construction.\<close>

definition IRT_check ::
  "MaterialProperties list \<Rightarrow> ConstructionData \<Rightarrow> bool \<Rightarrow> ConstructionData \<times> bool" where
  "IRT_check M c ErrorsFound =
     (if LayerGroup M c 1 = IRTMaterial then
        (c\<lparr>TypeIsIRT := True\<rparr>, if TotLayers c \<noteq> 1 then True else ErrorsFound)
      else (c, ErrorsFound))"

text \<open>Lines 971-1005.\<close>

definition FinalChecks ::
  "MaterialProperties list \<Rightarrow> ConstructionData \<Rightarrow> bool \<Rightarrow> int \<Rightarrow> ConstructionData \<times> bool" where
  "FinalChecks M c ErrorsFound InsideLayer =
     (let c1 = c\<lparr>OutsideRoughness := Roughness (at1 M (at1 (LayerPoint c) 1))\<rparr>;
          ef1 = (if LayerGroup M c1 1 = Air then True else ErrorsFound);
          ef2 = (if InsideLayer > 0
                 then (if LayerGroup M c1 InsideLayer = Air then True else ef1)
                 else ef1)
      in case EcoRoof_check M c1 ef2 of (c2, ef3) \<Rightarrow> IRT_check M c2 ef3)"

text \<open>
  Lines 684-712: the properties set before the construction is classified, and the
  classification. \<open>InsideMaterNum\<close> and \<open>OutsideMaterNum\<close> are the locals of that name.
\<close>

definition InitialProperties ::
  "MaterialProperties list \<Rightarrow> ConstructionData \<Rightarrow> int \<Rightarrow> int \<Rightarrow> ConstructionData" where
  "InitialProperties M c InsideMaterNum OutsideMaterNum =
     (let c1 = c\<lparr>DayltPropPtr := 0\<rparr>;
          c2 = (if InsideMaterNum \<noteq> 0
                then c1\<lparr>InsideAbsorpVis := AbsorpVisible (at1 M InsideMaterNum),
                        InsideAbsorpSolar := AbsorpSolar (at1 M InsideMaterNum),
                        ReflectVisDiffBack := 1 - AbsorpVisible (at1 M InsideMaterNum)\<rparr>
                else c1);
          c3 = (if OutsideMaterNum \<noteq> 0
                then c2\<lparr>OutsideAbsorpVis := AbsorpVisible (at1 M OutsideMaterNum),
                        OutsideAbsorpSolar := AbsorpSolar (at1 M OutsideMaterNum)\<rparr>
                else c2);
          c4 = c3\<lparr>TotSolidLayers := 0, TotGlassLayers := 0, AbsDiffShade := 0\<rparr>
      in c4\<lparr>TypeIsWindow := TypeIsWindow_loop M c4\<rparr>)"

text \<open>Lines 966-969: the thermal absorptances of an opaque construction.\<close>

definition OpaqueProperties ::
  "MaterialProperties list \<Rightarrow> ConstructionData \<Rightarrow> int \<Rightarrow> ConstructionData" where
  "OpaqueProperties M c InsideLayer =
     c\<lparr>InsideAbsorpThermal := AbsorpThermal (at1 M (at1 (LayerPoint c) InsideLayer)),
       OutsideAbsorpThermal := AbsorpThermal (at1 M (at1 (LayerPoint c) 1))\<rparr>"

text \<open>
  Lines 677-1007 on the entry \<open>c\<close>. The two tests of lines 679-680 come in the order of
  the source: the layer slot \<^verbatim>\<open>TotLayers\<close> is read first.
\<close>

definition CheckConstruct ::
  "MaterialProperties list \<Rightarrow> WindowBlindProperties list \<Rightarrow> ConstructionData \<Rightarrow> bool
     \<Rightarrow> ConstructionData \<times> bool" where
  "CheckConstruct M B c ErrorsFound =
     (let InsideLayer = TotLayers c in
      if at1 (LayerPoint c) InsideLayer \<le> 0 then (c, ErrorsFound)
      else if TotLayers c = 0 then (c, ErrorsFound)
      else
        (let InsideMaterNum = at1 (LayerPoint c) InsideLayer;
             OutsideMaterNum = at1 (LayerPoint c) 1;
             c5 = InitialProperties M c InsideMaterNum OutsideMaterNum
         in if InsideMaterNum = 0 then (c5, ErrorsFound)
            else if OutsideMaterNum = 0 then (c5, ErrorsFound)
            else
              (case (if TypeIsWindow c5
                     then WindowBranch M B c5 InsideLayer InsideMaterNum ErrorsFound
                     else Inr (OpaqueProperties M c5 InsideLayer, ErrorsFound, InsideLayer)) of
                 Inl r \<Rightarrow> r
               | Inr (c6, ef, InsideLayer1) \<Rightarrow> FinalChecks M c6 ef InsideLayer1)))"

text \<open>
  \<^verbatim>\<open>CheckAndSetConstructionProperties( ConstrNum, ErrorsFound )\<close> on the module data \<open>g\<close>:
  the result is the data with the entry \<^verbatim>\<open>Construct( ConstrNum )\<close> rewritten, and the flag.
\<close>

definition CheckAndSetConstructionProperties ::
  "HeatBalanceData \<Rightarrow> int \<Rightarrow> bool \<Rightarrow> HeatBalanceData \<times> bool" where
  "CheckAndSetConstructionProperties g ConstrNum ErrorsFound =
     (case CheckConstruct (Material g) (Blind g) (at1 (Construct g) ConstrNum) ErrorsFound of
        (c', ErrorsFound') \<Rightarrow>
          (g\<lparr>Construct := upd1 (Construct g) ConstrNum c'\<rparr>, ErrorsFound'))"

subsection \<open>\<^verbatim>\<open>AssignReverseConstructionNumber\<close>\<close>

text \<open>
  Lines 1064-1069: the static local array \<^verbatim>\<open>LayerPoint\<close>, set to zero and then filled with
  the layers of the construction from the last to the first. The loop variables are
  \<^verbatim>\<open>nLayer\<close> and the array.
\<close>

definition ReverseLayers :: "ConstructionData \<Rightarrow> int list" where
  "ReverseLayers c =
     snd (fold (\<lambda>Loop (nLayer, LP).
                  (nLayer + 1, upd1 LP (nLayer + 1) (at1 (LayerPoint c) Loop)))
               (rev [1..TotLayers c])
               (0, replicate (nat MaxLayersInConstruct) 0))"

text \<open>
  Lines 1074-1080: the inner loop compares all \<open>MaxLayersInConstruct\<close> slots and leaves at
  the first difference.
\<close>

definition LayersMatch :: "ConstructionData \<Rightarrow> int list \<Rightarrow> bool" where
  "LayersMatch c LP \<longleftrightarrow>
     list_all (\<lambda>nLayer. at1 (LayerPoint c) nLayer = at1 LP nLayer) [1..MaxLayersInConstruct]"

text \<open>
  Lines 1072-1085: the outer loop leaves at the first construction that matches; 0 when
  none does.
\<close>

definition FindMatch :: "ConstructionData list \<Rightarrow> int \<Rightarrow> int list \<Rightarrow> int" where
  "FindMatch Cs TotConstructs_v LP =
     (case find (\<lambda>Loop. LayersMatch (at1 Cs Loop) LP) [1..TotConstructs_v] of
        None \<Rightarrow> 0
      | Some Loop \<Rightarrow> Loop)"

text \<open>\<^verbatim>\<open>trim\<close> of a Fortran string: without its trailing blanks.\<close>

definition trim :: "string \<Rightarrow> string" where
  "trim s = rev (dropWhile (\<lambda>ch. ch = CHR '' '') (rev s))"

text \<open>
  Lines 1117-1122: the layers of the new construction and its nominal resistance. The loop
  variables are the new entry and \<^verbatim>\<open>NominalRforNominalUCalculation( TotConstructs )\<close>.
\<close>

definition NewLayers_loop ::
  "real list \<Rightarrow> int list \<Rightarrow> ConstructionData \<Rightarrow> real \<Rightarrow> ConstructionData \<times> real" where
  "NewLayers_loop NominalR_v LP c R =
     fold (\<lambda>nLayer (c, R).
             (c\<lparr>LayerPoint := upd1 (LayerPoint c) nLayer (at1 LP nLayer)\<rparr>,
              if at1 LP nLayer \<noteq> 0 then R + at1 NominalR_v (at1 LP nLayer) else R))
          [1..MaxLayersInConstruct] (c, R)"

text \<open>
  Lines 1088-1132: a new entry at the end of \<^verbatim>\<open>Construct\<close>, \<^verbatim>\<open>NominalRforNominalUCalculation\<close>
  and \<^verbatim>\<open>NominalU\<close>. The arrays are reallocated with one more element and their first
  \<^verbatim>\<open>TotConstructs\<close> elements copied; the new elements of the two real arrays start at 0,
  and the new element of \<^verbatim>\<open>Construct\<close> is overwritten at line 1113 with a copy of
  \<^verbatim>\<open>Construct( ConstrNum )\<close>.
\<close>

definition AppendReverse ::
  "HeatBalanceData \<Rightarrow> int \<Rightarrow> int list \<Rightarrow> bool \<Rightarrow> HeatBalanceData \<times> bool \<times> int" where
  "AppendReverse g ConstrNum LP ErrorsFound =
     (let old = nat (TotConstructs g);
          TotConstructs1 = TotConstructs g + 1;
          src = at1 (Construct g) ConstrNum;
          c0 = src\<lparr>ConstructionData.Name := ''iz-'' @ trim (ConstructionData.Name src),
                   TotLayers := TotLayers src\<rparr>;
          (c1, R) = NewLayers_loop (NominalR g) LP c0 0;
          U = (if R \<noteq> 0 then 1 / R else 0);
          g1 = g\<lparr>Construct := take old (Construct g) @ [c1],
                 TotConstructs := TotConstructs1,
                 NominalRforNominalUCalculation :=
                   take old (NominalRforNominalUCalculation g) @ [R],
                 NominalU := take old (NominalU g) @ [U]\<rparr>
      in case CheckAndSetConstructionProperties g1 TotConstructs1 ErrorsFound of
           (g2, ErrorsFound') \<Rightarrow> (g2, ErrorsFound', TotConstructs1))"

text \<open>Line 1063: \<^verbatim>\<open>Construct( ConstrNum ).IsUsed = true\<close>.\<close>

definition MarkUsed :: "HeatBalanceData \<Rightarrow> int \<Rightarrow> HeatBalanceData" where
  "MarkUsed g ConstrNum =
     g\<lparr>Construct :=
         upd1 (Construct g) ConstrNum ((at1 (Construct g) ConstrNum)\<lparr>IsUsed := True\<rparr>)\<rparr>"

text \<open>
  \<^verbatim>\<open>AssignReverseConstructionNumber( ConstrNum, ErrorsFound )\<close>: the result is the module
  data, the flag and the returned \<^verbatim>\<open>NewConstrNum\<close>.
\<close>

definition AssignReverseConstructionNumber ::
  "HeatBalanceData \<Rightarrow> int \<Rightarrow> bool \<Rightarrow> HeatBalanceData \<times> bool \<times> int" where
  "AssignReverseConstructionNumber g ConstrNum ErrorsFound =
     (if ConstrNum = 0 then (g, ErrorsFound, 0)
      else
        (let g1 = MarkUsed g ConstrNum;
             LP = ReverseLayers (at1 (Construct g1) ConstrNum);
             NewConstrNum = FindMatch (Construct g1) (TotConstructs g1) LP
         in if NewConstrNum = 0 then AppendReverse g1 ConstrNum LP ErrorsFound
            else (g1, ErrorsFound, NewConstrNum)))"

text \<open>
  The data invariant of the construction registry: the arrays have \<^verbatim>\<open>TotConstructs\<close>
  entries, and every entry has \<open>MaxLayersInConstruct\<close> layer slots, of which the first
  \<open>TotLayers\<close> refer to a material and the others are zero.
\<close>

definition LayersWellFormed :: "ConstructionData \<Rightarrow> bool" where
  "LayersWellFormed c \<longleftrightarrow>
     0 \<le> TotLayers c \<and> TotLayers c \<le> MaxLayersInConstruct
     \<and> int (length (LayerPoint c)) = MaxLayersInConstruct
     \<and> list_all (\<lambda>Layer. (at1 (LayerPoint c) Layer \<noteq> 0) = (Layer \<le> TotLayers c))
          [1..MaxLayersInConstruct]"

definition RegistryWellFormed :: "HeatBalanceData \<Rightarrow> bool" where
  "RegistryWellFormed g \<longleftrightarrow>
     int (length (Construct g)) = TotConstructs g \<and> list_all LayersWellFormed (Construct g)"

subsection \<open>\<^verbatim>\<open>AddVariableSlatBlind\<close>\<close>

text \<open>
  Modelled from the spec: \<^verbatim>\<open>FindItemInList\<close> of \<^verbatim>\<open>InputProcessor\<close>, which is not among the
  sources; the spec says "look up a clone by a reserved name-prefix convention; if found,
  return its index". The model returns the first index among the first \<open>NumItems\<close> names
  whose name is the given one up to trailing blanks, and 0 when there is none.
\<close>

definition FindItemInList :: "string \<Rightarrow> string list \<Rightarrow> int \<Rightarrow> int" where
  "FindItemInList String ListOfItems NumItems =
     (case find (\<lambda>Count. trim (at1 ListOfItems Count) = trim String) [1..NumItems] of
        None \<Rightarrow> 0
      | Some Count \<Rightarrow> Count)"

text \<open>
  The messages of \<^verbatim>\<open>ShowSevereError\<close>, \<^verbatim>\<open>ShowWarningError\<close> and \<^verbatim>\<open>ShowContinueError\<close>, in
  the order of the calls.
\<close>

datatype Diagnostic = SevereError string | WarningError string | ContinueError string

text \<open>Lines 1205-1211: the slat angles that the geometry of the blind allows.\<close>

definition MinSlatAngGeom_of :: "WindowBlindProperties \<Rightarrow> real" where
  "MinSlatAngGeom_of b =
     (if SlatWidth b > SlatSeparation b
      then arcsin (SlatThickness b / (SlatThickness b + SlatSeparation b)) / DegToRadians
      else 0)"

definition MaxSlatAngGeom_of :: "WindowBlindProperties \<Rightarrow> real" where
  "MaxSlatAngGeom_of b = 180 - MinSlatAngGeom_of b"

text \<open>
  Lines 1213-1245 on the new entry \<open>b\<close>; \<open>inName\<close> is \<^verbatim>\<open>Blind( inBlindNumber ).Name\<close> and
  \<open>rsd\<close> stands for \<^verbatim>\<open>RoundSigDigits\<close> of \<^verbatim>\<open>General\<close>, which is not among the sources and
  only formats the numbers of the messages. The result is the entry, \<^verbatim>\<open>errFlag\<close> and the
  messages.
\<close>

definition SlatAngle_checks ::
  "(real \<Rightarrow> int \<Rightarrow> string) \<Rightarrow> string \<Rightarrow> WindowBlindProperties
     \<Rightarrow> WindowBlindProperties \<times> bool \<times> Diagnostic list" where
  "SlatAngle_checks rsd inName b =
     (let MinSlatAngGeom = MinSlatAngGeom_of b;
          MaxSlatAngGeom = MaxSlatAngGeom_of b;
          intro = ''WindowMaterial:Blind='' @ [CHR 0x22] @ trim inName @ [CHR 0x22]
                    @ '', Illegal value combination.'';
          (err1, d1) =
            (if MaxSlatAngle b < MinSlatAngle b
             then (True,
                   [SevereError intro,
                    ContinueError (''Minimum Slat Angle=['' @ trim (rsd (MinSlatAngle b) 1)
                      @ ''], is greater than Maximum Slat Angle=[''
                      @ trim (rsd (MaxSlatAngle b) 1) @ ''] deg.'')])
             else (False, []));
          (err2, d2) =
            (if MaxSlatAngle b > MinSlatAngle b
                \<and> (SlatAngle b < MinSlatAngle b \<or> SlatAngle b > MaxSlatAngle b)
             then (True,
                   d1 @ [SevereError intro,
                    ContinueError (''Slat Angle=['' @ trim (rsd (SlatAngle b) 1)
                      @ ''] is outside of the input min/max range, min=[''
                      @ trim (rsd (MinSlatAngle b) 1) @ ''], max=[''
                      @ trim (rsd (MaxSlatAngle b) 1) @ ''] deg.'')])
             else (err1, d1));
          (b3, d3) =
            (if MinSlatAngle b < MinSlatAngGeom
             then (b\<lparr>MinSlatAngle := MinSlatAngGeom\<rparr>,
                   d2 @ [WarningError intro,
                    ContinueError (''Minimum Slat Angle=['' @ trim (rsd (MinSlatAngle b) 1)
                      @ ''] is less than the smallest allowed by slat dimensions and spacing, min=[''
                      @ trim (rsd MinSlatAngGeom 1) @ ''] deg.''),
                    ContinueError (''Minimum Slat Angle will be set to ''
                      @ trim (rsd MinSlatAngGeom 1) @ '' deg.'')])
             else (b, d2));
          (b4, d4) =
            (if MaxSlatAngle b3 > MaxSlatAngGeom
             then (b3\<lparr>MaxSlatAngle := MaxSlatAngGeom\<rparr>,
                   d3 @ [WarningError intro,
                    ContinueError (''Maximum Slat Angle=['' @ trim (rsd (MaxSlatAngle b3) 1)
                      @ ''] is greater than the largest allowed by slat dimensions and spacing, [''
                      @ trim (rsd MaxSlatAngGeom 1) @ ''] deg.''),
                    ContinueError (''Maximum Slat Angle will be set to ''
                      @ trim (rsd MaxSlatAngGeom 1) @ '' deg.'')])
             else (b3, d3))
      in (b4, err2, d4))"

text \<open>
  \<^verbatim>\<open>AddVariableSlatBlind( inBlindNumber, outBlindNumber, errFlag )\<close>: the result is the module
  data, \<^verbatim>\<open>outBlindNumber\<close>, \<^verbatim>\<open>errFlag\<close> and the messages. Both output arguments are
  assigned on every path, so their values at the call do not matter.
\<close>

definition AddVariableSlatBlind ::
  "(real \<Rightarrow> int \<Rightarrow> string) \<Rightarrow> HeatBalanceData \<Rightarrow> int
     \<Rightarrow> HeatBalanceData \<times> int \<times> bool \<times> Diagnostic list" where
  "AddVariableSlatBlind rsd g inBlindNumber =
     (let Found = FindItemInList
                    (''~'' @ trim (WindowBlindProperties.Name (at1 (Blind g) inBlindNumber)))
                    (map WindowBlindProperties.Name (Blind g)) (TotBlinds g)
      in if Found = 0 then
           (let TotBlinds1 = TotBlinds g + 1;
                src = at1 (Blind g) inBlindNumber;
                b0 = src\<lparr>WindowBlindProperties.Name := ''~'' @ WindowBlindProperties.Name src,
                         SlatAngleType := VariableSlats\<rparr>
            in case SlatAngle_checks rsd (WindowBlindProperties.Name src) b0 of
                 (b1, errFlag, msgs) \<Rightarrow>
                   (g\<lparr>Blind := take (nat (TotBlinds g)) (Blind g) @ [b1],
                      TotBlinds := TotBlinds1\<rparr>,
                    TotBlinds1, errFlag, msgs))
         else (g, Found, False, []))"

subsection \<open>What the layer rules read and count\<close>

text \<open>
  The rules of \<^verbatim>\<open>CheckAndSetConstructionProperties\<close> read four fields of the construction:
  the number of layers, the layer slots and the two flags of the special window models.
\<close>

definition LayerFields :: "ConstructionData \<Rightarrow> int \<times> int list \<times> bool \<times> bool" where
  "LayerFields c = (TotLayers c, LayerPoint c, WindowTypeBSDF c, WindowTypeEQL c)"

text \<open>
  The loop of lines 750-763 counts a layer with a material as glass, as shading or as gas
  by its group, and looks for a layer whose successor has a material of the same group.
\<close>

definition CountsAsGlass :: "MaterialProperties list \<Rightarrow> ConstructionData \<Rightarrow> int \<Rightarrow> bool" where
  "CountsAsGlass M c Layer \<longleftrightarrow>
     at1 (LayerPoint c) Layer \<noteq> 0
     \<and> (LayerGroup M c Layer = WindowGlass \<or> LayerGroup M c Layer = WindowSimpleGlazing)"

definition CountsAsShade :: "MaterialProperties list \<Rightarrow> ConstructionData \<Rightarrow> int \<Rightarrow> bool" where
  "CountsAsShade M c Layer \<longleftrightarrow>
     at1 (LayerPoint c) Layer \<noteq> 0
     \<and> (LayerGroup M c Layer = Shade \<or> LayerGroup M c Layer = WindowBlind
        \<or> LayerGroup M c Layer = Screen \<or> LayerGroup M c Layer = ComplexWindowShade)"

definition CountsAsGas :: "MaterialProperties list \<Rightarrow> ConstructionData \<Rightarrow> int \<Rightarrow> bool" where
  "CountsAsGas M c Layer \<longleftrightarrow>
     at1 (LayerPoint c) Layer \<noteq> 0
     \<and> (LayerGroup M c Layer = WindowGas \<or> LayerGroup M c Layer = WindowGasMixture
        \<or> LayerGroup M c Layer = ComplexWindowGap)"

definition SameGroupAsNext :: "MaterialProperties list \<Rightarrow> ConstructionData \<Rightarrow> int \<Rightarrow> bool" where
  "SameGroupAsNext M c Layer \<longleftrightarrow>
     at1 (LayerPoint c) Layer \<noteq> 0 \<and> Layer < TotLayers c
     \<and> at1 (LayerPoint c) (Layer + 1) \<noteq> 0
     \<and> LayerGroup M c Layer = LayerGroup M c (Layer + 1)"

section \<open>Concrete data\<close>

text \<open>
  A screen whose wires are half as thick as they are apart, with the scattered beam not
  modelled, before and after a call at normal incidence.
\<close>

definition ex_screen :: ScreenTransData where
  "ex_screen =
     \<lparr>ScreenDiameterToSpacingRatio = 1 / 2, ReflectCylinder = 1 / 5, ReflectCylinderVis = 1 / 5,
      ScreenBeamReflectanceAccounting = DoNotModel,
      BmBmTrans = 0, BmBmTransVis = 0, BmBmTransBack = 0,
      BmDifTrans = 0, BmDifTransVis = 0, BmDifTransBack = 0,
      ReflectSolBeamFront = 0, ReflectVisBeamFront = 0, AbsorpSolarBeamFront = 0,
      ReflectSolBeamBack = 0, ReflectVisBeamBack = 0, AbsorpSolarBeamBack = 0\<rparr>"

definition ex_screen_after :: ScreenTransData where
  "ex_screen_after =
     \<lparr>ScreenDiameterToSpacingRatio = 1 / 2, ReflectCylinder = 1 / 5, ReflectCylinderVis = 1 / 5,
      ScreenBeamReflectanceAccounting = DoNotModel,
      BmBmTrans = 1 / 4, BmBmTransVis = 1 / 4, BmBmTransBack = 0,
      BmDifTrans = 0, BmDifTransVis = 0, BmDifTransBack = 0,
      ReflectSolBeamFront = 3 / 20, ReflectVisBeamFront = 3 / 20, AbsorpSolarBeamFront = 3 / 5,
      ReflectSolBeamBack = 0, ReflectVisBeamBack = 0, AbsorpSolarBeamBack = 0\<rparr>"

definition ex_screen_globals :: ScreenGlobals where
  "ex_screen_globals =
     \<lparr>Surface = [], SurfaceWindow = [], SOLCOS = [0, 0, 1], SurfaceScreens = [ex_screen]\<rparr>"

definition ex_screen_globals_after :: ScreenGlobals where
  "ex_screen_globals_after =
     \<lparr>Surface = [], SurfaceWindow = [], SOLCOS = [0, 0, 1],
      SurfaceScreens = [ex_screen_after]\<rparr>"

text \<open>
  Materials: 1 a clear glass pane, 2 and 3 two air gaps of the same width, 4 an argon gap,
  5 a shade, 6 a concrete layer, 7 a vegetated roof layer. In \<open>GasType\<close>, 1 is air and
  2 is argon.
\<close>

definition mk_material :: "int \<Rightarrow> real \<Rightarrow> int list \<Rightarrow> real list \<Rightarrow> MaterialProperties" where
  "mk_material G th gt gf =
     \<lparr>Group = G, Roughness = 3, AbsorpVisible = 7 / 10, AbsorpSolar = 7 / 10,
      AbsorpThermal = 9 / 10, AbsorpThermalFront = 21 / 25, AbsorpThermalBack = 21 / 25,
      Thickness = th, SolarDiffusing = False, GasType = gt, GasFract = gf,
      BlindDataPtr = 0\<rparr>"

definition ex_materials :: "MaterialProperties list" where
  "ex_materials =
     [mk_material WindowGlass (3 / 1000) [0, 0, 0, 0, 0] [0, 0, 0, 0, 0],
      mk_material WindowGas (127 / 10000) [1, 0, 0, 0, 0] [1, 0, 0, 0, 0],
      mk_material WindowGas (127 / 10000) [1, 0, 0, 0, 0] [1, 0, 0, 0, 0],
      mk_material WindowGas (127 / 10000) [2, 0, 0, 0, 0] [1, 0, 0, 0, 0],
      mk_material Shade (5 / 1000) [0, 0, 0, 0, 0] [0, 0, 0, 0, 0],
      mk_material RegularMaterial (1 / 5) [0, 0, 0, 0, 0] [0, 0, 0, 0, 0],
      mk_material EcoRoof (1 / 10) [0, 0, 0, 0, 0] [0, 0, 0, 0, 0]]"

text \<open>
  A construction as the input leaves it: a name, the number of layers, and the layer
  slots (eleven of them), with the BSDF flag as given.
\<close>

definition mk_construct :: "string \<Rightarrow> int \<Rightarrow> int list \<Rightarrow> bool \<Rightarrow> ConstructionData" where
  "mk_construct nm n layers bsdf =
     \<lparr>ConstructionData.Name = nm, TotLayers = n, LayerPoint = layers, IsUsed = False,
      DayltPropPtr = 0, InsideAbsorpVis = 0, OutsideAbsorpVis = 0, InsideAbsorpSolar = 0,
      OutsideAbsorpSolar = 0, InsideAbsorpThermal = 0, OutsideAbsorpThermal = 0,
      OutsideRoughness = 0, ReflectVisDiffBack = 0, TotSolidLayers = 0, TotGlassLayers = 0,
      AbsDiffShade = 0, TypeIsWindow = False, NumCTFTerms = 0, NumHistories = 0,
      WindowTypeBSDF = bsdf, WindowTypeEQL = False, TypeIsEcoRoof = False,
      TypeIsIRT = False\<rparr>"

text \<open>
  Constructions: 1 a single glass pane, 2 a single concrete layer, 3 concrete outside and
  a vegetated roof layer inside, 4 glass / air / shade / air / glass, 5 glass / air /
  shade / argon / glass, 6 as 5 with the BSDF flag.
\<close>

definition ex_constructs :: "ConstructionData list" where
  "ex_constructs =
     [mk_construct ''PANE'' 1 [1, 0, 0, 0, 0, 0, 0, 0, 0, 0, 0] False,
      mk_construct ''SLAB'' 1 [6, 0, 0, 0, 0, 0, 0, 0, 0, 0, 0] False,
      mk_construct ''ROOF INSIDE'' 2 [6, 7, 0, 0, 0, 0, 0, 0, 0, 0, 0] False,
      mk_construct ''BG SHADE'' 5 [1, 2, 5, 3, 1, 0, 0, 0, 0, 0, 0] False,
      mk_construct ''BG SHADE MIXED'' 5 [1, 2, 5, 4, 1, 0, 0, 0, 0, 0, 0] False,
      mk_construct ''BG SHADE BSDF'' 5 [1, 2, 5, 4, 1, 0, 0, 0, 0, 0, 0] True]"

definition ex_data :: HeatBalanceData where
  "ex_data =
     \<lparr>Material = ex_materials, Blind = [], TotBlinds = 0,
      Construct = ex_constructs, TotConstructs = 6,
      NominalR = [0, 0, 0, 0, 0, 1 / 10, 1 / 2],
      NominalRforNominalUCalculation = [0, 1 / 10, 3 / 5, 0, 0, 0],
      NominalU = [0, 10, 5 / 3, 0, 0, 0]\<rparr>"

text \<open>
  A blind whose slats are twice as wide as they are apart and as thick as they are apart,
  declared with slat angles from 10 to 170 degrees.
\<close>

definition ex_blind :: WindowBlindProperties where
  "ex_blind =
     \<lparr>WindowBlindProperties.Name = ''B1'', SlatAngleType = FixedSlats, SlatWidth = 2,
      SlatSeparation = 1, SlatThickness = 1, SlatAngle = 45, MinSlatAngle = 10,
      MaxSlatAngle = 170\<rparr>"

definition ex_blind_data :: HeatBalanceData where
  "ex_blind_data =
     \<lparr>Material = [], Blind = [ex_blind], TotBlinds = 1, Construct = [], TotConstructs = 0,
      NominalR = [], NominalRforNominalUCalculation = [], NominalU = []\<rparr>"

text \<open>
  A registry with an unresolved layer: construction 1 declares two layers and its second
  reference is zero (the material was not found), construction 2 is the single concrete
  layer.
\<close>

definition ex_unresolved :: HeatBalanceData where
  "ex_unresolved =
     \<lparr>Material = ex_materials, Blind = [], TotBlinds = 0,
      Construct =
        [mk_construct ''WALL'' 2 [6, 0, 0, 0, 0, 0, 0, 0, 0, 0, 0] False,
         mk_construct ''SLAB'' 1 [6, 0, 0, 0, 0, 0, 0, 0, 0, 0, 0] False],
      TotConstructs = 2,
      NominalR = [0, 0, 0, 0, 0, 1 / 10, 1 / 2],
      NominalRforNominalUCalculation = [1 / 10, 1 / 10],
      NominalU = [10, 10]\<rparr>"

section \<open>Properties\<close>

subsection \<open>Arrays\<close>

lemmas group_defs =
  RegularMaterial_def Air_def Shade_def WindowGlass_def WindowGas_def WindowBlind_def
  WindowGasMixture_def Screen_def EcoRoof_def IRTMaterial_def WindowSimpleGlazing_def
  ComplexWindowShade_def ComplexWindowGap_def GlassEquivalentLayer_def
  ShadeEquivalentLayer_def DrapeEquivalentLayer_def BlindEquivalentLayer_def
  ScreenEquivalentLayer_def GapEquivalentLayer_def

lemma at1_upd1_same: "in_range xs i \<Longrightarrow> at1 (upd1 xs i v) i = v"
  by (auto simp: at1_def upd1_def in_range_def)

lemma length_upd1: "length (upd1 xs i v) = length xs"
  by (simp add: upd1_def)

subsection \<open>The window screen model\<close>

lemma Small_lt_PiOvr2: "Small < PiOvr2"
proof -
  have "Small < 1" by (simp add: Small_def)
  moreover have "1 \<le> PiOvr2" unfolding PiOvr2_def using pi_ge_two by simp
  ultimately show ?thesis by simp
qed

lemma PiOvr2_pos: "0 < PiOvr2"
  by (simp add: PiOvr2_def)

lemma not_Grazing_0: "\<not> Grazing 0 0"
  using Small_lt_PiOvr2 by (simp add: Grazing_def)

lemma TransYDir_0: "TransYDir_of Gamma 0 0 = max 0 (1 - Gamma)"
  using Small_lt_PiOvr2 PiOvr2_pos by (simp add: TransYDir_of_def Let_def)

lemma COSMu_0: "COSMu_of 0 0 = 1"
  by (simp add: COSMu_of_def)

lemma TransXDir_0: "TransXDir_of Gamma 0 0 = max 0 (1 - Gamma)"
proof -
  have "Small < 1" by (simp add: Small_def)
  then show ?thesis
    using PiOvr2_pos by (simp add: TransXDir_of_def COSMu_0 Let_def)
qed

lemma Tdirect_0: "Tdirect_of Gamma 0 0 = (max 0 (1 - Gamma)) ^ 2"
  by (simp add: Tdirect_of_def TransXDir_0 TransYDir_0 power2_eq_square)

lemma Tdirect_nonneg: "0 \<le> Tdirect_of Gamma az alt"
  by (simp add: Tdirect_of_def)

lemma Tscattered_nonneg: "0 \<le> Tscattered_of Gamma R az alt"
  by (simp add: Tscattered_of_def)

lemma Azimuth_0: "AzimuthAngles g n (Some 0) = (0, 0)"
  using PiOvr2_pos by (simp add: AzimuthAngles_def Let_def Pi_def)

lemma Altitude_0: "AltitudeAngles g t0 n (Some 0) = (0, 0, t0)"
  using PiOvr2_pos by (simp add: AltitudeAngles_def Let_def Pi_def)

lemma IncidentAngle_call_0:
  "SurfaceNum = 0 \<or> Sn = None \<Longrightarrow> IncidentAngle_call g t0 SurfaceNum (Some 0) (Some 0) Sn = 0"
  by (auto simp: IncidentAngle_call_def Azimuth_0 Altitude_0 NormalAltitude_of_def
      IncidentAngle_of_def)

text \<open>What a call that returns has stored in the screen record.\<close>

lemma Calc_stored:
  assumes "CalcScreenTransmittance g t0 SurfaceNum Phi Theta Sn = Inr g'"
      and "ScreenIndex g SurfaceNum Phi Theta Sn = Inr ScNum"
      and "in_range (SurfaceScreens g) ScNum"
  shows "at1 (SurfaceScreens g') ScNum =
         ScreenResults (at1 (SurfaceScreens g) ScNum)
           (IncidentAngle_call g t0 SurfaceNum Phi Theta Sn)
           (fst (AzimuthAngles g SurfaceNum Theta))
           (fst (AltitudeAngles g t0 SurfaceNum Phi))"
  using assms
  by (auto simp: CalcScreenTransmittance_def IncidentAngle_call_def Let_def at1_upd1_same
           split: prod.splits)

lemma ScreenResults_sides:
  "(\<bar>a\<bar> \<le> PiOvr2 \<longrightarrow>
      BmBmTransBack (ScreenResults s a az alt) = 0 \<and> BmDifTransBack (ScreenResults s a az alt) = 0
      \<and> ReflectSolBeamBack (ScreenResults s a az alt) = 0
      \<and> ReflectVisBeamBack (ScreenResults s a az alt) = 0
      \<and> AbsorpSolarBeamBack (ScreenResults s a az alt) = 0) \<and>
   (\<bar>a\<bar> > PiOvr2 \<longrightarrow>
      BmBmTrans (ScreenResults s a az alt) = 0 \<and> BmBmTransVis (ScreenResults s a az alt) = 0
      \<and> BmDifTrans (ScreenResults s a az alt) = 0 \<and> BmDifTransVis (ScreenResults s a az alt) = 0
      \<and> ReflectSolBeamFront (ScreenResults s a az alt) = 0
      \<and> ReflectVisBeamFront (ScreenResults s a az alt) = 0
      \<and> AbsorpSolarBeamFront (ScreenResults s a az alt) = 0)"
  by (cases "ScreenBeamReflectanceAccounting s")
     (simp_all add: ScreenResults_def StoreBmBm_def StoreBmDif_def Let_def)

lemma ScreenResults_nonneg:
  "0 \<le> BmBmTrans (ScreenResults s a az alt) \<and> 0 \<le> BmBmTransVis (ScreenResults s a az alt)
   \<and> 0 \<le> BmBmTransBack (ScreenResults s a az alt)
   \<and> 0 \<le> BmDifTrans (ScreenResults s a az alt) \<and> 0 \<le> BmDifTransVis (ScreenResults s a az alt)
   \<and> 0 \<le> BmDifTransBack (ScreenResults s a az alt)
   \<and> 0 \<le> ReflectSolBeamFront (ScreenResults s a az alt)
   \<and> 0 \<le> ReflectVisBeamFront (ScreenResults s a az alt)
   \<and> 0 \<le> AbsorpSolarBeamFront (ScreenResults s a az alt)
   \<and> 0 \<le> ReflectSolBeamBack (ScreenResults s a az alt)
   \<and> 0 \<le> ReflectVisBeamBack (ScreenResults s a az alt)
   \<and> 0 \<le> AbsorpSolarBeamBack (ScreenResults s a az alt)"
  using Tdirect_nonneg [of "ScreenDiameterToSpacingRatio s" az alt]
        Tscattered_nonneg [of "ScreenDiameterToSpacingRatio s" "ReflectCylinder s" az alt]
        Tscattered_nonneg [of "ScreenDiameterToSpacingRatio s" "ReflectCylinderVis s" az alt]
  by (cases "ScreenBeamReflectanceAccounting s")
     (simp_all add: ScreenResults_def StoreBmBm_def StoreBmDif_def Let_def)

lemma ex_screen_call:
  "CalcScreenTransmittance ex_screen_globals 0 0 (Some 0) (Some 0) (Some 1)
   = Inr ex_screen_globals_after"
  using PiOvr2_pos
  by (simp add: CalcScreenTransmittance_def ScreenIndex_def Azimuth_0 Altitude_0
      NormalAltitude_of_def IncidentAngle_of_def ex_screen_globals_def
      ex_screen_globals_after_def ex_screen_def ex_screen_after_def at1_def upd1_def
      ScreenResults_def Tdirect_0 StoreBmBm_def StoreBmDif_def Let_def power2_eq_square)

lemma ex_screen_index:
  "ScreenIndex ex_screen_globals 0 (Some 0) (Some 0) (Some 1) = Inr 1"
  by (simp add: ScreenIndex_def)

lemma ex_screen_in_range: "in_range (SurfaceScreens ex_screen_globals) 1"
  by (simp add: in_range_def ex_screen_globals_def)

text \<open>
  C7. A call that supplies \<^verbatim>\<open>ScreenNumber\<close> without \<^verbatim>\<open>Theta\<close> or without \<^verbatim>\<open>Phi\<close> ends in the
  fatal error: its result is the error, and no screen data is computed or stored. The
  routine has no error flag, so there is no other way for it to report the violation.
\<close>

theorem screen_number_without_angles_is_fatal:
  assumes "Theta = None \<or> Phi = None"
  shows "CalcScreenTransmittance g SurfaceTilt0 SurfaceNum Phi Theta (Some n)
         = Inl (Fatal ''Syntax error, optional arguments Theta and Phi must be present when optional ScreenNumber is used.'')"
  using assms by (auto simp: CalcScreenTransmittance_def ScreenIndex_def)

theorem screen_number_without_angles_is_fatal_witness:
  "((None :: real option) = None \<or> Some (0 :: real) = None)
   \<and> CalcScreenTransmittance ex_screen_globals 0 0 (Some 0) None (Some 1)
     = Inl (Fatal ''Syntax error, optional arguments Theta and Phi must be present when optional ScreenNumber is used.'')"
  using screen_number_without_angles_is_fatal [of None "Some 0" ex_screen_globals 0 0 1]
  by simp

text \<open>
  C10. A call that returns has written one side of the screen record: when the incidence
  angle of the call is at most \<open>\<pi>/2\<close> in absolute value, the five back-side fields are
  zero; when it is larger, the seven front-side fields are zero. So after a call the
  front-side fields are all zero or the back-side fields are all zero.
\<close>

theorem one_side_populated:
  assumes "CalcScreenTransmittance g SurfaceTilt0 SurfaceNum Phi Theta ScreenNumber_arg = Inr g'"
      and "ScreenIndex g SurfaceNum Phi Theta ScreenNumber_arg = Inr ScNum"
      and "in_range (SurfaceScreens g) ScNum"
  shows "(\<bar>IncidentAngle_call g SurfaceTilt0 SurfaceNum Phi Theta ScreenNumber_arg\<bar> \<le> PiOvr2 \<longrightarrow>
            BmBmTransBack (at1 (SurfaceScreens g') ScNum) = 0
          \<and> BmDifTransBack (at1 (SurfaceScreens g') ScNum) = 0
          \<and> ReflectSolBeamBack (at1 (SurfaceScreens g') ScNum) = 0
          \<and> ReflectVisBeamBack (at1 (SurfaceScreens g') ScNum) = 0
          \<and> AbsorpSolarBeamBack (at1 (SurfaceScreens g') ScNum) = 0)
       \<and> (\<bar>IncidentAngle_call g SurfaceTilt0 SurfaceNum Phi Theta ScreenNumber_arg\<bar> > PiOvr2 \<longrightarrow>
            BmBmTrans (at1 (SurfaceScreens g') ScNum) = 0
          \<and> BmBmTransVis (at1 (SurfaceScreens g') ScNum) = 0
          \<and> BmDifTrans (at1 (SurfaceScreens g') ScNum) = 0
          \<and> BmDifTransVis (at1 (SurfaceScreens g') ScNum) = 0
          \<and> ReflectSolBeamFront (at1 (SurfaceScreens g') ScNum) = 0
          \<and> ReflectVisBeamFront (at1 (SurfaceScreens g') ScNum) = 0
          \<and> AbsorpSolarBeamFront (at1 (SurfaceScreens g') ScNum) = 0)
       \<and> ((BmBmTrans (at1 (SurfaceScreens g') ScNum) = 0
            \<and> BmBmTransVis (at1 (SurfaceScreens g') ScNum) = 0
            \<and> BmDifTrans (at1 (SurfaceScreens g') ScNum) = 0
            \<and> BmDifTransVis (at1 (SurfaceScreens g') ScNum) = 0
            \<and> ReflectSolBeamFront (at1 (SurfaceScreens g') ScNum) = 0
            \<and> ReflectVisBeamFront (at1 (SurfaceScreens g') ScNum) = 0
            \<and> AbsorpSolarBeamFront (at1 (SurfaceScreens g') ScNum) = 0)
          \<or> (BmBmTransBack (at1 (SurfaceScreens g') ScNum) = 0
            \<and> BmDifTransBack (at1 (SurfaceScreens g') ScNum) = 0
            \<and> ReflectSolBeamBack (at1 (SurfaceScreens g') ScNum) = 0
            \<and> ReflectVisBeamBack (at1 (SurfaceScreens g') ScNum) = 0
            \<and> AbsorpSolarBeamBack (at1 (SurfaceScreens g') ScNum) = 0))"
proof -
  let ?a = "IncidentAngle_call g SurfaceTilt0 SurfaceNum Phi Theta ScreenNumber_arg"
  let ?r = "ScreenResults (at1 (SurfaceScreens g) ScNum) ?a
              (fst (AzimuthAngles g SurfaceNum Theta))
              (fst (AltitudeAngles g SurfaceTilt0 SurfaceNum Phi))"
  have eq: "at1 (SurfaceScreens g') ScNum = ?r"
    using assms by (rule Calc_stored)
  have sides: "(\<bar>?a\<bar> \<le> PiOvr2 \<longrightarrow>
      BmBmTransBack ?r = 0 \<and> BmDifTransBack ?r = 0 \<and> ReflectSolBeamBack ?r = 0
      \<and> ReflectVisBeamBack ?r = 0 \<and> AbsorpSolarBeamBack ?r = 0) \<and>
   (\<bar>?a\<bar> > PiOvr2 \<longrightarrow>
      BmBmTrans ?r = 0 \<and> BmBmTransVis ?r = 0 \<and> BmDifTrans ?r = 0 \<and> BmDifTransVis ?r = 0
      \<and> ReflectSolBeamFront ?r = 0 \<and> ReflectVisBeamFront ?r = 0
      \<and> AbsorpSolarBeamFront ?r = 0)"
    by (rule ScreenResults_sides)
  show ?thesis
  proof (cases "\<bar>?a\<bar> \<le> PiOvr2")
    case True
    with sides show ?thesis unfolding eq by simp
  next
    case False
    then have "\<bar>?a\<bar> > PiOvr2" by simp
    with sides show ?thesis unfolding eq by simp
  qed
qed

theorem one_side_populated_witness:
  "CalcScreenTransmittance ex_screen_globals 0 0 (Some 0) (Some 0) (Some 1)
     = Inr ex_screen_globals_after
   \<and> ScreenIndex ex_screen_globals 0 (Some 0) (Some 0) (Some 1) = Inr 1
   \<and> in_range (SurfaceScreens ex_screen_globals) 1
   \<and> \<bar>IncidentAngle_call ex_screen_globals 0 0 (Some 0) (Some 0) (Some 1)\<bar> \<le> PiOvr2
   \<and> BmBmTransBack (at1 (SurfaceScreens ex_screen_globals_after) 1) = 0
   \<and> BmDifTransBack (at1 (SurfaceScreens ex_screen_globals_after) 1) = 0
   \<and> ReflectSolBeamBack (at1 (SurfaceScreens ex_screen_globals_after) 1) = 0
   \<and> ReflectVisBeamBack (at1 (SurfaceScreens ex_screen_globals_after) 1) = 0
   \<and> AbsorpSolarBeamBack (at1 (SurfaceScreens ex_screen_globals_after) 1) = 0"
  using one_side_populated [OF ex_screen_call ex_screen_index ex_screen_in_range]
        ex_screen_call ex_screen_index ex_screen_in_range PiOvr2_pos
  by (simp add: IncidentAngle_call_0)

text \<open>
  C9. After a call that returns, each of the twelve optical results stored in the screen
  record (beam-beam and beam-diffuse transmittance, reflectance and absorptance, solar and
  visible, front and back) is non-negative.
\<close>

theorem stored_results_nonnegative:
  assumes "CalcScreenTransmittance g SurfaceTilt0 SurfaceNum Phi Theta ScreenNumber_arg = Inr g'"
      and "ScreenIndex g SurfaceNum Phi Theta ScreenNumber_arg = Inr ScNum"
      and "in_range (SurfaceScreens g) ScNum"
  shows "0 \<le> BmBmTrans (at1 (SurfaceScreens g') ScNum)
       \<and> 0 \<le> BmBmTransVis (at1 (SurfaceScreens g') ScNum)
       \<and> 0 \<le> BmBmTransBack (at1 (SurfaceScreens g') ScNum)
       \<and> 0 \<le> BmDifTrans (at1 (SurfaceScreens g') ScNum)
       \<and> 0 \<le> BmDifTransVis (at1 (SurfaceScreens g') ScNum)
       \<and> 0 \<le> BmDifTransBack (at1 (SurfaceScreens g') ScNum)
       \<and> 0 \<le> ReflectSolBeamFront (at1 (SurfaceScreens g') ScNum)
       \<and> 0 \<le> ReflectVisBeamFront (at1 (SurfaceScreens g') ScNum)
       \<and> 0 \<le> AbsorpSolarBeamFront (at1 (SurfaceScreens g') ScNum)
       \<and> 0 \<le> ReflectSolBeamBack (at1 (SurfaceScreens g') ScNum)
       \<and> 0 \<le> ReflectVisBeamBack (at1 (SurfaceScreens g') ScNum)
       \<and> 0 \<le> AbsorpSolarBeamBack (at1 (SurfaceScreens g') ScNum)"
  unfolding Calc_stored [OF assms] by (rule ScreenResults_nonneg)

theorem stored_results_nonnegative_witness:
  "CalcScreenTransmittance ex_screen_globals 0 0 (Some 0) (Some 0) (Some 1)
     = Inr ex_screen_globals_after
   \<and> ScreenIndex ex_screen_globals 0 (Some 0) (Some 0) (Some 1) = Inr 1
   \<and> in_range (SurfaceScreens ex_screen_globals) 1
   \<and> 0 \<le> BmBmTrans (at1 (SurfaceScreens ex_screen_globals_after) 1)
   \<and> 0 \<le> ReflectSolBeamFront (at1 (SurfaceScreens ex_screen_globals_after) 1)
   \<and> 0 \<le> AbsorpSolarBeamFront (at1 (SurfaceScreens ex_screen_globals_after) 1)
   \<and> 0 \<le> AbsorpSolarBeamBack (at1 (SurfaceScreens ex_screen_globals_after) 1)"
  using stored_results_nonnegative [OF ex_screen_call ex_screen_index ex_screen_in_range]
        ex_screen_call ex_screen_index ex_screen_in_range
  by simp

text \<open>
  C3, as stated: at \<^verbatim>\<open>Phi = 0\<close>, \<^verbatim>\<open>Theta = 0\<close> the direct transmittance would be
  \<open>1 - Gamma\<close>. For \<open>Gamma = 1/2\<close> the routine stores \<open>1/4\<close>.
\<close>

theorem normal_incidence_is_not_one_minus_Gamma:
  "CalcScreenTransmittance ex_screen_globals 0 0 (Some 0) (Some 0) (Some 1)
     = Inr ex_screen_globals_after
   \<and> BmBmTrans (at1 (SurfaceScreens ex_screen_globals_after) 1)
     \<noteq> 1 - ScreenDiameterToSpacingRatio (at1 (SurfaceScreens ex_screen_globals) 1)
   \<and> Tdirect_of (ScreenDiameterToSpacingRatio (at1 (SurfaceScreens ex_screen_globals) 1)) 0 0
     \<noteq> 1 - ScreenDiameterToSpacingRatio (at1 (SurfaceScreens ex_screen_globals) 1)"
  using ex_screen_call
  by (simp add: ex_screen_globals_def ex_screen_globals_after_def ex_screen_def
      ex_screen_after_def at1_def Tdirect_0 power2_eq_square)

lemma ScreenResults_normal:
  "BmBmTrans (ScreenResults s 0 0 0) =
     (max 0 (1 - ScreenDiameterToSpacingRatio s)) ^ 2
     + (if ScreenBeamReflectanceAccounting s = ModelAsDirectBeam
        then max 0 (TscatteredModel (ScreenDiameterToSpacingRatio s) (ReflectCylinder s) 0 0)
        else 0)"
  "BmBmTransBack (ScreenResults s 0 0 0) = 0"
  "BmDifTrans (ScreenResults s 0 0 0) =
     (if ScreenBeamReflectanceAccounting s = ModelAsDiffuse
      then max 0 (TscatteredModel (ScreenDiameterToSpacingRatio s) (ReflectCylinder s) 0 0)
      else 0)"
  using PiOvr2_pos not_Grazing_0
  by (cases "ScreenBeamReflectanceAccounting s";
      simp add: ScreenResults_def StoreBmBm_def StoreBmDif_def Let_def Tdirect_0
        Tscattered_of_def)+

text \<open>
  C3, amended. At \<^verbatim>\<open>Phi = 0\<close>, \<^verbatim>\<open>Theta = 0\<close> (and \<^verbatim>\<open>SurfaceNum = 0\<close> with a screen number, the
  call of the source's comments) the horizontal and the vertical component of the direct
  transmittance are both \<open>max 0 (1 - Gamma)\<close> and the direct transmittance is their
  product, \<open>(max 0 (1 - Gamma))\<^sup>2\<close>. The grazing test does not hold at normal incidence, so
  the scattered transmittance is not forced to zero there: it is the empirical model,
  cut off at zero. The stored front beam-beam transmittance is the direct transmittance,
  plus the scattered one in the mode \<open>ModelAsDirectBeam\<close>.
\<close>

theorem normal_incidence_transmittance:
  assumes "in_range (SurfaceScreens g) ScNum"
  shows "CalcScreenTransmittance g SurfaceTilt0 0 (Some 0) (Some 0) (Some ScNum)
           = Inr (g\<lparr>SurfaceScreens := upd1 (SurfaceScreens g) ScNum
                      (ScreenResults (at1 (SurfaceScreens g) ScNum) 0 0 0)\<rparr>)
       \<and> TransXDir_of (ScreenDiameterToSpacingRatio (at1 (SurfaceScreens g) ScNum)) 0 0
           = max 0 (1 - ScreenDiameterToSpacingRatio (at1 (SurfaceScreens g) ScNum))
       \<and> TransYDir_of (ScreenDiameterToSpacingRatio (at1 (SurfaceScreens g) ScNum)) 0 0
           = max 0 (1 - ScreenDiameterToSpacingRatio (at1 (SurfaceScreens g) ScNum))
       \<and> Tdirect_of (ScreenDiameterToSpacingRatio (at1 (SurfaceScreens g) ScNum)) 0 0
           = (max 0 (1 - ScreenDiameterToSpacingRatio (at1 (SurfaceScreens g) ScNum))) ^ 2
       \<and> \<not> Grazing 0 0
       \<and> Tscattered_of (ScreenDiameterToSpacingRatio (at1 (SurfaceScreens g) ScNum))
             (ReflectCylinder (at1 (SurfaceScreens g) ScNum)) 0 0
           = max 0 (TscatteredModel (ScreenDiameterToSpacingRatio (at1 (SurfaceScreens g) ScNum))
                      (ReflectCylinder (at1 (SurfaceScreens g) ScNum)) 0 0)
       \<and> BmBmTrans (ScreenResults (at1 (SurfaceScreens g) ScNum) 0 0 0)
           = (max 0 (1 - ScreenDiameterToSpacingRatio (at1 (SurfaceScreens g) ScNum))) ^ 2
             + (if ScreenBeamReflectanceAccounting (at1 (SurfaceScreens g) ScNum)
                     = ModelAsDirectBeam
                then max 0 (TscatteredModel
                              (ScreenDiameterToSpacingRatio (at1 (SurfaceScreens g) ScNum))
                              (ReflectCylinder (at1 (SurfaceScreens g) ScNum)) 0 0)
                else 0)
       \<and> BmDifTrans (ScreenResults (at1 (SurfaceScreens g) ScNum) 0 0 0)
           = (if ScreenBeamReflectanceAccounting (at1 (SurfaceScreens g) ScNum) = ModelAsDiffuse
              then max 0 (TscatteredModel
                            (ScreenDiameterToSpacingRatio (at1 (SurfaceScreens g) ScNum))
                            (ReflectCylinder (at1 (SurfaceScreens g) ScNum)) 0 0)
              else 0)"
proof -
  have call: "CalcScreenTransmittance g SurfaceTilt0 0 (Some 0) (Some 0) (Some ScNum)
           = Inr (g\<lparr>SurfaceScreens := upd1 (SurfaceScreens g) ScNum
                      (ScreenResults (at1 (SurfaceScreens g) ScNum) 0 0 0)\<rparr>)"
    by (simp add: CalcScreenTransmittance_def ScreenIndex_def Azimuth_0 Altitude_0
        NormalAltitude_of_def IncidentAngle_of_def)
  have sc: "Tscattered_of Gamma R 0 0 = max 0 (TscatteredModel Gamma R 0 0)" for Gamma R
    using not_Grazing_0 by (simp add: Tscattered_of_def)
  show ?thesis
    using call not_Grazing_0
    by (simp only: TransXDir_0 TransYDir_0 Tdirect_0 sc ScreenResults_normal simp_thms)
qed

theorem normal_incidence_transmittance_witness:
  "in_range (SurfaceScreens ex_screen_globals) 1
   \<and> CalcScreenTransmittance ex_screen_globals 0 0 (Some 0) (Some 0) (Some 1)
       = Inr (ex_screen_globals\<lparr>SurfaceScreens := upd1 (SurfaceScreens ex_screen_globals) 1
                (ScreenResults (at1 (SurfaceScreens ex_screen_globals) 1) 0 0 0)\<rparr>)
   \<and> Tdirect_of (ScreenDiameterToSpacingRatio (at1 (SurfaceScreens ex_screen_globals) 1)) 0 0
       = 1 / 4
   \<and> BmBmTrans (ScreenResults (at1 (SurfaceScreens ex_screen_globals) 1) 0 0 0) = 1 / 4"
proof -
  note t = normal_incidence_transmittance [OF ex_screen_in_range, of 0]
  have G: "ScreenDiameterToSpacingRatio (at1 (SurfaceScreens ex_screen_globals) 1) = 1 / 2"
    and mode: "ScreenBeamReflectanceAccounting (at1 (SurfaceScreens ex_screen_globals) 1)
               = DoNotModel"
    by (simp_all add: ex_screen_globals_def ex_screen_def at1_def)
  show ?thesis
    using t ex_screen_in_range by (simp add: G mode power2_eq_square)
qed

subsection \<open>\<^verbatim>\<open>CheckAndSetConstructionProperties\<close>\<close>

lemma LayerFields_eq:
  "LayerFields c' = LayerFields c \<longleftrightarrow>
     TotLayers c' = TotLayers c \<and> LayerPoint c' = LayerPoint c
     \<and> WindowTypeBSDF c' = WindowTypeBSDF c \<and> WindowTypeEQL c' = WindowTypeEQL c"
  by (simp add: LayerFields_def)

lemma LayerFields_upd [simp]:
  "LayerFields (c\<lparr>NumCTFTerms := a\<rparr>) = LayerFields c"
  "LayerFields (c\<lparr>NumHistories := b\<rparr>) = LayerFields c"
  "LayerFields (c\<lparr>OutsideRoughness := d\<rparr>) = LayerFields c"
  "LayerFields (c\<lparr>TypeIsEcoRoof := e\<rparr>) = LayerFields c"
  "LayerFields (c\<lparr>TypeIsIRT := f\<rparr>) = LayerFields c"
  "LayerFields (c\<lparr>InsideAbsorpThermal := x\<rparr>) = LayerFields c"
  "LayerFields (c\<lparr>OutsideAbsorpThermal := y\<rparr>) = LayerFields c"
  "LayerFields (c\<lparr>TotGlassLayers := i\<rparr>) = LayerFields c"
  "LayerFields (c\<lparr>TotSolidLayers := j\<rparr>) = LayerFields c"
  "LayerFields (c\<lparr>InsideAbsorpVis := u\<rparr>) = LayerFields c"
  "LayerFields (c\<lparr>InsideAbsorpSolar := v\<rparr>) = LayerFields c"
  "LayerFields (c\<lparr>TypeIsWindow := t\<rparr>) = LayerFields c"
  by (simp_all add: LayerFields_def)

lemma TypeIsWindow_fold:
  "fold (\<lambda>Layer tw.
             let MaterNum = at1 LP Layer in
             if MaterNum = 0 then tw
             else if IsWindowGroup (Group (at1 M MaterNum)) then True else tw) xs b
   = (b \<or> (\<exists>Layer \<in> set xs. at1 LP Layer \<noteq> 0 \<and> IsWindowGroup (Group (at1 M (at1 LP Layer)))))"
  by (induction xs arbitrary: b) (auto simp: Let_def)

lemma TypeIsWindow_loop_iff:
  "TypeIsWindow_loop M c \<longleftrightarrow>
     (\<exists>Layer \<in> {1..TotLayers c}. at1 (LayerPoint c) Layer \<noteq> 0
        \<and> IsWindowGroup (LayerGroup M c Layer))"
  by (simp add: TypeIsWindow_loop_def TypeIsWindow_fold LayerGroup_def)

lemma InitialProperties_fields:
  "LayerFields (InitialProperties M c im om) = LayerFields c"
  "TypeIsWindow (InitialProperties M c im om) = TypeIsWindow_loop M c"
  by (simp_all add: InitialProperties_def Let_def TypeIsWindow_loop_def LayerFields_def)

lemma OpaqueProperties_fields:
  "LayerFields (OpaqueProperties M c il) = LayerFields c"
  "TypeIsWindow (OpaqueProperties M c il) = TypeIsWindow c"
  by (simp_all add: OpaqueProperties_def)

lemma WindowProperties_fields:
  "LayerFields (fst (WindowProperties M c TG TS IL IM)) = LayerFields c"
  "TypeIsWindow (fst (WindowProperties M c TG TS IL IM)) = TypeIsWindow c"
  "snd (WindowProperties M c TG TS IL IM) =
     (if LayerGroup M c IL = Shade \<or> LayerGroup M c IL = WindowBlind then IL - 1 else IL)"
  by (simp_all add: WindowProperties_def Let_def LayerGroup_def split: prod.split)

lemma FinalChecks_fields:
  "LayerFields (fst (FinalChecks M c EF IL)) = LayerFields c"
  "TypeIsWindow (fst (FinalChecks M c EF IL)) = TypeIsWindow c"
  by (simp_all add: FinalChecks_def EcoRoof_check_def IRT_check_def Let_def
      split: prod.split)

lemma EcoRoof_fold:
  "fold (\<lambda>Layer ef. if LayerGroup M c Layer = EcoRoof then True else ef) xs b
   = (b \<or> (\<exists>Layer \<in> set xs. LayerGroup M c Layer = EcoRoof))"
  by (induction xs arbitrary: b) auto

lemma LayerGroup_upd [simp]:
  "LayerGroup M (c\<lparr>OutsideRoughness := d\<rparr>) = LayerGroup M c"
  "LayerGroup M (c\<lparr>NumCTFTerms := a\<rparr>) = LayerGroup M c"
  "LayerGroup M (c\<lparr>NumHistories := b\<rparr>) = LayerGroup M c"
  "LayerGroup M (c\<lparr>TotGlassLayers := i\<rparr>) = LayerGroup M c"
  "LayerGroup M (c\<lparr>TotSolidLayers := j\<rparr>) = LayerGroup M c"
  "LayerGroup M (c\<lparr>TypeIsEcoRoof := e\<rparr>) = LayerGroup M c"
  "LayerGroup M (c\<lparr>TypeIsIRT := f\<rparr>) = LayerGroup M c"
  by (simp_all add: LayerGroup_def fun_eq_iff)

lemma FinalChecks_flag:
  "snd (FinalChecks M c EF IL) \<longleftrightarrow>
     EF \<or> LayerGroup M c 1 = Air \<or> (IL > 0 \<and> LayerGroup M c IL = Air)
     \<or> (LayerGroup M c 1 = EcoRoof \<and> (\<exists>Layer \<in> {2..TotLayers c}. LayerGroup M c Layer = EcoRoof))
     \<or> (LayerGroup M c 1 = IRTMaterial \<and> TotLayers c \<noteq> 1)"
proof -
  have eco: "LayerGroup M c 1 = EcoRoof \<Longrightarrow> LayerGroup M c 1 \<noteq> IRTMaterial"
    by (simp add: group_defs)
  show ?thesis
    by (auto simp: FinalChecks_def EcoRoof_check_def IRT_check_def Let_def EcoRoof_fold
        dest: eco)
qed

lemma LayerGroup_cong:
  "LayerFields c' = LayerFields c \<Longrightarrow> LayerGroup M c' = LayerGroup M c"
  by (simp add: LayerGroup_def LayerFields_def fun_eq_iff)

lemma FinalChecks_flag_cong:
  assumes "LayerFields c' = LayerFields c"
  shows "snd (FinalChecks M c' EF IL) = snd (FinalChecks M c EF IL)"
proof -
  have "TotLayers c' = TotLayers c" using assms by (simp add: LayerFields_def)
  then show ?thesis
    unfolding FinalChecks_flag LayerGroup_cong [OF assms] by simp
qed

lemma layer_loops_cong:
  assumes "LayerFields c' = LayerFields c"
  shows "Count_loop M c' = Count_loop M c"
    and "MixCountSingle_check M c' EF = MixCountSingle_check M c EF"
    and "WindowLayering M B c' TG TS w EF = WindowLayering M B c TG TS w EF"
proof -
  have eq: "TotLayers c' = TotLayers c" "LayerPoint c' = LayerPoint c"
    "WindowTypeBSDF c' = WindowTypeBSDF c" "WindowTypeEQL c' = WindowTypeEQL c"
    using assms by (simp_all add: LayerFields_def)
  note lg = LayerGroup_cong [OF assms]
  have "Count_body M c' = Count_body M c"
    by (intro ext) (simp only: Count_body_def eq)
  then show "Count_loop M c' = Count_loop M c"
    by (simp add: Count_loop_def eq)
  show "MixCountSingle_check M c' EF = MixCountSingle_check M c EF"
    by (simp only: MixCountSingle_check_def WrongMaterialsMix_loop_def eq lg)
  show "WindowLayering M B c' TG TS w EF = WindowLayering M B c TG TS w EF"
    by (simp only: WindowLayering_def DiffusingShade_loop_def DiffusingInnermost_loop_def
        BetweenGlass_cond_def BetweenGlass_body_def DoublePattern_def TriplePattern_def
        SimpleGlazing_check_def eq lg)
qed

lemma CheckConstruct_fields:
  "LayerFields (fst (CheckConstruct M B c EF)) = LayerFields c"
proof -
  let ?T = "TotLayers c"
  let ?im = "at1 (LayerPoint c) ?T"
  let ?c5 = "InitialProperties M c ?im (at1 (LayerPoint c) 1)"
  let ?c5' = "?c5\<lparr>NumCTFTerms := 0, NumHistories := 0\<rparr>"
  obtain TG TS TGas w0 where cl: "Count_loop M ?c5' = (TG, TS, TGas, w0)"
    by (metis prod_cases4)
  obtain c2 il where wp: "WindowProperties M ?c5' TG TS ?T ?im = (c2, il)"
    by (metis surj_pair)
  obtain w ef2 where wl:
    "WindowLayering M B ?c5' TG TS w0 (MixCountSingle_check M ?c5' EF) = (w, ef2)"
    by (metis surj_pair)
  have c2: "LayerFields c2 = LayerFields c"
    using WindowProperties_fields(1) [of M ?c5' TG TS ?T ?im]
    by (simp add: wp InitialProperties_fields)
  have wb: "LayerFields (fst (case WindowBranch M B ?c5 ?T ?im EF of
               Inl r \<Rightarrow> r | Inr (c6, ef, il) \<Rightarrow> FinalChecks M c6 ef il)) = LayerFields c"
    by (simp add: WindowBranch_def Let_def cl wp wl c2 FinalChecks_fields
        InitialProperties_fields)
  show ?thesis
    using wb
    by (simp add: CheckConstruct_def Let_def InitialProperties_fields FinalChecks_fields
        OpaqueProperties_fields)
qed

lemma CheckConstruct_TypeIsWindow:
  assumes "TotLayers c \<noteq> 0" and "0 < at1 (LayerPoint c) (TotLayers c)"
  shows "TypeIsWindow (fst (CheckConstruct M B c EF)) = TypeIsWindow_loop M c"
proof -
  let ?T = "TotLayers c"
  let ?im = "at1 (LayerPoint c) ?T"
  let ?c5 = "InitialProperties M c ?im (at1 (LayerPoint c) 1)"
  let ?c5' = "?c5\<lparr>NumCTFTerms := 0, NumHistories := 0\<rparr>"
  obtain TG TS TGas w0 where cl: "Count_loop M ?c5' = (TG, TS, TGas, w0)"
    by (metis prod_cases4)
  obtain c2 il where wp: "WindowProperties M ?c5' TG TS ?T ?im = (c2, il)"
    by (metis surj_pair)
  obtain w ef2 where wl:
    "WindowLayering M B ?c5' TG TS w0 (MixCountSingle_check M ?c5' EF) = (w, ef2)"
    by (metis surj_pair)
  have c2: "TypeIsWindow c2 = TypeIsWindow_loop M c"
    using WindowProperties_fields(2) [of M ?c5' TG TS ?T ?im]
    by (simp add: wp InitialProperties_fields)
  have wb: "TypeIsWindow (fst (case WindowBranch M B ?c5 ?T ?im EF of
               Inl r \<Rightarrow> r | Inr (c6, ef, il) \<Rightarrow> FinalChecks M c6 ef il))
            = TypeIsWindow_loop M c"
    by (simp add: WindowBranch_def Let_def cl wp wl c2 FinalChecks_fields
        InitialProperties_fields)
  show ?thesis
    using wb assms
    by (simp add: CheckConstruct_def Let_def InitialProperties_fields FinalChecks_fields
        OpaqueProperties_fields)
qed

lemma CheckConstruct_flag_opaque:
  assumes "TotLayers c \<noteq> 0" and "0 < at1 (LayerPoint c) (TotLayers c)"
      and "at1 (LayerPoint c) 1 \<noteq> 0" and "\<not> TypeIsWindow_loop M c"
  shows "snd (CheckConstruct M B c EF) = snd (FinalChecks M c EF (TotLayers c))"
proof -
  let ?c5 = "InitialProperties M c (at1 (LayerPoint c) (TotLayers c)) (at1 (LayerPoint c) 1)"
  have "LayerFields (OpaqueProperties M ?c5 (TotLayers c)) = LayerFields c"
    by (simp add: OpaqueProperties_fields InitialProperties_fields)
  then have "snd (FinalChecks M (OpaqueProperties M ?c5 (TotLayers c)) EF (TotLayers c))
             = snd (FinalChecks M c EF (TotLayers c))"
    by (rule FinalChecks_flag_cong)
  then show ?thesis
    using assms by (simp add: CheckConstruct_def Let_def InitialProperties_fields)
qed

lemma CheckConstruct_flag_special:
  assumes "TotLayers c \<noteq> 0" and "0 < at1 (LayerPoint c) (TotLayers c)"
      and "at1 (LayerPoint c) 1 \<noteq> 0" and "TypeIsWindow_loop M c"
      and "WindowTypeBSDF c \<or> WindowTypeEQL c"
  shows "snd (CheckConstruct M B c EF) = MixCountSingle_check M c EF"
proof -
  let ?T = "TotLayers c"
  let ?im = "at1 (LayerPoint c) ?T"
  let ?c5 = "InitialProperties M c ?im (at1 (LayerPoint c) 1)"
  let ?c5' = "?c5\<lparr>NumCTFTerms := 0, NumHistories := 0\<rparr>"
  have lf: "LayerFields ?c5' = LayerFields c"
    by (simp add: InitialProperties_fields)
  have flags: "WindowTypeBSDF ?c5 = WindowTypeBSDF c" "WindowTypeEQL ?c5 = WindowTypeEQL c"
    using InitialProperties_fields(1) [of M c ?im "at1 (LayerPoint c) 1"]
    by (simp_all add: LayerFields_def)
  obtain TG TS TGas w0 where cl: "Count_loop M ?c5' = (TG, TS, TGas, w0)"
    by (metis prod_cases4)
  have "snd (case WindowBranch M B ?c5 ?T ?im EF of
               Inl r \<Rightarrow> r | Inr (c6, ef, il) \<Rightarrow> FinalChecks M c6 ef il)
        = MixCountSingle_check M c EF"
    using assms(5)
    by (auto simp: WindowBranch_def Let_def cl flags layer_loops_cong(2) [OF lf])
  then show ?thesis
    using assms by (simp add: CheckConstruct_def Let_def InitialProperties_fields)
qed

lemma CheckConstruct_flag_window:
  assumes "TotLayers c \<noteq> 0" and "0 < at1 (LayerPoint c) (TotLayers c)"
      and "at1 (LayerPoint c) 1 \<noteq> 0" and "TypeIsWindow_loop M c"
      and "\<not> WindowTypeBSDF c" and "\<not> WindowTypeEQL c"
      and "Count_loop M c = (TG, TS, TGas, w0)"
  shows "snd (CheckConstruct M B c EF) =
         snd (FinalChecks M c
               (snd (WindowLayering M B c TG TS w0 (MixCountSingle_check M c EF)))
               (if LayerGroup M c (TotLayers c) = Shade
                   \<or> LayerGroup M c (TotLayers c) = WindowBlind
                then TotLayers c - 1 else TotLayers c))"
proof -
  let ?T = "TotLayers c"
  let ?im = "at1 (LayerPoint c) ?T"
  let ?c5 = "InitialProperties M c ?im (at1 (LayerPoint c) 1)"
  let ?c5' = "?c5\<lparr>NumCTFTerms := 0, NumHistories := 0\<rparr>"
  have lf: "LayerFields ?c5' = LayerFields c"
    by (simp add: InitialProperties_fields)
  have flags: "WindowTypeBSDF ?c5 = WindowTypeBSDF c" "WindowTypeEQL ?c5 = WindowTypeEQL c"
    using InitialProperties_fields(1) [of M c ?im "at1 (LayerPoint c) 1"]
    by (simp_all add: LayerFields_def)
  have cl: "Count_loop M ?c5' = (TG, TS, TGas, w0)"
    using layer_loops_cong(1) [OF lf] assms(7) by simp
  obtain c2 il where wp: "WindowProperties M ?c5' TG TS ?T ?im = (c2, il)"
    by (metis surj_pair)
  have c2: "LayerFields c2 = LayerFields c"
    using WindowProperties_fields(1) [of M ?c5' TG TS ?T ?im]
    by (simp add: wp InitialProperties_fields)
  have il: "il = (if LayerGroup M c ?T = Shade \<or> LayerGroup M c ?T = WindowBlind
                  then ?T - 1 else ?T)"
    using WindowProperties_fields(3) [of M ?c5' TG TS ?T ?im]
    by (simp add: wp LayerGroup_cong [OF InitialProperties_fields(1)])
  obtain w ef2 where wl:
    "WindowLayering M B c TG TS w0 (MixCountSingle_check M c EF) = (w, ef2)"
    by (metis surj_pair)
  have wl': "WindowLayering M B ?c5' TG TS w0 (MixCountSingle_check M ?c5' EF) = (w, ef2)"
    using wl by (simp only: layer_loops_cong(2,3) [OF lf])
  have "snd (case WindowBranch M B ?c5 ?T ?im EF of
               Inl r \<Rightarrow> r | Inr (c6, ef, il) \<Rightarrow> FinalChecks M c6 ef il)
        = snd (FinalChecks M c2 ef2 il)"
    using assms(5,6) by (simp add: WindowBranch_def Let_def cl wp wl' flags)
  also have "\<dots> = snd (FinalChecks M c ef2 il)"
    using c2 by (rule FinalChecks_flag_cong)
  finally show ?thesis
    using assms(1-4) by (simp add: CheckConstruct_def Let_def InitialProperties_fields wl il)
qed

lemmas upto_from_1 = upto.simps [of 1 "numeral n"] for n

lemma Count_body_step:
  "Count_body M c Layer (tg, ts, tgas, w) =
     (tg + (if CountsAsGlass M c Layer then 1 else 0),
      ts + (if CountsAsShade M c Layer then 1 else 0),
      tgas + (if CountsAsGas M c Layer then 1 else 0),
      w \<or> SameGroupAsNext M c Layer)"
proof (cases "at1 (LayerPoint c) Layer = 0")
  case True
  then show ?thesis
    by (simp add: Count_body_def CountsAsGlass_def CountsAsShade_def CountsAsGas_def
        SameGroupAsNext_def)
next
  case False
  define G where "G = Group (at1 M (at1 (LayerPoint c) Layer))"
  define Gn where "Gn = Group (at1 M (at1 (LayerPoint c) (Layer + 1)))"
  have ne: "WindowGlass \<noteq> WindowSimpleGlazing" by (simp add: group_defs)
  have gl: "CountsAsGlass M c Layer \<longleftrightarrow> G = WindowGlass \<or> G = WindowSimpleGlazing"
    and sh: "CountsAsShade M c Layer \<longleftrightarrow>
               G = Shade \<or> G = WindowBlind \<or> G = Screen \<or> G = ComplexWindowShade"
    and ga: "CountsAsGas M c Layer \<longleftrightarrow>
               G = WindowGas \<or> G = WindowGasMixture \<or> G = ComplexWindowGap"
    and sn: "SameGroupAsNext M c Layer \<longleftrightarrow>
               Layer < TotLayers c \<and> at1 (LayerPoint c) (Layer + 1) \<noteq> 0 \<and> G = Gn"
    using False
    by (simp_all add: CountsAsGlass_def CountsAsShade_def CountsAsGas_def SameGroupAsNext_def
        LayerGroup_def G_def Gn_def)
  have body: "Count_body M c Layer (tg, ts, tgas, w) =
     ((if G = WindowSimpleGlazing then (if G = WindowGlass then tg + 1 else tg) + 1
       else (if G = WindowGlass then tg + 1 else tg)),
      (if G = Shade \<or> G = WindowBlind \<or> G = Screen \<or> G = ComplexWindowShade
       then ts + 1 else ts),
      (if G = WindowGas \<or> G = WindowGasMixture \<or> G = ComplexWindowGap
       then tgas + 1 else tgas),
      (if Layer < TotLayers c
       then (if at1 (LayerPoint c) (Layer + 1) = 0 then w
             else if G = Gn then True else w)
       else w))"
    unfolding Count_body_def Let_def G_def Gn_def prod.case
    using False by (simp only: if_False)
  have c1: "(if G = WindowSimpleGlazing then (if G = WindowGlass then tg + 1 else tg) + 1
             else (if G = WindowGlass then tg + 1 else tg))
            = tg + (if G = WindowGlass \<or> G = WindowSimpleGlazing then 1 else 0)"
    using ne by auto
  have c2: "(if P then ts + 1 else ts) = ts + (if P then 1 else 0)" for P and ts :: int
    by simp
  have c4: "(if Layer < TotLayers c
       then (if at1 (LayerPoint c) (Layer + 1) = 0 then w
             else if G = Gn then True else w)
       else w) = (w \<or> (Layer < TotLayers c \<and> at1 (LayerPoint c) (Layer + 1) \<noteq> 0 \<and> G = Gn))"
    by auto
  show ?thesis
    unfolding body gl sh ga sn c2 c4 using ne by auto
qed

lemma Count_fold:
  "fold (Count_body M c) xs (tg, ts, tgas, w) =
     (tg + int (length (filter (CountsAsGlass M c) xs)),
      ts + int (length (filter (CountsAsShade M c) xs)),
      tgas + int (length (filter (CountsAsGas M c) xs)),
      w \<or> (\<exists>Layer \<in> set xs. SameGroupAsNext M c Layer))"
proof (induction xs arbitrary: tg ts tgas w)
  case Nil
  show ?case by simp
next
  case (Cons x xs)
  show ?case
    by (simp only: fold_simps Count_body_step Cons.IH) auto
qed

lemma Count_loop_eq:
  "Count_loop M c =
     (int (length (filter (CountsAsGlass M c) [1..TotLayers c])),
      int (length (filter (CountsAsShade M c) [1..TotLayers c])),
      int (length (filter (CountsAsGas M c) [1..TotLayers c])),
      \<exists>Layer \<in> {1..TotLayers c}. SameGroupAsNext M c Layer)"
  by (simp add: Count_loop_def Count_fold)

lemma WrongMaterialsMix_fold:
  "fold (\<lambda>Layer wm.
             let MaterNum = at1 LP Layer in
             if MaterNum = 0 then wm
             else if \<not> IsWindowGroup (Group (at1 M MaterNum)) then True else wm) xs b
   = (b \<or> (\<exists>Layer \<in> set xs. at1 LP Layer \<noteq> 0 \<and> \<not> IsWindowGroup (Group (at1 M (at1 LP Layer)))))"
  by (induction xs arbitrary: b) (auto simp: Let_def)

lemma WrongMaterialsMix_loop_iff:
  "WrongMaterialsMix_loop M c \<longleftrightarrow>
     (\<exists>Layer \<in> {1..TotLayers c}. at1 (LayerPoint c) Layer \<noteq> 0
        \<and> \<not> IsWindowGroup (LayerGroup M c Layer))"
  by (simp add: WrongMaterialsMix_loop_def WrongMaterialsMix_fold LayerGroup_def)

lemma DiffusingShade_fold:
  "fst (fold (\<lambda>Layer (ef, left).
                  if left then (ef, left)
                  else
                    (let MaterNum = at1 LP Layer in
                     if MaterNum = 0 then (ef, left)
                     else if SolarDiffusing (at1 M MaterNum) \<and> TS > 0
                       then (True, True)
                     else (ef, left))) xs (b, l))
   = (b \<or> (\<not> l \<and> TS > 0
            \<and> (\<exists>Layer \<in> set xs. at1 LP Layer \<noteq> 0 \<and> SolarDiffusing (at1 M (at1 LP Layer)))))"
  by (induction xs arbitrary: b l) (auto simp: Let_def)

lemma DiffusingShade_loop_iff:
  "DiffusingShade_loop M c TS EF \<longleftrightarrow>
     EF \<or> (TS > 0 \<and> (\<exists>Layer \<in> {1..TotLayers c}. at1 (LayerPoint c) Layer \<noteq> 0
                         \<and> SolarDiffusing (at1 M (at1 (LayerPoint c) Layer))))"
  by (simp add: DiffusingShade_loop_def DiffusingShade_fold)

lemma DiffusingInnermost_fold:
  "snd (fold (\<lambda>Layer (GlassLayNum, ef).
                     let MaterNum = at1 LP Layer in
                     if MaterNum = 0 then (GlassLayNum, ef)
                     else if Group (at1 M MaterNum) = WindowGlass then
                       (GlassLayNum + 1,
                        if GlassLayNum + 1 < TG \<and> SolarDiffusing (at1 M MaterNum)
                        then True else ef)
                     else (GlassLayNum, ef)) xs (n, b)) \<Longrightarrow>
   b \<or> (\<exists>Layer \<in> set xs. at1 LP Layer \<noteq> 0 \<and> SolarDiffusing (at1 M (at1 LP Layer)))"
  by (induction xs arbitrary: n b) (auto simp: Let_def split: if_splits)

lemma DiffusingInnermost_mono:
  "b \<Longrightarrow> snd (fold (\<lambda>Layer (GlassLayNum, ef).
                     let MaterNum = at1 LP Layer in
                     if MaterNum = 0 then (GlassLayNum, ef)
                     else if Group (at1 M MaterNum) = WindowGlass then
                       (GlassLayNum + 1,
                        if GlassLayNum + 1 < TG \<and> SolarDiffusing (at1 M MaterNum)
                        then True else ef)
                     else (GlassLayNum, ef)) xs (n, b))"
  by (induction xs arbitrary: n) (auto simp: Let_def)

lemma Diffusing_both:
  assumes "TS > 0"
  shows "DiffusingInnermost_loop M c TG (DiffusingShade_loop M c TS EF)
         = DiffusingShade_loop M c TS EF"
proof (cases "DiffusingShade_loop M c TS EF")
  case True
  then show ?thesis
    by (simp add: DiffusingInnermost_loop_def DiffusingInnermost_mono)
next
  case False
  have "\<not> DiffusingInnermost_loop M c TG False"
  proof
    assume a: "DiffusingInnermost_loop M c TG False"
    then have "TG > 1" by (simp add: DiffusingInnermost_loop_def split: if_splits)
    with a have "\<exists>Layer \<in> set [1..TotLayers c]. at1 (LayerPoint c) Layer \<noteq> 0
                   \<and> SolarDiffusing (at1 M (at1 (LayerPoint c) Layer))"
      using DiffusingInnermost_fold [of "LayerPoint c" M TG "[1..TotLayers c]" 0 False]
      by (simp add: DiffusingInnermost_loop_def)
    with False assms show False by (auto simp: DiffusingShade_loop_iff)
  qed
  with False show ?thesis by simp
qed

lemma int_1_5: "(Layer::int) \<in> {1..5} \<longleftrightarrow> Layer = 1 \<or> Layer = 2 \<or> Layer = 3 \<or> Layer = 4 \<or> Layer = 5"
  by auto

lemma int_1_7: "(Layer::int) \<in> {1..7} \<longleftrightarrow>
   Layer = 1 \<or> Layer = 2 \<or> Layer = 3 \<or> Layer = 4 \<or> Layer = 5 \<or> Layer = 6 \<or> Layer = 7"
  by auto

lemma kind_glass:
  assumes "at1 (LayerPoint c) k \<noteq> 0" and "LayerGroup M c k = WindowGlass"
  shows "CountsAsGlass M c k" "\<not> CountsAsShade M c k" "\<not> CountsAsGas M c k"
  using assms by (simp_all add: CountsAsGlass_def CountsAsShade_def CountsAsGas_def group_defs)

lemma kind_gas:
  assumes "at1 (LayerPoint c) k \<noteq> 0"
      and "LayerGroup M c k = WindowGas \<or> LayerGroup M c k = WindowGasMixture"
  shows "\<not> CountsAsGlass M c k" "\<not> CountsAsShade M c k" "CountsAsGas M c k"
  using assms by (auto simp: CountsAsGlass_def CountsAsShade_def CountsAsGas_def group_defs)

lemma kind_shade:
  assumes "at1 (LayerPoint c) k \<noteq> 0"
      and "LayerGroup M c k = Shade \<or> LayerGroup M c k = WindowBlind"
  shows "\<not> CountsAsGlass M c k" "CountsAsShade M c k" "\<not> CountsAsGas M c k"
  using assms by (auto simp: CountsAsGlass_def CountsAsShade_def CountsAsGas_def group_defs)

lemma same_kind:
  assumes "SameGroupAsNext M c k"
  shows "CountsAsGlass M c k = CountsAsGlass M c (k + 1)"
    and "CountsAsGas M c k = CountsAsGas M c (k + 1)"
  using assms by (simp_all add: SameGroupAsNext_def CountsAsGlass_def CountsAsGas_def)

lemma same_last: "SameGroupAsNext M c k \<Longrightarrow> k < TotLayers c"
  by (simp add: SameGroupAsNext_def)

lemma double_kinds:
  assumes "TotLayers c = 5" and "DoublePattern M c"
      and "\<forall>Layer \<in> {1..5}. at1 (LayerPoint c) Layer \<noteq> 0"
  shows "CountsAsGlass M c 1" "\<not> CountsAsGlass M c 2" "\<not> CountsAsGlass M c 3"
        "\<not> CountsAsGlass M c 4" "CountsAsGlass M c 5"
        "\<not> CountsAsShade M c 1" "\<not> CountsAsShade M c 2" "CountsAsShade M c 3"
        "\<not> CountsAsShade M c 4" "\<not> CountsAsShade M c 5"
        "\<not> CountsAsGas M c 1" "CountsAsGas M c 2" "\<not> CountsAsGas M c 3"
        "CountsAsGas M c 4" "\<not> CountsAsGas M c 5"
        "\<not> SameGroupAsNext M c 1" "\<not> SameGroupAsNext M c 2" "\<not> SameGroupAsNext M c 3"
        "\<not> SameGroupAsNext M c 4" "\<not> SameGroupAsNext M c 5"
proof -
  have nz: "at1 (LayerPoint c) 1 \<noteq> 0" "at1 (LayerPoint c) 2 \<noteq> 0" "at1 (LayerPoint c) 3 \<noteq> 0"
    "at1 (LayerPoint c) 4 \<noteq> 0" "at1 (LayerPoint c) 5 \<noteq> 0"
    using assms(3) by simp_all
  have g: "LayerGroup M c 1 = WindowGlass"
    "LayerGroup M c 2 = WindowGas \<or> LayerGroup M c 2 = WindowGasMixture"
    "LayerGroup M c 3 = Shade \<or> LayerGroup M c 3 = WindowBlind"
    "LayerGroup M c 4 = WindowGas \<or> LayerGroup M c 4 = WindowGasMixture"
    "LayerGroup M c 5 = WindowGlass"
    using assms(2) by (simp_all add: DoublePattern_def)
  note k1 = kind_glass [OF nz(1) g(1)] and k2 = kind_gas [OF nz(2) g(2)]
    and k3 = kind_shade [OF nz(3) g(3)] and k4 = kind_gas [OF nz(4) g(4)]
    and k5 = kind_glass [OF nz(5) g(5)]
  show "CountsAsGlass M c 1" "\<not> CountsAsGlass M c 2" "\<not> CountsAsGlass M c 3"
        "\<not> CountsAsGlass M c 4" "CountsAsGlass M c 5"
        "\<not> CountsAsShade M c 1" "\<not> CountsAsShade M c 2" "CountsAsShade M c 3"
        "\<not> CountsAsShade M c 4" "\<not> CountsAsShade M c 5"
        "\<not> CountsAsGas M c 1" "CountsAsGas M c 2" "\<not> CountsAsGas M c 3"
        "CountsAsGas M c 4" "\<not> CountsAsGas M c 5"
    by (fact k1 k2 k3 k4 k5)+
  show "\<not> SameGroupAsNext M c 1"
    using same_kind(1) [of M c 1] k1(1) k2(1) by auto
  show "\<not> SameGroupAsNext M c 2"
    using same_kind(2) [of M c 2] k2(3) k3(3) by auto
  show "\<not> SameGroupAsNext M c 3"
    using same_kind(2) [of M c 3] k3(3) k4(3) by auto
  show "\<not> SameGroupAsNext M c 4"
    using same_kind(1) [of M c 4] k4(1) k5(1) by auto
  show "\<not> SameGroupAsNext M c 5"
    using same_last [of M c 5] assms(1) by auto
qed

lemma double_counts:
  assumes "TotLayers c = 5" and "DoublePattern M c"
      and "\<forall>Layer \<in> {1..5}. at1 (LayerPoint c) Layer \<noteq> 0"
  shows "Count_loop M c = (2, 1, 2, False)"
proof -
  note k = double_kinds [OF assms]
  have ns: "\<not> (\<exists>Layer \<in> {1..5}. SameGroupAsNext M c Layer)"
  proof
    assume "\<exists>Layer \<in> {1..5}. SameGroupAsNext M c Layer"
    then obtain Layer where "Layer \<in> {1..5}" and s: "SameGroupAsNext M c Layer" by blast
    then have "Layer = 1 \<or> Layer = 2 \<or> Layer = 3 \<or> Layer = 4 \<or> Layer = 5"
      by (simp only: int_1_5)
    with s k(16-20) show False by blast
  qed
  show ?thesis
    unfolding Count_loop_eq assms(1) using ns
    by (simp add: upto_from_1 k)
qed

lemma triple_kinds:
  assumes "TotLayers c = 7" and "TriplePattern M c"
      and "\<forall>Layer \<in> {1..7}. at1 (LayerPoint c) Layer \<noteq> 0"
  shows "CountsAsGlass M c 1" "\<not> CountsAsGlass M c 2" "CountsAsGlass M c 3"
        "\<not> CountsAsGlass M c 4" "\<not> CountsAsGlass M c 5" "\<not> CountsAsGlass M c 6"
        "CountsAsGlass M c 7"
        "\<not> CountsAsShade M c 1" "\<not> CountsAsShade M c 2" "\<not> CountsAsShade M c 3"
        "\<not> CountsAsShade M c 4" "CountsAsShade M c 5" "\<not> CountsAsShade M c 6"
        "\<not> CountsAsShade M c 7"
        "\<not> CountsAsGas M c 1" "CountsAsGas M c 2" "\<not> CountsAsGas M c 3"
        "CountsAsGas M c 4" "\<not> CountsAsGas M c 5" "CountsAsGas M c 6"
        "\<not> CountsAsGas M c 7"
        "\<not> SameGroupAsNext M c 1" "\<not> SameGroupAsNext M c 2" "\<not> SameGroupAsNext M c 3"
        "\<not> SameGroupAsNext M c 4" "\<not> SameGroupAsNext M c 5" "\<not> SameGroupAsNext M c 6"
        "\<not> SameGroupAsNext M c 7"
proof -
  have nz: "at1 (LayerPoint c) 1 \<noteq> 0" "at1 (LayerPoint c) 2 \<noteq> 0" "at1 (LayerPoint c) 3 \<noteq> 0"
    "at1 (LayerPoint c) 4 \<noteq> 0" "at1 (LayerPoint c) 5 \<noteq> 0" "at1 (LayerPoint c) 6 \<noteq> 0"
    "at1 (LayerPoint c) 7 \<noteq> 0"
    using assms(3) by simp_all
  have g: "LayerGroup M c 1 = WindowGlass"
    "LayerGroup M c 2 = WindowGas \<or> LayerGroup M c 2 = WindowGasMixture"
    "LayerGroup M c 3 = WindowGlass"
    "LayerGroup M c 4 = WindowGas \<or> LayerGroup M c 4 = WindowGasMixture"
    "LayerGroup M c 5 = Shade \<or> LayerGroup M c 5 = WindowBlind"
    "LayerGroup M c 6 = WindowGas \<or> LayerGroup M c 6 = WindowGasMixture"
    "LayerGroup M c 7 = WindowGlass"
    using assms(2) by (simp_all add: TriplePattern_def)
  note k1 = kind_glass [OF nz(1) g(1)] and k2 = kind_gas [OF nz(2) g(2)]
    and k3 = kind_glass [OF nz(3) g(3)] and k4 = kind_gas [OF nz(4) g(4)]
    and k5 = kind_shade [OF nz(5) g(5)] and k6 = kind_gas [OF nz(6) g(6)]
    and k7 = kind_glass [OF nz(7) g(7)]
  show "CountsAsGlass M c 1" "\<not> CountsAsGlass M c 2" "CountsAsGlass M c 3"
        "\<not> CountsAsGlass M c 4" "\<not> CountsAsGlass M c 5" "\<not> CountsAsGlass M c 6"
        "CountsAsGlass M c 7"
        "\<not> CountsAsShade M c 1" "\<not> CountsAsShade M c 2" "\<not> CountsAsShade M c 3"
        "\<not> CountsAsShade M c 4" "CountsAsShade M c 5" "\<not> CountsAsShade M c 6"
        "\<not> CountsAsShade M c 7"
        "\<not> CountsAsGas M c 1" "CountsAsGas M c 2" "\<not> CountsAsGas M c 3"
        "CountsAsGas M c 4" "\<not> CountsAsGas M c 5" "CountsAsGas M c 6"
        "\<not> CountsAsGas M c 7"
    by (fact k1 k2 k3 k4 k5 k6 k7)+
  show "\<not> SameGroupAsNext M c 1"
    using same_kind(1) [of M c 1] k1(1) k2(1) by auto
  show "\<not> SameGroupAsNext M c 2"
    using same_kind(1) [of M c 2] k2(1) k3(1) by auto
  show "\<not> SameGroupAsNext M c 3"
    using same_kind(1) [of M c 3] k3(1) k4(1) by auto
  show "\<not> SameGroupAsNext M c 4"
    using same_kind(2) [of M c 4] k4(3) k5(3) by auto
  show "\<not> SameGroupAsNext M c 5"
    using same_kind(2) [of M c 5] k5(3) k6(3) by auto
  show "\<not> SameGroupAsNext M c 6"
    using same_kind(1) [of M c 6] k6(1) k7(1) by auto
  show "\<not> SameGroupAsNext M c 7"
    using same_last [of M c 7] assms(1) by auto
qed

lemma triple_counts:
  assumes "TotLayers c = 7" and "TriplePattern M c"
      and "\<forall>Layer \<in> {1..7}. at1 (LayerPoint c) Layer \<noteq> 0"
  shows "Count_loop M c = (3, 1, 3, False)"
proof -
  note k = triple_kinds [OF assms]
  have ns: "\<not> (\<exists>Layer \<in> {1..7}. SameGroupAsNext M c Layer)"
  proof
    assume "\<exists>Layer \<in> {1..7}. SameGroupAsNext M c Layer"
    then obtain Layer where "Layer \<in> {1..7}" and s: "SameGroupAsNext M c Layer" by blast
    then have "Layer = 1 \<or> Layer = 2 \<or> Layer = 3 \<or> Layer = 4 \<or> Layer = 5 \<or> Layer = 6
               \<or> Layer = 7"
      by (simp only: int_1_7)
    with s k(22-28) show False by blast
  qed
  show ?thesis
    unfolding Count_loop_eq assms(1) using ns
    by (simp add: upto_from_1 k)
qed

lemma GapsDiffer_fold:
  "fold (\<lambda>IGas w. if P IGas then True else w) xs b = (b \<or> (\<exists>IGas \<in> set xs. P IGas))"
  by (induction xs arbitrary: b) auto

lemma GapsDiffer_iff:
  "GapsDiffer L R w \<longleftrightarrow>
     w \<or> (\<exists>IGas \<in> {1..5}. at1 (GasType L) IGas \<noteq> at1 (GasType R) IGas
                       \<or> at1 (GasFract L) IGas \<noteq> at1 (GasFract R) IGas)
       \<or> \<bar>Thickness L - Thickness R\<bar> > 0.0005"
  unfolding GapsDiffer_def Let_def GapsDiffer_fold by auto

lemma SlatWidth_check_iff:
  "SlatWidth_check B Sh L R ef \<longleftrightarrow>
     ef \<or> (Group Sh = WindowBlind \<and> BlindDataPtr Sh > 0
           \<and> Thickness L + Thickness R < SlatWidth (at1 B (BlindDataPtr Sh)))"
  by (simp add: SlatWidth_check_def Let_def)

lemma double_layering:
  assumes T: "TotLayers c = 5" and pat: "DoublePattern M c"
      and nz: "\<forall>Layer \<in> {1..5}. at1 (LayerPoint c) Layer \<noteq> 0"
  shows "WindowLayering M B c 2 1 False EF =
           (GapsDiffer (at1 M (at1 (LayerPoint c) 2)) (at1 M (at1 (LayerPoint c) 4)) False,
            GapsDiffer (at1 M (at1 (LayerPoint c) 2)) (at1 M (at1 (LayerPoint c) 4)) False
            \<or> SlatWidth_check B (at1 M (at1 (LayerPoint c) 3)) (at1 M (at1 (LayerPoint c) 2))
                 (at1 M (at1 (LayerPoint c) 4)) (DiffusingShade_loop M c 1 EF))"
proof -
  have g1: "LayerGroup M c 1 = WindowGlass" and g5: "LayerGroup M c 5 = WindowGlass"
    using pat by (simp_all add: DoublePattern_def)
  have g3: "\<not> (Group (at1 M (at1 (LayerPoint c) 3)) \<noteq> Shade
              \<and> Group (at1 M (at1 (LayerPoint c) 3)) \<noteq> WindowBlind)"
    using pat by (simp add: DoublePattern_def LayerGroup_def)
  have ne: "WindowGlass \<noteq> WindowGas" "WindowGlass \<noteq> WindowGasMixture" "WindowGlass \<noteq> Shade"
    "WindowGlass \<noteq> WindowBlind" "WindowGlass \<noteq> Screen" "WindowGlass \<noteq> ComplexWindowShade"
    "WindowGlass \<noteq> WindowSimpleGlazing"
    by (simp_all add: group_defs)
  have cond: "BetweenGlass_cond M c 1 False"
    using ne by (simp add: BetweenGlass_cond_def T g1 g5)
  have body: "BetweenGlass_body M B c 2 ef =
           (GapsDiffer (at1 M (at1 (LayerPoint c) 2)) (at1 M (at1 (LayerPoint c) 4)) False,
            SlatWidth_check B (at1 M (at1 (LayerPoint c) 3)) (at1 M (at1 (LayerPoint c) 2))
                 (at1 M (at1 (LayerPoint c) 4)) ef)" for ef
    using g3 by (auto simp: BetweenGlass_body_def T pat Let_def)
  have sg: "SimpleGlazing_check M c ef = ef" for ef
    using ne by (simp add: SimpleGlazing_check_def g1)
  have dif: "DiffusingInnermost_loop M c 2 (DiffusingShade_loop M c 1 EF)
             = DiffusingShade_loop M c 1 EF"
    by (rule Diffusing_both) simp
  show ?thesis
    using ne by (simp add: WindowLayering_def Let_def T g1 g5 cond body sg dif)
qed

lemma double_window:
  assumes T: "TotLayers c = 5" and pat: "DoublePattern M c"
      and nz: "\<forall>Layer \<in> {1..5}. at1 (LayerPoint c) Layer \<noteq> 0"
  shows "TypeIsWindow_loop M c" and "MixCountSingle_check M c EF = EF"
proof -
  have g1: "LayerGroup M c 1 = WindowGlass"
    using pat by (simp add: DoublePattern_def)
  have "at1 (LayerPoint c) 1 \<noteq> 0" using nz by simp
  then show "TypeIsWindow_loop M c"
    unfolding TypeIsWindow_loop_iff T using g1 by (auto simp: IsWindowGroup_def)
  have "\<not> WrongMaterialsMix_loop M c"
  proof
    assume "WrongMaterialsMix_loop M c"
    then obtain Layer where "Layer \<in> {1..5}" and w: "\<not> IsWindowGroup (LayerGroup M c Layer)"
      unfolding WrongMaterialsMix_loop_iff T by blast
    then have "Layer = 1 \<or> Layer = 2 \<or> Layer = 3 \<or> Layer = 4 \<or> Layer = 5"
      by (simp only: int_1_5)
    with w pat show False
      by (auto simp: DoublePattern_def IsWindowGroup_def)
  qed
  then show "MixCountSingle_check M c EF = EF"
    by (simp add: MixCountSingle_check_def T)
qed

lemma double_flag:
  assumes T: "TotLayers c = 5" and pat: "DoublePattern M c"
      and nz: "\<forall>Layer \<in> {1..5}. at1 (LayerPoint c) Layer \<noteq> 0"
      and inner: "0 < at1 (LayerPoint c) 5"
      and flags: "\<not> WindowTypeBSDF c" "\<not> WindowTypeEQL c"
  shows "snd (CheckConstruct M B c EF) \<longleftrightarrow>
           GapsDiffer (at1 M (at1 (LayerPoint c) 2)) (at1 M (at1 (LayerPoint c) 4)) False
           \<or> SlatWidth_check B (at1 M (at1 (LayerPoint c) 3)) (at1 M (at1 (LayerPoint c) 2))
                 (at1 M (at1 (LayerPoint c) 4)) (DiffusingShade_loop M c 1 EF)"
proof -
  have g1: "LayerGroup M c 1 = WindowGlass" and g5: "LayerGroup M c 5 = WindowGlass"
    using pat by (simp_all add: DoublePattern_def)
  have ne: "WindowGlass \<noteq> Air" "WindowGlass \<noteq> EcoRoof" "WindowGlass \<noteq> IRTMaterial"
    "WindowGlass \<noteq> Shade" "WindowGlass \<noteq> WindowBlind"
    by (simp_all add: group_defs)
  have o: "at1 (LayerPoint c) 1 \<noteq> 0" using nz by simp
  have "snd (CheckConstruct M B c EF) =
         snd (FinalChecks M c
               (snd (WindowLayering M B c 2 1 False (MixCountSingle_check M c EF)))
               (if LayerGroup M c (TotLayers c) = Shade
                   \<or> LayerGroup M c (TotLayers c) = WindowBlind
                then TotLayers c - 1 else TotLayers c))"
    by (rule CheckConstruct_flag_window [where TGas = 2])
       (use T inner o flags double_window(1) [OF T pat nz] double_counts [OF T pat nz]
         in simp_all)
  then show ?thesis
    using ne
    by (simp add: double_window(2) [OF T pat nz] double_layering [OF T pat nz]
        FinalChecks_flag T g1 g5)
qed

lemma triple_layering:
  assumes T: "TotLayers c = 7" and pat: "TriplePattern M c"
      and nz: "\<forall>Layer \<in> {1..7}. at1 (LayerPoint c) Layer \<noteq> 0"
  shows "WindowLayering M B c 3 1 False EF =
           (GapsDiffer (at1 M (at1 (LayerPoint c) 4)) (at1 M (at1 (LayerPoint c) 6)) False,
            GapsDiffer (at1 M (at1 (LayerPoint c) 4)) (at1 M (at1 (LayerPoint c) 6)) False
            \<or> SlatWidth_check B (at1 M (at1 (LayerPoint c) 5)) (at1 M (at1 (LayerPoint c) 4))
                 (at1 M (at1 (LayerPoint c) 6)) (DiffusingShade_loop M c 1 EF))"
proof -
  have g1: "LayerGroup M c 1 = WindowGlass" and g7: "LayerGroup M c 7 = WindowGlass"
    using pat by (simp_all add: TriplePattern_def)
  have g5: "\<not> (Group (at1 M (at1 (LayerPoint c) 5)) \<noteq> Shade
              \<and> Group (at1 M (at1 (LayerPoint c) 5)) \<noteq> WindowBlind)"
    using pat by (simp add: TriplePattern_def LayerGroup_def)
  have ne: "WindowGlass \<noteq> WindowGas" "WindowGlass \<noteq> WindowGasMixture" "WindowGlass \<noteq> Shade"
    "WindowGlass \<noteq> WindowBlind" "WindowGlass \<noteq> Screen" "WindowGlass \<noteq> ComplexWindowShade"
    "WindowGlass \<noteq> WindowSimpleGlazing"
    by (simp_all add: group_defs)
  have cond: "BetweenGlass_cond M c 1 False"
    using ne by (simp add: BetweenGlass_cond_def T g1 g7)
  have body: "BetweenGlass_body M B c 3 ef =
           (GapsDiffer (at1 M (at1 (LayerPoint c) 4)) (at1 M (at1 (LayerPoint c) 6)) False,
            SlatWidth_check B (at1 M (at1 (LayerPoint c) 5)) (at1 M (at1 (LayerPoint c) 4))
                 (at1 M (at1 (LayerPoint c) 6)) ef)" for ef
    using g5 by (auto simp: BetweenGlass_body_def T pat Let_def)
  have sg: "SimpleGlazing_check M c ef = ef" for ef
    using ne by (simp add: SimpleGlazing_check_def g1)
  have dif: "DiffusingInnermost_loop M c 3 (DiffusingShade_loop M c 1 EF)
             = DiffusingShade_loop M c 1 EF"
    by (rule Diffusing_both) simp
  show ?thesis
    using ne by (simp add: WindowLayering_def Let_def T g1 g7 cond body sg dif)
qed

lemma triple_window:
  assumes T: "TotLayers c = 7" and pat: "TriplePattern M c"
      and nz: "\<forall>Layer \<in> {1..7}. at1 (LayerPoint c) Layer \<noteq> 0"
  shows "TypeIsWindow_loop M c" and "MixCountSingle_check M c EF = EF"
proof -
  have g1: "LayerGroup M c 1 = WindowGlass"
    using pat by (simp add: TriplePattern_def)
  have "at1 (LayerPoint c) 1 \<noteq> 0" using nz by simp
  then show "TypeIsWindow_loop M c"
    unfolding TypeIsWindow_loop_iff T using g1 by (auto simp: IsWindowGroup_def)
  have "\<not> WrongMaterialsMix_loop M c"
  proof
    assume "WrongMaterialsMix_loop M c"
    then obtain Layer where "Layer \<in> {1..7}" and w: "\<not> IsWindowGroup (LayerGroup M c Layer)"
      unfolding WrongMaterialsMix_loop_iff T by blast
    then have "Layer = 1 \<or> Layer = 2 \<or> Layer = 3 \<or> Layer = 4 \<or> Layer = 5 \<or> Layer = 6
               \<or> Layer = 7"
      by (simp only: int_1_7)
    with w pat show False
      by (auto simp: TriplePattern_def IsWindowGroup_def)
  qed
  then show "MixCountSingle_check M c EF = EF"
    by (simp add: MixCountSingle_check_def T)
qed

lemma triple_flag:
  assumes T: "TotLayers c = 7" and pat: "TriplePattern M c"
      and nz: "\<forall>Layer \<in> {1..7}. at1 (LayerPoint c) Layer \<noteq> 0"
      and inner: "0 < at1 (LayerPoint c) 7"
      and flags: "\<not> WindowTypeBSDF c" "\<not> WindowTypeEQL c"
  shows "snd (CheckConstruct M B c EF) \<longleftrightarrow>
           GapsDiffer (at1 M (at1 (LayerPoint c) 4)) (at1 M (at1 (LayerPoint c) 6)) False
           \<or> SlatWidth_check B (at1 M (at1 (LayerPoint c) 5)) (at1 M (at1 (LayerPoint c) 4))
                 (at1 M (at1 (LayerPoint c) 6)) (DiffusingShade_loop M c 1 EF)"
proof -
  have g1: "LayerGroup M c 1 = WindowGlass" and g7: "LayerGroup M c 7 = WindowGlass"
    using pat by (simp_all add: TriplePattern_def)
  have ne: "WindowGlass \<noteq> Air" "WindowGlass \<noteq> EcoRoof" "WindowGlass \<noteq> IRTMaterial"
    "WindowGlass \<noteq> Shade" "WindowGlass \<noteq> WindowBlind"
    by (simp_all add: group_defs)
  have o: "at1 (LayerPoint c) 1 \<noteq> 0" using nz by simp
  have "snd (CheckConstruct M B c EF) =
         snd (FinalChecks M c
               (snd (WindowLayering M B c 3 1 False (MixCountSingle_check M c EF)))
               (if LayerGroup M c (TotLayers c) = Shade
                   \<or> LayerGroup M c (TotLayers c) = WindowBlind
                then TotLayers c - 1 else TotLayers c))"
    by (rule CheckConstruct_flag_window [where TGas = 3])
       (use T inner o flags triple_window(1) [OF T pat nz] triple_counts [OF T pat nz]
         in simp_all)
  then show ?thesis
    using ne
    by (simp add: triple_window(2) [OF T pat nz] triple_layering [OF T pat nz]
        FinalChecks_flag T g1 g7)
qed

lemma CheckAndSet_flag:
  "snd (CheckAndSetConstructionProperties g ConstrNum EF)
   = snd (CheckConstruct (Material g) (Blind g) (at1 (Construct g) ConstrNum) EF)"
  by (simp add: CheckAndSetConstructionProperties_def split: prod.split)

lemma CheckAndSet_entry:
  "in_range (Construct g) ConstrNum \<Longrightarrow>
   at1 (Construct (fst (CheckAndSetConstructionProperties g ConstrNum EF))) ConstrNum
   = fst (CheckConstruct (Material g) (Blind g) (at1 (Construct g) ConstrNum) EF)"
  by (simp add: CheckAndSetConstructionProperties_def at1_upd1_same split: prod.split)

lemma IsWindowGroup_set:
  "IsWindowGroup G \<longleftrightarrow>
     G \<in> {WindowGlass, WindowGas, WindowGasMixture, Shade, WindowBlind, Screen,
          WindowSimpleGlazing, ComplexWindowShade, ComplexWindowGap, GlassEquivalentLayer,
          ShadeEquivalentLayer, DrapeEquivalentLayer, BlindEquivalentLayer,
          ScreenEquivalentLayer, GapEquivalentLayer}"
  by (auto simp: IsWindowGroup_def)

text \<open>
  C2. For a construction with at least one layer whose innermost layer slot refers to a
  material, the routine leaves \<^verbatim>\<open>TypeIsWindow\<close> true exactly when some layer with a
  material has a group among the fifteen window groups (glass, gas, gas mixture, shade,
  blind, screen, simple glazing, complex shade, complex gap and the six equivalent-layer
  groups); with a single layer, exactly when the group of that layer is one of them.
\<close>

theorem window_classification:
  assumes "in_range (Construct g) ConstrNum"
      and "1 \<le> TotLayers (at1 (Construct g) ConstrNum)"
      and "0 < at1 (LayerPoint (at1 (Construct g) ConstrNum))
                 (TotLayers (at1 (Construct g) ConstrNum))"
  shows "(TypeIsWindow (at1 (Construct (fst (CheckAndSetConstructionProperties g ConstrNum
                                              ErrorsFound))) ConstrNum)
          \<longleftrightarrow> (\<exists>Layer \<in> {1..TotLayers (at1 (Construct g) ConstrNum)}.
                 at1 (LayerPoint (at1 (Construct g) ConstrNum)) Layer \<noteq> 0
                 \<and> LayerGroup (Material g) (at1 (Construct g) ConstrNum) Layer
                   \<in> {WindowGlass, WindowGas, WindowGasMixture, Shade, WindowBlind, Screen,
                      WindowSimpleGlazing, ComplexWindowShade, ComplexWindowGap,
                      GlassEquivalentLayer, ShadeEquivalentLayer, DrapeEquivalentLayer,
                      BlindEquivalentLayer, ScreenEquivalentLayer, GapEquivalentLayer}))
       \<and> (TotLayers (at1 (Construct g) ConstrNum) = 1 \<longrightarrow>
            (TypeIsWindow (at1 (Construct (fst (CheckAndSetConstructionProperties g ConstrNum
                                                  ErrorsFound))) ConstrNum)
             \<longleftrightarrow> LayerGroup (Material g) (at1 (Construct g) ConstrNum) 1
                   \<in> {WindowGlass, WindowGas, WindowGasMixture, Shade, WindowBlind, Screen,
                      WindowSimpleGlazing, ComplexWindowShade, ComplexWindowGap,
                      GlassEquivalentLayer, ShadeEquivalentLayer, DrapeEquivalentLayer,
                      BlindEquivalentLayer, ScreenEquivalentLayer, GapEquivalentLayer}))"
proof -
  let ?c = "at1 (Construct g) ConstrNum"
  have nz: "TotLayers ?c \<noteq> 0" using assms(2) by simp
  have tw: "TypeIsWindow (at1 (Construct (fst (CheckAndSetConstructionProperties g ConstrNum
                                              ErrorsFound))) ConstrNum)
            = TypeIsWindow_loop (Material g) ?c"
    by (simp add: CheckAndSet_entry [OF assms(1)] CheckConstruct_TypeIsWindow [OF nz assms(3)])
  have single: "TypeIsWindow_loop (Material g) ?c
                  \<longleftrightarrow> IsWindowGroup (LayerGroup (Material g) ?c 1)"
    if "TotLayers ?c = 1"
    using that assms(3) by (simp add: TypeIsWindow_loop_iff)
  note a = TypeIsWindow_loop_iff [of "Material g" ?c, unfolded IsWindowGroup_set]
  note b = single [unfolded IsWindowGroup_set]
  show ?thesis
    unfolding tw using a b by blast
qed

lemma ex_entries:
  "at1 (Construct ex_data) 1 = mk_construct ''PANE'' 1 [1, 0, 0, 0, 0, 0, 0, 0, 0, 0, 0] False"
  "at1 (Construct ex_data) 2 = mk_construct ''SLAB'' 1 [6, 0, 0, 0, 0, 0, 0, 0, 0, 0, 0] False"
  "at1 (Construct ex_data) 3
     = mk_construct ''ROOF INSIDE'' 2 [6, 7, 0, 0, 0, 0, 0, 0, 0, 0, 0] False"
  "at1 (Construct ex_data) 4
     = mk_construct ''BG SHADE'' 5 [1, 2, 5, 3, 1, 0, 0, 0, 0, 0, 0] False"
  "at1 (Construct ex_data) 5
     = mk_construct ''BG SHADE MIXED'' 5 [1, 2, 5, 4, 1, 0, 0, 0, 0, 0, 0] False"
  "at1 (Construct ex_data) 6
     = mk_construct ''BG SHADE BSDF'' 5 [1, 2, 5, 4, 1, 0, 0, 0, 0, 0, 0] True"
  by (simp_all add: ex_data_def ex_constructs_def at1_def)

lemma ex_in_range:
  "in_range (Construct ex_data) 1" "in_range (Construct ex_data) 2"
  "in_range (Construct ex_data) 3" "in_range (Construct ex_data) 4"
  "in_range (Construct ex_data) 5" "in_range (Construct ex_data) 6"
  by (simp_all add: ex_data_def ex_constructs_def in_range_def)

lemma mk_construct_fields:
  "TotLayers (mk_construct nm n ls b) = n"
  "LayerPoint (mk_construct nm n ls b) = ls"
  "WindowTypeBSDF (mk_construct nm n ls b) = b"
  "WindowTypeEQL (mk_construct nm n ls b) = False"
  by (simp_all add: mk_construct_def)

lemma ex_material_groups:
  "Group (at1 (Material ex_data) 1) = WindowGlass"
  "Group (at1 (Material ex_data) 2) = WindowGas"
  "Group (at1 (Material ex_data) 3) = WindowGas"
  "Group (at1 (Material ex_data) 4) = WindowGas"
  "Group (at1 (Material ex_data) 5) = Shade"
  "Group (at1 (Material ex_data) 6) = RegularMaterial"
  "Group (at1 (Material ex_data) 7) = EcoRoof"
  by (simp_all add: ex_data_def ex_materials_def mk_material_def at1_def)

lemma at1_lit:
  "at1 (a # xs) 1 = a"
  "at1 (a # b # xs) 2 = b"
  "at1 (a # b # c # xs) 3 = c"
  "at1 (a # b # c # d # xs) 4 = d"
  "at1 (a # b # c # d # e # xs) 5 = e"
  "at1 (a # b # c # d # e # f # xs) 6 = f"
  "at1 (a # b # c # d # e # f # h # xs) 7 = h"
  by (simp_all add: at1_def)

lemma int_1_2: "(Layer::int) \<in> {1..2} \<longleftrightarrow> Layer = 1 \<or> Layer = 2"
  by auto

theorem window_classification_witness:
  "in_range (Construct ex_data) 1
   \<and> 1 \<le> TotLayers (at1 (Construct ex_data) 1)
   \<and> 0 < at1 (LayerPoint (at1 (Construct ex_data) 1)) (TotLayers (at1 (Construct ex_data) 1))
   \<and> TypeIsWindow (at1 (Construct (fst (CheckAndSetConstructionProperties ex_data 1 False))) 1)
   \<and> in_range (Construct ex_data) 2
   \<and> 1 \<le> TotLayers (at1 (Construct ex_data) 2)
   \<and> 0 < at1 (LayerPoint (at1 (Construct ex_data) 2)) (TotLayers (at1 (Construct ex_data) 2))
   \<and> \<not> TypeIsWindow (at1 (Construct (fst (CheckAndSetConstructionProperties ex_data 2 False))) 2)"
proof -
  have h1: "1 \<le> TotLayers (at1 (Construct ex_data) 1)"
    "0 < at1 (LayerPoint (at1 (Construct ex_data) 1)) (TotLayers (at1 (Construct ex_data) 1))"
    "1 \<le> TotLayers (at1 (Construct ex_data) 2)"
    "0 < at1 (LayerPoint (at1 (Construct ex_data) 2)) (TotLayers (at1 (Construct ex_data) 2))"
    by (simp_all add: ex_entries mk_construct_fields at1_lit)
  have g: "LayerGroup (Material ex_data) (at1 (Construct ex_data) 1) 1 = WindowGlass"
    "LayerGroup (Material ex_data) (at1 (Construct ex_data) 2) 1 = RegularMaterial"
    "TotLayers (at1 (Construct ex_data) 1) = 1" "TotLayers (at1 (Construct ex_data) 2) = 1"
    "at1 (LayerPoint (at1 (Construct ex_data) 1)) 1 = 1"
    "at1 (LayerPoint (at1 (Construct ex_data) 2)) 1 = 6"
    by (simp_all add: LayerGroup_def ex_entries mk_construct_fields ex_material_groups at1_lit)
  note w1 = window_classification [OF ex_in_range(1) h1(1,2), of False]
    and w2 = window_classification [OF ex_in_range(2) h1(3,4), of False]
  have "TypeIsWindow (at1 (Construct (fst (CheckAndSetConstructionProperties ex_data 1 False))) 1)"
    using w1 by (simp add: g)
  moreover
  have "\<not> TypeIsWindow (at1 (Construct (fst (CheckAndSetConstructionProperties ex_data 2 False))) 2)"
    using w2 by (simp add: g) (simp add: group_defs)
  ultimately show ?thesis
    using h1 ex_in_range by simp
qed

text \<open>
  C4, at a construction with concrete outside and a vegetated roof layer inside: the scan
  for an interior \<open>EcoRoof\<close> layer (lines 989-995) is inside the test that the outermost
  layer is \<open>EcoRoof\<close>, so here it does not run and the flag stays false.
\<close>

theorem interior_ecoroof_is_not_flagged:
  "in_range (Construct ex_data) 3
   \<and> TotLayers (at1 (Construct ex_data) 3) = 2
   \<and> LayerGroup (Material ex_data) (at1 (Construct ex_data) 3) 1 = RegularMaterial
   \<and> LayerGroup (Material ex_data) (at1 (Construct ex_data) 3) 2 = EcoRoof
   \<and> snd (CheckAndSetConstructionProperties ex_data 3 False) = False"
proof -
  let ?c = "at1 (Construct ex_data) 3"
  have f: "TotLayers ?c = 2" "at1 (LayerPoint ?c) 1 = 6" "at1 (LayerPoint ?c) 2 = 7"
    by (simp_all add: ex_entries mk_construct_fields at1_lit)
  have g: "LayerGroup (Material ex_data) ?c 1 = RegularMaterial"
    "LayerGroup (Material ex_data) ?c 2 = EcoRoof"
    by (simp_all add: LayerGroup_def f ex_material_groups)
  have nw: "\<not> TypeIsWindow_loop (Material ex_data) ?c"
    unfolding TypeIsWindow_loop_iff f
    by (auto simp only: int_1_2 g) (simp_all add: IsWindowGroup_def group_defs)
  have "snd (CheckConstruct (Material ex_data) (Blind ex_data) ?c False)
        = snd (FinalChecks (Material ex_data) ?c False (TotLayers ?c))"
    by (rule CheckConstruct_flag_opaque) (simp_all add: f nw)
  also have "\<dots> = False"
    by (simp add: FinalChecks_flag f g) (simp add: group_defs)
  finally show ?thesis
    by (simp add: CheckAndSet_flag ex_in_range f g)
qed

text \<open>
  C1, amended. Take a window construction that uses neither the BSDF nor the
  equivalent-layer model, whose layers refer to materials and match glass / gas / shade or
  blind / gas / glass, or glass / gas / glass / gas / shade or blind / gas / glass. With
  \<open>MatGapL\<close> and \<open>MatGapR\<close> the gas layers on the two sides of the shading layer: if they
  differ in gas type or gas fraction in one of the five species slots, or their
  thicknesses differ by more than 0.0005, the routine returns with the error flag set; if
  they do not, the flag is set only if it was set at the call, or a layer is diffusing
  glass, or the slats of a blind are wider than the two gaps together. The local
  \<^verbatim>\<open>WrongWindowLayering\<close> at line 920 is true exactly when the two gas layers differ.
\<close>

theorem between_glass_gas_layers:
  fixes g :: HeatBalanceData and ConstrNum :: int and ErrorsFound :: bool
  defines "c \<equiv> at1 (Construct g) ConstrNum"
      and "M \<equiv> Material g"
  defines "MatGapL \<equiv> at1 M (at1 (LayerPoint c) (TotLayers c - 3))"
      and "MatSh \<equiv> at1 M (at1 (LayerPoint c) (TotLayers c - 2))"
      and "MatGapR \<equiv> at1 M (at1 (LayerPoint c) (TotLayers c - 1))"
  defines "differ \<equiv>
             (\<exists>IGas \<in> {1..5}. at1 (GasType MatGapL) IGas \<noteq> at1 (GasType MatGapR) IGas
                              \<or> at1 (GasFract MatGapL) IGas \<noteq> at1 (GasFract MatGapR) IGas)
             \<or> \<bar>Thickness MatGapL - Thickness MatGapR\<bar> > 0.0005"
  assumes pattern: "(TotLayers c = 5 \<and> DoublePattern M c) \<or> (TotLayers c = 7 \<and> TriplePattern M c)"
      and refs: "\<forall>Layer \<in> {1..TotLayers c}. 0 < at1 (LayerPoint c) Layer"
      and flags: "\<not> WindowTypeBSDF c" "\<not> WindowTypeEQL c"
  shows "(differ \<longrightarrow> snd (CheckAndSetConstructionProperties g ConstrNum ErrorsFound))
       \<and> (\<not> differ \<longrightarrow>
            (snd (CheckAndSetConstructionProperties g ConstrNum ErrorsFound)
             \<longleftrightarrow> ErrorsFound
                 \<or> (\<exists>Layer \<in> {1..TotLayers c}. SolarDiffusing (at1 M (at1 (LayerPoint c) Layer)))
                 \<or> (Group MatSh = WindowBlind \<and> BlindDataPtr MatSh > 0
                    \<and> Thickness MatGapL + Thickness MatGapR
                        < SlatWidth (at1 (Blind g) (BlindDataPtr MatSh)))))
       \<and> (fst (WindowLayering M (Blind g) c ((TotLayers c - 1) div 2) 1 False ErrorsFound)
            \<longleftrightarrow> differ)"
proof -
  have dif: "DiffusingShade_loop M c 1 ErrorsFound \<longleftrightarrow>
               ErrorsFound
               \<or> (\<exists>Layer \<in> {1..TotLayers c}. SolarDiffusing (at1 M (at1 (LayerPoint c) Layer)))"
  proof -
    have "at1 (LayerPoint c) Layer \<noteq> 0" if "Layer \<in> {1..TotLayers c}" for Layer
      using refs that by fastforce
    then show ?thesis
      unfolding DiffusingShade_loop_iff by auto
  qed
  from pattern show ?thesis
  proof
    assume p: "TotLayers c = 5 \<and> DoublePattern M c"
    then have T: "TotLayers c = 5" and pat: "DoublePattern M c" by simp_all
    have nz: "\<forall>Layer \<in> {1..5}. at1 (LayerPoint c) Layer \<noteq> 0"
      using refs T by auto
    have inner: "0 < at1 (LayerPoint c) 5" using refs T by simp
    have gd: "GapsDiffer (at1 M (at1 (LayerPoint c) 2)) (at1 M (at1 (LayerPoint c) 4)) False
              \<longleftrightarrow> differ"
      by (simp add: GapsDiffer_iff differ_def MatGapL_def MatGapR_def T)
    note fl = double_flag [OF T pat nz inner flags, of "Blind g" ErrorsFound]
    show ?thesis
      unfolding CheckAndSet_flag
      using fl [unfolded gd SlatWidth_check_iff dif]
      by (simp add: c_def [symmetric] M_def [symmetric] MatSh_def MatGapL_def MatGapR_def T
          double_layering [OF T pat nz] gd)
  next
    assume p: "TotLayers c = 7 \<and> TriplePattern M c"
    then have T: "TotLayers c = 7" and pat: "TriplePattern M c" by simp_all
    have nz: "\<forall>Layer \<in> {1..7}. at1 (LayerPoint c) Layer \<noteq> 0"
      using refs T by auto
    have inner: "0 < at1 (LayerPoint c) 7" using refs T by simp
    have gd: "GapsDiffer (at1 M (at1 (LayerPoint c) 4)) (at1 M (at1 (LayerPoint c) 6)) False
              \<longleftrightarrow> differ"
      by (simp add: GapsDiffer_iff differ_def MatGapL_def MatGapR_def T)
    note fl = triple_flag [OF T pat nz inner flags, of "Blind g" ErrorsFound]
    show ?thesis
      unfolding CheckAndSet_flag
      using fl [unfolded gd SlatWidth_check_iff dif]
      by (simp add: c_def [symmetric] M_def [symmetric] MatSh_def MatGapL_def MatGapR_def T
          triple_layering [OF T pat nz] gd)
  qed
qed

lemma ball_1_5:
  "(\<forall>Layer \<in> {1..5::int}. P Layer) \<longleftrightarrow> P 1 \<and> P 2 \<and> P 3 \<and> P 4 \<and> P 5"
  by (simp only: Ball_def int_1_5) blast

lemma bex_1_5:
  "(\<exists>Layer \<in> {1..5::int}. P Layer) \<longleftrightarrow> P 1 \<or> P 2 \<or> P 3 \<or> P 4 \<or> P 5"
  by (simp only: Bex_def int_1_5) blast

lemma ex_bg_facts:
  "TotLayers (at1 (Construct ex_data) 4) = 5"
  "TotLayers (at1 (Construct ex_data) 5) = 5"
  "TotLayers (at1 (Construct ex_data) 6) = 5"
  "LayerPoint (at1 (Construct ex_data) 4) = [1, 2, 5, 3, 1, 0, 0, 0, 0, 0, 0]"
  "LayerPoint (at1 (Construct ex_data) 5) = [1, 2, 5, 4, 1, 0, 0, 0, 0, 0, 0]"
  "LayerPoint (at1 (Construct ex_data) 6) = [1, 2, 5, 4, 1, 0, 0, 0, 0, 0, 0]"
  "\<not> WindowTypeBSDF (at1 (Construct ex_data) 4)" "\<not> WindowTypeEQL (at1 (Construct ex_data) 4)"
  "\<not> WindowTypeBSDF (at1 (Construct ex_data) 5)" "\<not> WindowTypeEQL (at1 (Construct ex_data) 5)"
  "WindowTypeBSDF (at1 (Construct ex_data) 6)"
  by (simp_all add: ex_entries mk_construct_fields)

lemma ex_bg_pattern:
  "DoublePattern (Material ex_data) (at1 (Construct ex_data) 4)"
  "DoublePattern (Material ex_data) (at1 (Construct ex_data) 5)"
  "DoublePattern (Material ex_data) (at1 (Construct ex_data) 6)"
  by (simp_all add: DoublePattern_def LayerGroup_def ex_bg_facts at1_lit ex_material_groups)
     (simp_all add: group_defs)

lemma ex_bg_refs:
  "\<forall>Layer \<in> {1..TotLayers (at1 (Construct ex_data) 4)}.
      0 < at1 (LayerPoint (at1 (Construct ex_data) 4)) Layer"
  "\<forall>Layer \<in> {1..TotLayers (at1 (Construct ex_data) 5)}.
      0 < at1 (LayerPoint (at1 (Construct ex_data) 5)) Layer"
  "\<forall>Layer \<in> {1..TotLayers (at1 (Construct ex_data) 6)}.
      0 < at1 (LayerPoint (at1 (Construct ex_data) 6)) Layer"
  unfolding ex_bg_facts ball_1_5 by (simp_all add: at1_lit)

lemma ex_gases:
  "GasType (at1 (Material ex_data) 2) = [1, 0, 0, 0, 0]"
  "GasType (at1 (Material ex_data) 3) = [1, 0, 0, 0, 0]"
  "GasType (at1 (Material ex_data) 4) = [2, 0, 0, 0, 0]"
  "GasFract (at1 (Material ex_data) 2) = [1, 0, 0, 0, 0]"
  "GasFract (at1 (Material ex_data) 3) = [1, 0, 0, 0, 0]"
  "GasFract (at1 (Material ex_data) 4) = [1, 0, 0, 0, 0]"
  "Thickness (at1 (Material ex_data) 2) = 127 / 10000"
  "Thickness (at1 (Material ex_data) 3) = 127 / 10000"
  "Thickness (at1 (Material ex_data) 4) = 127 / 10000"
  "SolarDiffusing (at1 (Material ex_data) 1) = False"
  "SolarDiffusing (at1 (Material ex_data) 2) = False"
  "SolarDiffusing (at1 (Material ex_data) 3) = False"
  "SolarDiffusing (at1 (Material ex_data) 4) = False"
  "SolarDiffusing (at1 (Material ex_data) 5) = False"
  by (simp_all add: ex_data_def ex_materials_def mk_material_def at1_def)

theorem between_glass_gas_layers_witness:
  "((TotLayers (at1 (Construct ex_data) 5) = 5
       \<and> DoublePattern (Material ex_data) (at1 (Construct ex_data) 5))
     \<or> (TotLayers (at1 (Construct ex_data) 5) = 7
       \<and> TriplePattern (Material ex_data) (at1 (Construct ex_data) 5)))
   \<and> 0 < at1 (LayerPoint (at1 (Construct ex_data) 5)) 1
   \<and> 0 < at1 (LayerPoint (at1 (Construct ex_data) 5)) 2
   \<and> 0 < at1 (LayerPoint (at1 (Construct ex_data) 5)) 3
   \<and> 0 < at1 (LayerPoint (at1 (Construct ex_data) 5)) 4
   \<and> 0 < at1 (LayerPoint (at1 (Construct ex_data) 5)) 5
   \<and> \<not> WindowTypeBSDF (at1 (Construct ex_data) 5)
   \<and> \<not> WindowTypeEQL (at1 (Construct ex_data) 5)
   \<and> at1 (GasType (at1 (Material ex_data) 2)) 1 \<noteq> at1 (GasType (at1 (Material ex_data) 4)) 1
   \<and> snd (CheckAndSetConstructionProperties ex_data 5 False)
   \<and> ((TotLayers (at1 (Construct ex_data) 4) = 5
       \<and> DoublePattern (Material ex_data) (at1 (Construct ex_data) 4))
     \<or> (TotLayers (at1 (Construct ex_data) 4) = 7
       \<and> TriplePattern (Material ex_data) (at1 (Construct ex_data) 4)))
   \<and> 0 < at1 (LayerPoint (at1 (Construct ex_data) 4)) 1
   \<and> 0 < at1 (LayerPoint (at1 (Construct ex_data) 4)) 2
   \<and> 0 < at1 (LayerPoint (at1 (Construct ex_data) 4)) 3
   \<and> 0 < at1 (LayerPoint (at1 (Construct ex_data) 4)) 4
   \<and> 0 < at1 (LayerPoint (at1 (Construct ex_data) 4)) 5
   \<and> \<not> WindowTypeBSDF (at1 (Construct ex_data) 4)
   \<and> \<not> WindowTypeEQL (at1 (Construct ex_data) 4)
   \<and> \<not> snd (CheckAndSetConstructionProperties ex_data 4 False)"
proof -
  have p5: "(TotLayers (at1 (Construct ex_data) 5) = 5
       \<and> DoublePattern (Material ex_data) (at1 (Construct ex_data) 5))
     \<or> (TotLayers (at1 (Construct ex_data) 5) = 7
       \<and> TriplePattern (Material ex_data) (at1 (Construct ex_data) 5))"
    and p4: "(TotLayers (at1 (Construct ex_data) 4) = 5
       \<and> DoublePattern (Material ex_data) (at1 (Construct ex_data) 4))
     \<or> (TotLayers (at1 (Construct ex_data) 4) = 7
       \<and> TriplePattern (Material ex_data) (at1 (Construct ex_data) 4))"
    by (simp_all add: ex_bg_facts ex_bg_pattern)
  note t5 = between_glass_gas_layers [where g = ex_data and ConstrNum = 5
      and ErrorsFound = False, OF p5 ex_bg_refs(2) ex_bg_facts(9,10)]
  note t4 = between_glass_gas_layers [where g = ex_data and ConstrNum = 4
      and ErrorsFound = False, OF p4 ex_bg_refs(1) ex_bg_facts(7,8)]
  have d: "at1 (GasType (at1 (Material ex_data) 2)) 1 \<noteq> at1 (GasType (at1 (Material ex_data) 4)) 1"
    by (simp add: ex_gases at1_lit)
  have e5: "snd (CheckAndSetConstructionProperties ex_data 5 False)"
    using t5 [THEN conjunct1] d
    by (simp add: ex_bg_facts at1_lit bex_1_5)
  have e4: "\<not> snd (CheckAndSetConstructionProperties ex_data 4 False)"
    using t4 [THEN conjunct2, THEN conjunct1]
    by (simp add: ex_bg_facts at1_lit bex_1_5 ex_gases ex_material_groups)
       (simp add: group_defs)
  show ?thesis
    using p5 p4 ex_bg_refs(1,2) [unfolded ex_bg_facts(1,2) ball_1_5] ex_bg_facts(7-10) d e5 e4
    by blast
qed

text \<open>
  C1, as stated, also covers a construction with the BSDF flag. For such a construction
  the routine returns at line 772, before the gas layers are compared: here the gaps hold
  air and argon, and the flag stays false.
\<close>

theorem bsdf_window_gases_not_compared:
  "TotLayers (at1 (Construct ex_data) 6) = 5
   \<and> DoublePattern (Material ex_data) (at1 (Construct ex_data) 6)
   \<and> at1 (GasType (at1 (Material ex_data) (at1 (LayerPoint (at1 (Construct ex_data) 6)) 2))) 1
       \<noteq> at1 (GasType (at1 (Material ex_data) (at1 (LayerPoint (at1 (Construct ex_data) 6)) 4))) 1
   \<and> \<not> snd (CheckAndSetConstructionProperties ex_data 6 False)"
proof -
  let ?c = "at1 (Construct ex_data) 6"
  have nz: "\<forall>Layer \<in> {1..5}. at1 (LayerPoint ?c) Layer \<noteq> 0"
    unfolding ex_bg_facts ball_1_5 by (simp add: at1_lit)
  note w = double_window [OF ex_bg_facts(3) ex_bg_pattern(3) nz]
  have "snd (CheckConstruct (Material ex_data) (Blind ex_data) ?c False)
        = MixCountSingle_check (Material ex_data) ?c False"
    by (rule CheckConstruct_flag_special)
       (simp_all add: ex_bg_facts at1_lit w(1))
  then have "\<not> snd (CheckAndSetConstructionProperties ex_data 6 False)"
    by (simp add: CheckAndSet_flag w(2))
  then show ?thesis
    by (simp add: ex_bg_facts ex_bg_pattern at1_lit ex_gases)
qed

subsection \<open>\<^verbatim>\<open>AddVariableSlatBlind\<close>\<close>

lemma SlatAngle_checks_angles:
  "MinSlatAngle (fst (SlatAngle_checks rsd nm b))
     = (if MinSlatAngle b < MinSlatAngGeom_of b then MinSlatAngGeom_of b else MinSlatAngle b)"
  "MaxSlatAngle (fst (SlatAngle_checks rsd nm b))
     = (if MaxSlatAngle b > MaxSlatAngGeom_of b then MaxSlatAngGeom_of b else MaxSlatAngle b)"
  by (simp_all add: SlatAngle_checks_def Let_def split: prod.split)

lemma SlatAngle_checks_flag:
  "fst (snd (SlatAngle_checks rsd nm b)) \<longleftrightarrow>
     MaxSlatAngle b < MinSlatAngle b
     \<or> (MaxSlatAngle b > MinSlatAngle b
        \<and> (SlatAngle b < MinSlatAngle b \<or> SlatAngle b > MaxSlatAngle b))"
  by (auto simp: SlatAngle_checks_def Let_def split: prod.split)

lemma SlatAngle_checks_warnings:
  "MinSlatAngle b < MinSlatAngGeom_of b \<Longrightarrow>
     ContinueError (''Minimum Slat Angle will be set to ''
         @ trim (rsd (MinSlatAngGeom_of b) 1) @ '' deg.'')
       \<in> set (snd (snd (SlatAngle_checks rsd nm b)))
     \<and> (\<exists>m. WarningError m \<in> set (snd (snd (SlatAngle_checks rsd nm b))))"
  "MaxSlatAngle b > MaxSlatAngGeom_of b \<Longrightarrow>
     ContinueError (''Maximum Slat Angle will be set to ''
         @ trim (rsd (MaxSlatAngGeom_of b) 1) @ '' deg.'')
       \<in> set (snd (snd (SlatAngle_checks rsd nm b)))
     \<and> (\<exists>m. WarningError m \<in> set (snd (snd (SlatAngle_checks rsd nm b))))"
  by (simp_all add: SlatAngle_checks_def Let_def split: prod.split)

lemma SlatAngle_checks_severe:
  "(\<exists>m. SevereError m \<in> set (snd (snd (SlatAngle_checks rsd nm b))))
   \<longleftrightarrow> fst (snd (SlatAngle_checks rsd nm b))"
  by (auto simp: SlatAngle_checks_def Let_def split: prod.split)

lemma AddVariableSlatBlind_new:
  assumes "int (length (Blind g)) = TotBlinds g"
      and "FindItemInList
             (''~'' @ trim (WindowBlindProperties.Name (at1 (Blind g) inBlindNumber)))
             (map WindowBlindProperties.Name (Blind g)) (TotBlinds g) = 0"
  shows "at1 (Blind (fst (AddVariableSlatBlind rsd g inBlindNumber)))
             (fst (snd (AddVariableSlatBlind rsd g inBlindNumber)))
         = fst (SlatAngle_checks rsd (WindowBlindProperties.Name (at1 (Blind g) inBlindNumber))
                 ((at1 (Blind g) inBlindNumber)
                    \<lparr>WindowBlindProperties.Name :=
                       ''~'' @ WindowBlindProperties.Name (at1 (Blind g) inBlindNumber),
                     SlatAngleType := VariableSlats\<rparr>))"
    and "snd (snd (AddVariableSlatBlind rsd g inBlindNumber))
         = snd (SlatAngle_checks rsd (WindowBlindProperties.Name (at1 (Blind g) inBlindNumber))
                 ((at1 (Blind g) inBlindNumber)
                    \<lparr>WindowBlindProperties.Name :=
                       ''~'' @ WindowBlindProperties.Name (at1 (Blind g) inBlindNumber),
                     SlatAngleType := VariableSlats\<rparr>))"
    and "fst (snd (AddVariableSlatBlind rsd g inBlindNumber)) = TotBlinds g + 1"
    and "TotBlinds (fst (AddVariableSlatBlind rsd g inBlindNumber)) = TotBlinds g + 1"
    and "length (Blind (fst (AddVariableSlatBlind rsd g inBlindNumber)))
         = length (Blind g) + 1"
proof -
  have n: "nat (TotBlinds g) = length (Blind g)" using assms(1) by simp
  have a: "at1 (xs @ [x]) (int (length xs) + 1) = x" for xs :: "WindowBlindProperties list" and x
    by (simp add: at1_def)
  show "at1 (Blind (fst (AddVariableSlatBlind rsd g inBlindNumber)))
             (fst (snd (AddVariableSlatBlind rsd g inBlindNumber)))
         = fst (SlatAngle_checks rsd (WindowBlindProperties.Name (at1 (Blind g) inBlindNumber))
                 ((at1 (Blind g) inBlindNumber)
                    \<lparr>WindowBlindProperties.Name :=
                       ''~'' @ WindowBlindProperties.Name (at1 (Blind g) inBlindNumber),
                     SlatAngleType := VariableSlats\<rparr>))"
    using assms(2) a [of "Blind g"]
    by (simp add: AddVariableSlatBlind_def Let_def n assms(1) split: prod.split)
  show "snd (snd (AddVariableSlatBlind rsd g inBlindNumber))
         = snd (SlatAngle_checks rsd (WindowBlindProperties.Name (at1 (Blind g) inBlindNumber))
                 ((at1 (Blind g) inBlindNumber)
                    \<lparr>WindowBlindProperties.Name :=
                       ''~'' @ WindowBlindProperties.Name (at1 (Blind g) inBlindNumber),
                     SlatAngleType := VariableSlats\<rparr>))"
    using assms(2)
    by (simp add: AddVariableSlatBlind_def Let_def split: prod.split)
  show "fst (snd (AddVariableSlatBlind rsd g inBlindNumber)) = TotBlinds g + 1"
    "TotBlinds (fst (AddVariableSlatBlind rsd g inBlindNumber)) = TotBlinds g + 1"
    "length (Blind (fst (AddVariableSlatBlind rsd g inBlindNumber))) = length (Blind g) + 1"
    using assms(2)
    by (simp_all add: AddVariableSlatBlind_def Let_def n split: prod.split)
qed

text \<open>
  C8. When \<^verbatim>\<open>AddVariableSlatBlind\<close> adds a clone (the lookup of the prefixed name finds
  nothing): the smallest slat angle the geometry allows is the arcsine of slat thickness
  over slat thickness plus slat separation, in degrees, when the slat width exceeds the
  slat separation, and 0 otherwise; the largest is 180 degrees minus the smallest. A
  declared minimum below the geometry minimum is replaced by the geometry minimum in the
  clone, with a warning; a declared maximum above the geometry maximum is replaced by the
  geometry maximum, with a warning. The error flag depends on the declared angles alone
  (maximum below minimum, or slat angle outside the declared range), and the severe
  messages are those of the flag: neither replacement sets it.
\<close>

theorem variable_slat_clone_angles:
  fixes rsd :: "real \<Rightarrow> int \<Rightarrow> string" and g :: HeatBalanceData and inBlindNumber :: int
  defines "b \<equiv> at1 (Blind g) inBlindNumber"
  defines "r \<equiv> AddVariableSlatBlind rsd g inBlindNumber"
  defines "b' \<equiv> at1 (Blind (fst r)) (fst (snd r))"
      and "errFlag \<equiv> fst (snd (snd r))"
      and "msgs \<equiv> snd (snd (snd r))"
  defines "MinSlatAngGeom \<equiv>
             (if SlatWidth b > SlatSeparation b
              then arcsin (SlatThickness b / (SlatThickness b + SlatSeparation b)) / DegToRadians
              else 0)"
  defines "MaxSlatAngGeom \<equiv> 180 - MinSlatAngGeom"
  assumes sized: "int (length (Blind g)) = TotBlinds g"
      and new: "FindItemInList (''~'' @ trim (WindowBlindProperties.Name b))
                  (map WindowBlindProperties.Name (Blind g)) (TotBlinds g) = 0"
  shows "MinSlatAngGeom_of b = MinSlatAngGeom \<and> MaxSlatAngGeom_of b = MaxSlatAngGeom
       \<and> MinSlatAngle b' = (if MinSlatAngle b < MinSlatAngGeom then MinSlatAngGeom
                             else MinSlatAngle b)
       \<and> MaxSlatAngle b' = (if MaxSlatAngle b > MaxSlatAngGeom then MaxSlatAngGeom
                             else MaxSlatAngle b)
       \<and> (MinSlatAngle b < MinSlatAngGeom \<longrightarrow>
            (\<exists>m. WarningError m \<in> set msgs)
            \<and> ContinueError (''Minimum Slat Angle will be set to ''
                 @ trim (rsd MinSlatAngGeom 1) @ '' deg.'') \<in> set msgs)
       \<and> (MaxSlatAngle b > MaxSlatAngGeom \<longrightarrow>
            (\<exists>m. WarningError m \<in> set msgs)
            \<and> ContinueError (''Maximum Slat Angle will be set to ''
                 @ trim (rsd MaxSlatAngGeom 1) @ '' deg.'') \<in> set msgs)
       \<and> (errFlag \<longleftrightarrow>
            MaxSlatAngle b < MinSlatAngle b
            \<or> (MaxSlatAngle b > MinSlatAngle b
               \<and> (SlatAngle b < MinSlatAngle b \<or> SlatAngle b > MaxSlatAngle b)))
       \<and> ((\<exists>m. SevereError m \<in> set msgs) \<longleftrightarrow> errFlag)"
proof -
  let ?b0 = "b\<lparr>WindowBlindProperties.Name := ''~'' @ WindowBlindProperties.Name b,
               SlatAngleType := VariableSlats\<rparr>"
  let ?chk = "SlatAngle_checks rsd (WindowBlindProperties.Name b) ?b0"
  note n = AddVariableSlatBlind_new [OF sized new [unfolded b_def], of rsd, folded b_def r_def]
  have b': "b' = fst ?chk" and msgs: "msgs = snd (snd ?chk)" and err: "errFlag = fst (snd ?chk)"
    using n(1,2) by (simp_all add: b'_def msgs_def errFlag_def)
  have geo: "MinSlatAngGeom_of ?b0 = MinSlatAngGeom" "MaxSlatAngGeom_of ?b0 = MaxSlatAngGeom"
    "MinSlatAngGeom_of b = MinSlatAngGeom" "MaxSlatAngGeom_of b = MaxSlatAngGeom"
    by (simp_all add: MinSlatAngGeom_of_def MaxSlatAngGeom_of_def MinSlatAngGeom_def
        MaxSlatAngGeom_def)
  have f: "MinSlatAngle ?b0 = MinSlatAngle b" "MaxSlatAngle ?b0 = MaxSlatAngle b"
    "SlatAngle ?b0 = SlatAngle b"
    by simp_all
  note a = SlatAngle_checks_angles [of rsd "WindowBlindProperties.Name b" ?b0,
      unfolded geo f, folded b']
  note w = SlatAngle_checks_warnings [of ?b0 rsd "WindowBlindProperties.Name b",
      unfolded geo f, folded msgs]
  note e = SlatAngle_checks_flag [of rsd "WindowBlindProperties.Name b" ?b0,
      unfolded f, folded err]
  note sv = SlatAngle_checks_severe [of rsd "WindowBlindProperties.Name b" ?b0,
      folded msgs err]
  show ?thesis
    using geo(3,4) a w e sv by blast
qed

theorem variable_slat_clone_angles_witness:
  "int (length (Blind ex_blind_data)) = TotBlinds ex_blind_data
   \<and> FindItemInList (''~'' @ trim (WindowBlindProperties.Name (at1 (Blind ex_blind_data) 1)))
        (map WindowBlindProperties.Name (Blind ex_blind_data)) (TotBlinds ex_blind_data) = 0
   \<and> MinSlatAngGeom_of (at1 (Blind ex_blind_data) 1) = 30
   \<and> MaxSlatAngGeom_of (at1 (Blind ex_blind_data) 1) = 150
   \<and> MinSlatAngle (at1 (Blind ex_blind_data) 1) = 10
   \<and> MaxSlatAngle (at1 (Blind ex_blind_data) 1) = 170
   \<and> MinSlatAngle (at1 (Blind (fst (AddVariableSlatBlind (\<lambda>x n. []) ex_blind_data 1)))
                      (fst (snd (AddVariableSlatBlind (\<lambda>x n. []) ex_blind_data 1)))) = 30
   \<and> MaxSlatAngle (at1 (Blind (fst (AddVariableSlatBlind (\<lambda>x n. []) ex_blind_data 1)))
                      (fst (snd (AddVariableSlatBlind (\<lambda>x n. []) ex_blind_data 1)))) = 150
   \<and> ContinueError (''Minimum Slat Angle will be set to '' @ trim [] @ '' deg.'')
       \<in> set (snd (snd (snd (AddVariableSlatBlind (\<lambda>x n. []) ex_blind_data 1))))
   \<and> \<not> fst (snd (snd (AddVariableSlatBlind (\<lambda>x n. []) ex_blind_data 1)))"
proof -
  have b: "at1 (Blind ex_blind_data) 1 = ex_blind"
    by (simp add: ex_blind_data_def at1_def)
  have sized: "int (length (Blind ex_blind_data)) = TotBlinds ex_blind_data"
    by (simp add: ex_blind_data_def)
  have new: "FindItemInList
               (''~'' @ trim (WindowBlindProperties.Name (at1 (Blind ex_blind_data) 1)))
               (map WindowBlindProperties.Name (Blind ex_blind_data)) (TotBlinds ex_blind_data)
             = 0"
    by (simp add: b FindItemInList_def ex_blind_data_def ex_blind_def trim_def at1_def)
  have deg: "arcsin (1 / 2) / DegToRadians = 30"
    by (simp add: DegToRadians_def)
  have f: "SlatWidth ex_blind = 2" "SlatSeparation ex_blind = 1" "SlatThickness ex_blind = 1"
    "SlatAngle ex_blind = 45" "MinSlatAngle ex_blind = 10" "MaxSlatAngle ex_blind = 170"
    by (simp_all add: ex_blind_def)
  have geo: "MinSlatAngGeom_of ex_blind = 30" "MaxSlatAngGeom_of ex_blind = 150"
    by (simp_all add: MinSlatAngGeom_of_def MaxSlatAngGeom_of_def f DegToRadians_def)
  note t = variable_slat_clone_angles [where g = ex_blind_data and inBlindNumber = 1
      and rsd = "\<lambda>x n. []", OF sized new, unfolded b f]
  show ?thesis
    using t sized new by (simp add: b f geo DegToRadians_def)
qed

subsection \<open>\<^verbatim>\<open>AssignReverseConstructionNumber\<close>\<close>

lemma rev_upto_Suc: "rev [1..int (Suc j)] = int (Suc j) # rev [1..int j]"
proof -
  have "[1..int (Suc j)] = [1..int (Suc j) - 1] @ [int (Suc j)]"
    by (rule upto_rec2) simp
  then show ?thesis by simp
qed

lemma upto_Suc_snoc: "[1..int (Suc j)] = [1..int j] @ [int (Suc j)]"
proof -
  have "[1..int (Suc j)] = [1..int (Suc j) - 1] @ [int (Suc j)]"
    by (rule upto_rec2) simp
  then show ?thesis by simp
qed

lemma Reverse_fold:
  assumes "k + j \<le> length A" and "j \<le> length xs"
  shows "fold (\<lambda>Loop (nLayer, LP). (nLayer + 1, upd1 LP (nLayer + 1) (at1 xs Loop)))
              (rev [1..int j]) (int k, A)
         = (int (k + j), take k A @ rev (take j xs) @ drop (k + j) A)"
  using assms
proof (induction j arbitrary: k A)
  case 0
  then show ?case by simp
next
  case (Suc j)
  let ?A = "A[k := xs ! j]"
  have k: "k < length A" using Suc.prems by simp
  have j: "j < length xs" using Suc.prems by simp
  have step: "upd1 A (int k + 1) (at1 xs (int (Suc j))) = ?A"
    by (simp add: upd1_def at1_def)
  have "fold (\<lambda>Loop (nLayer, LP). (nLayer + 1, upd1 LP (nLayer + 1) (at1 xs Loop)))
              (rev [1..int (Suc j)]) (int k, A)
        = fold (\<lambda>Loop (nLayer, LP). (nLayer + 1, upd1 LP (nLayer + 1) (at1 xs Loop)))
              (rev [1..int j]) (int (Suc k), ?A)"
    by (simp only: rev_upto_Suc fold_simps prod.case step) (simp add: algebra_simps)
  also have "\<dots> = (int (Suc k + j), take (Suc k) ?A @ rev (take j xs) @ drop (Suc k + j) ?A)"
    by (rule Suc.IH) (use Suc.prems in simp_all)
  also have "take (Suc k) ?A = take k A @ [xs ! j]"
    using k by (simp add: take_Suc_conv_app_nth)
  also have "drop (Suc k + j) ?A = drop (k + Suc j) A"
    by simp
  finally show ?case
    using j by (simp add: take_Suc_conv_app_nth)
qed

lemma ReverseLayers_eq:
  assumes "0 \<le> TotLayers c" and "TotLayers c \<le> MaxLayersInConstruct"
      and "int (length (LayerPoint c)) = MaxLayersInConstruct"
  shows "ReverseLayers c = rev (take (nat (TotLayers c)) (LayerPoint c))
                           @ replicate (11 - nat (TotLayers c)) 0"
proof -
  have T: "TotLayers c = int (nat (TotLayers c))" using assms(1) by simp
  have le: "nat (TotLayers c) \<le> 11" "nat (TotLayers c) \<le> length (LayerPoint c)"
    using assms by (simp_all add: MaxLayersInConstruct_def)
  have "fold (\<lambda>Loop (nLayer, LP). (nLayer + 1, upd1 LP (nLayer + 1) (at1 (LayerPoint c) Loop)))
              (rev [1..int (nat (TotLayers c))]) (int 0, replicate 11 0)
        = (int (0 + nat (TotLayers c)),
           take 0 (replicate 11 0) @ rev (take (nat (TotLayers c)) (LayerPoint c))
           @ drop (0 + nat (TotLayers c)) (replicate 11 0))"
    by (rule Reverse_fold) (use le in simp_all)
  then show ?thesis
    unfolding ReverseLayers_def using T by (simp add: MaxLayersInConstruct_def)
qed

lemma ReverseLayers_cong:
  "LayerPoint c' = LayerPoint c \<Longrightarrow> TotLayers c' = TotLayers c
   \<Longrightarrow> ReverseLayers c' = ReverseLayers c"
  by (simp add: ReverseLayers_def)

lemma Reverse_fold_length:
  "length (snd (fold (\<lambda>Loop (nLayer, LP). (nLayer + 1, upd1 LP (nLayer + 1) (at1 xs Loop)))
              ys (n, A))) = length A"
  by (induction ys arbitrary: n A) (simp_all add: upd1_def)

lemma length_ReverseLayers: "length (ReverseLayers c) = 11"
  by (simp add: ReverseLayers_def Reverse_fold_length MaxLayersInConstruct_def)


lemma LayersMatch_refl: "LayerPoint c = LP \<Longrightarrow> LayersMatch c LP"
  by (simp add: LayersMatch_def list_all_iff)

lemma LayersMatch_eq:
  assumes "LayersMatch c LP" and "length (LayerPoint c) = 11" and "length LP = 11"
  shows "LayerPoint c = LP"
proof (rule nth_equalityI)
  show "length (LayerPoint c) = length LP" using assms by simp
next
  fix i assume "i < length (LayerPoint c)"
  then have i: "int i + 1 \<in> {1..MaxLayersInConstruct}"
    using assms(2) by (simp add: MaxLayersInConstruct_def)
  have "at1 (LayerPoint c) (int i + 1) = at1 LP (int i + 1)"
    using assms(1) i unfolding LayersMatch_def list_all_iff set_upto by blast
  then show "LayerPoint c ! i = LP ! i"
    by (simp add: at1_def)
qed

lemma LayersMatch_cong:
  "LayerPoint c' = LayerPoint c \<Longrightarrow> LayersMatch c' LP = LayersMatch c LP"
  by (simp add: LayersMatch_def)

lemma find_append:
  "find P (xs @ ys) = (case find P xs of None \<Rightarrow> find P ys | Some x \<Rightarrow> Some x)"
  by (induction xs) simp_all

lemma FindMatch_zero:
  "FindMatch Cs n LP = 0 \<longleftrightarrow> (\<forall>Loop \<in> {1..n}. \<not> LayersMatch (at1 Cs Loop) LP)"
proof (cases "find (\<lambda>Loop. LayersMatch (at1 Cs Loop) LP) [1..n]")
  case None
  then have "\<forall>Loop \<in> {1..n}. \<not> LayersMatch (at1 Cs Loop) LP"
    by (simp add: find_None_iff)
  moreover have "FindMatch Cs n LP = 0"
    by (simp add: FindMatch_def None)
  ultimately show ?thesis by simp
next
  case (Some Loop)
  then have m: "Loop \<in> {1..n}" "LayersMatch (at1 Cs Loop) LP"
    by (auto simp: find_Some_iff)
  moreover have "FindMatch Cs n LP = Loop"
    by (simp add: FindMatch_def Some)
  ultimately show ?thesis by auto
qed

lemma FindMatch_found:
  assumes "FindMatch Cs n LP \<noteq> 0"
  shows "1 \<le> FindMatch Cs n LP" and "FindMatch Cs n LP \<le> n"
    and "LayersMatch (at1 Cs (FindMatch Cs n LP)) LP"
proof -
  obtain Loop where s: "find (\<lambda>Loop. LayersMatch (at1 Cs Loop) LP) [1..n] = Some Loop"
    using assms by (auto simp: FindMatch_def split: option.splits)
  then have "Loop \<in> set [1..n]" and "LayersMatch (at1 Cs Loop) LP"
    by (auto simp: find_Some_iff)
  then show "1 \<le> FindMatch Cs n LP" "FindMatch Cs n LP \<le> n"
    "LayersMatch (at1 Cs (FindMatch Cs n LP)) LP"
    using s by (simp_all add: FindMatch_def)
qed

lemma FindMatch_cong:
  assumes "\<And>Loop. Loop \<in> {1..n} \<Longrightarrow> LayerPoint (at1 Cs' Loop) = LayerPoint (at1 Cs Loop)"
  shows "FindMatch Cs' n LP = FindMatch Cs n LP"
proof -
  have "find (\<lambda>Loop. LayersMatch (at1 Cs' Loop) LP) [1..n]
        = find (\<lambda>Loop. LayersMatch (at1 Cs Loop) LP) [1..n]"
    by (rule find_cong) (simp_all add: LayersMatch_cong [OF assms])
  then show ?thesis by (simp add: FindMatch_def)
qed

lemma FindMatch_append_new:
  assumes "0 \<le> n" and "FindMatch Cs n LP = 0" and "LayersMatch (at1 Cs (n + 1)) LP"
  shows "FindMatch Cs (n + 1) LP = n + 1"
proof -
  have none: "find (\<lambda>Loop. LayersMatch (at1 Cs Loop) LP) [1..n] = None"
    using assms(2) by (simp add: FindMatch_zero find_None_iff)
  have "[1..n + 1] = [1..n + 1 - 1] @ [n + 1]"
    by (rule upto_rec2) (use assms(1) in simp)
  then have "[1..n + 1] = [1..n] @ [n + 1]" by simp
  then show ?thesis
    using none assms(3) by (simp add: FindMatch_def find_append)
qed


lemma NewLayers_fold:
  assumes "n \<le> length LP" and "n \<le> length (LayerPoint c)"
  shows "fst (fold (\<lambda>nLayer (c, R).
             (c\<lparr>LayerPoint := upd1 (LayerPoint c) nLayer (at1 LP nLayer)\<rparr>,
              if at1 LP nLayer \<noteq> 0 then R + at1 NR (at1 LP nLayer) else R))
          [1..int n] (c, R))
         = c\<lparr>LayerPoint := take n LP @ drop n (LayerPoint c)\<rparr>"
  using assms
proof (induction n)
  case 0
  then show ?case by simp
next
  case (Suc n)
  let ?g = "\<lambda>nLayer (c, R).
             (c\<lparr>LayerPoint := upd1 (LayerPoint c) nLayer (at1 LP nLayer)\<rparr>,
              if at1 LP nLayer \<noteq> 0 then R + at1 NR (at1 LP nLayer) else R)"
  define c1 where "c1 = fst (fold ?g [1..int n] (c, R))"
  define R1 where "R1 = snd (fold ?g [1..int n] (c, R))"
  have f: "fold ?g [1..int n] (c, R) = (c1, R1)"
    by (simp add: c1_def R1_def)
  have c1: "c1 = c\<lparr>LayerPoint := take n LP @ drop n (LayerPoint c)\<rparr>"
    using Suc.IH Suc.prems unfolding c1_def by simp
  have n: "n < length LP" "n < length (LayerPoint c)" using Suc.prems by simp_all
  have "(take n LP @ drop n (LayerPoint c))[n := LP ! n]
        = take (Suc n) LP @ drop (Suc n) (LayerPoint c)"
  proof -
    have "drop n (LayerPoint c) = LayerPoint c ! n # drop (Suc n) (LayerPoint c)"
      using n(2) by (simp add: Cons_nth_drop_Suc)
    then show ?thesis
      using n(1) by (simp add: list_update_append take_Suc_conv_app_nth)
  qed
  then have "fst (?g (int (Suc n)) (c1, R1))
             = c\<lparr>LayerPoint := take (Suc n) LP @ drop (Suc n) (LayerPoint c)\<rparr>"
    by (simp add: c1 upd1_def at1_def)
  then show ?case
    by (simp only: upto_Suc_snoc fold_append comp_apply f fold_simps)
qed

lemma NewLayers_loop_fst:
  assumes "length LP = 11" and "length (LayerPoint c) = 11"
  shows "fst (NewLayers_loop NR LP c R) = c\<lparr>LayerPoint := LP\<rparr>"
proof -
  have "fst (NewLayers_loop NR LP c R)
        = c\<lparr>LayerPoint := take 11 LP @ drop 11 (LayerPoint c)\<rparr>"
    unfolding NewLayers_loop_def MaxLayersInConstruct_def
    using NewLayers_fold [of 11 LP c NR R] assms by simp
  then show ?thesis using assms by simp
qed

lemma CheckAndSet_construct:
  "Construct (fst (CheckAndSetConstructionProperties g n EF))
   = upd1 (Construct g) n
       (fst (CheckConstruct (Material g) (Blind g) (at1 (Construct g) n) EF))"
  "TotConstructs (fst (CheckAndSetConstructionProperties g n EF)) = TotConstructs g"
  by (simp_all add: CheckAndSetConstructionProperties_def split: prod.split)

lemma CheckConstruct_layers:
  "LayerPoint (fst (CheckConstruct M B c EF)) = LayerPoint c"
  "TotLayers (fst (CheckConstruct M B c EF)) = TotLayers c"
  using CheckConstruct_fields [of M B c EF] by (simp_all add: LayerFields_def)


lemma MarkUsed_fields:
  "TotConstructs (MarkUsed g c) = TotConstructs g"
  "Material (MarkUsed g c) = Material g"
  "Blind (MarkUsed g c) = Blind g"
  "length (Construct (MarkUsed g c)) = length (Construct g)"
  by (simp_all add: MarkUsed_def upd1_def)

lemma nth_mark:
  "LayerPoint ((xs[i := (xs ! i)\<lparr>IsUsed := True\<rparr>]) ! j) = LayerPoint (xs ! j)"
  "TotLayers ((xs[i := (xs ! i)\<lparr>IsUsed := True\<rparr>]) ! j) = TotLayers (xs ! j)"
proof -
  show "LayerPoint ((xs[i := (xs ! i)\<lparr>IsUsed := True\<rparr>]) ! j) = LayerPoint (xs ! j)"
    by (cases "i < length xs") (simp_all add: nth_list_update list_update_beyond)
  show "TotLayers ((xs[i := (xs ! i)\<lparr>IsUsed := True\<rparr>]) ! j) = TotLayers (xs ! j)"
    by (cases "i < length xs") (simp_all add: nth_list_update list_update_beyond)
qed

lemma MarkUsed_entry:
  "LayerPoint (at1 (Construct (MarkUsed g c)) Loop) = LayerPoint (at1 (Construct g) Loop)"
  "TotLayers (at1 (Construct (MarkUsed g c)) Loop) = TotLayers (at1 (Construct g) Loop)"
  by (simp_all add: MarkUsed_def upd1_def at1_def nth_mark)

lemma MarkUsed_at:
  "in_range (Construct g) c \<Longrightarrow>
   at1 (Construct (MarkUsed g c)) c = (at1 (Construct g) c)\<lparr>IsUsed := True\<rparr>"
  by (simp add: MarkUsed_def at1_upd1_same)

lemma MarkUsed_idem:
  assumes "IsUsed (at1 (Construct g) c)"
  shows "MarkUsed g c = g"
proof -
  let ?x = "at1 (Construct g) c"
  have "?x\<lparr>IsUsed := True\<rparr> = ?x\<lparr>IsUsed := IsUsed ?x\<rparr>"
    using assms by simp
  then have "?x\<lparr>IsUsed := True\<rparr> = ?x" by simp
  then show ?thesis
    by (simp add: MarkUsed_def upd1_def) (simp add: at1_def)
qed

lemma MarkUsed_Reverse:
  "ReverseLayers (at1 (Construct (MarkUsed g c)) c) = ReverseLayers (at1 (Construct g) c)"
  by (rule ReverseLayers_cong) (simp_all add: MarkUsed_entry)

lemma MarkUsed_FindMatch:
  "FindMatch (Construct (MarkUsed g c)) n LP = FindMatch (Construct g) n LP"
  by (rule FindMatch_cong) (simp add: MarkUsed_entry)

lemma ARCN_found:
  assumes "c \<noteq> 0"
      and "FindMatch (Construct g) (TotConstructs g) (ReverseLayers (at1 (Construct g) c)) \<noteq> 0"
  shows "AssignReverseConstructionNumber g c EF =
           (MarkUsed g c, EF,
            FindMatch (Construct g) (TotConstructs g) (ReverseLayers (at1 (Construct g) c)))"
  using assms
  by (simp add: AssignReverseConstructionNumber_def Let_def MarkUsed_Reverse MarkUsed_FindMatch
      MarkUsed_fields)



lemma AppendReverse_result:
  assumes sz: "int (length (Construct g)) = TotConstructs g"
      and len: "length (LayerPoint (at1 (Construct g) c)) = 11"
      and lp: "length LP = 11"
  shows "\<exists>cN. Construct (fst (AppendReverse g c LP EF)) = Construct g @ [cN]
              \<and> LayerPoint cN = LP \<and> TotLayers cN = TotLayers (at1 (Construct g) c)"
    and "TotConstructs (fst (AppendReverse g c LP EF)) = TotConstructs g + 1"
    and "snd (snd (AppendReverse g c LP EF)) = TotConstructs g + 1"
proof -
  let ?src = "at1 (Construct g) c"
  let ?c0 = "?src\<lparr>ConstructionData.Name := ''iz-'' @ trim (ConstructionData.Name ?src),
                   TotLayers := TotLayers ?src\<rparr>"
  let ?nl = "NewLayers_loop (NominalR g) LP ?c0 0"
  let ?c1 = "fst ?nl"
  have c1: "?c1 = ?c0\<lparr>LayerPoint := LP\<rparr>"
    by (rule NewLayers_loop_fst) (use len lp in simp_all)
  let ?cN = "fst (CheckConstruct (Material g) (Blind g) ?c1 EF)"
  have old: "nat (TotConstructs g) = length (Construct g)" using sz by simp
  have at: "at1 (Construct g @ [y]) (TotConstructs g + 1) = y" for y
    by (simp add: at1_def flip: sz)
  have up: "upd1 (Construct g @ [y]) (TotConstructs g + 1) x = Construct g @ [x]" for x y
    by (simp add: upd1_def flip: sz)
  have C: "Construct (fst (AppendReverse g c LP EF)) = Construct g @ [?cN]"
    by (simp add: AppendReverse_def Let_def case_prod_beta CheckAndSet_construct old at up)
  have "LayerPoint ?cN = LP" "TotLayers ?cN = TotLayers ?src"
    unfolding CheckConstruct_layers c1 by simp_all
  with C show "\<exists>cN. Construct (fst (AppendReverse g c LP EF)) = Construct g @ [cN]
              \<and> LayerPoint cN = LP \<and> TotLayers cN = TotLayers (at1 (Construct g) c)"
    by blast
  show "TotConstructs (fst (AppendReverse g c LP EF)) = TotConstructs g + 1"
    "snd (snd (AppendReverse g c LP EF)) = TotConstructs g + 1"
    by (simp_all add: AppendReverse_def Let_def case_prod_beta CheckAndSet_construct)
qed

lemma at1_append_old:
  "in_range xs i \<Longrightarrow> at1 (xs @ ys) i = at1 xs i"
  by (auto simp: at1_def in_range_def nth_append)

lemma at1_append_new: "at1 (xs @ [y]) (int (length xs) + 1) = y"
  by (simp add: at1_def)

lemma in_range_nonzero: "in_range xs i \<Longrightarrow> i \<noteq> 0"
  by (simp add: in_range_def)

text \<open>What a call returns, in the two cases of the search.\<close>

lemma ARCN_new:
  assumes c: "in_range (Construct g) c"
      and sz: "int (length (Construct g)) = TotConstructs g"
      and len: "length (LayerPoint (at1 (Construct g) c)) = 11"
      and m: "FindMatch (Construct g) (TotConstructs g) (ReverseLayers (at1 (Construct g) c)) = 0"
  shows "\<exists>cN. Construct (fst (AssignReverseConstructionNumber g c EF))
                = Construct (MarkUsed g c) @ [cN]
              \<and> LayerPoint cN = ReverseLayers (at1 (Construct g) c)
              \<and> TotLayers cN = TotLayers (at1 (Construct g) c)"
    and "TotConstructs (fst (AssignReverseConstructionNumber g c EF)) = TotConstructs g + 1"
    and "snd (snd (AssignReverseConstructionNumber g c EF)) = TotConstructs g + 1"
proof -
  let ?gU = "MarkUsed g c"
  let ?LP = "ReverseLayers (at1 (Construct g) c)"
  have eq: "AssignReverseConstructionNumber g c EF = AppendReverse ?gU c ?LP EF"
    using in_range_nonzero [OF c] m
    by (simp add: AssignReverseConstructionNumber_def Let_def MarkUsed_Reverse
        MarkUsed_FindMatch MarkUsed_fields)
  have szU: "int (length (Construct ?gU)) = TotConstructs ?gU"
    using sz by (simp add: MarkUsed_fields)
  have lenU: "length (LayerPoint (at1 (Construct ?gU) c)) = 11"
    using len by (simp add: MarkUsed_entry)
  note r = AppendReverse_result [OF szU lenU length_ReverseLayers, where EF = EF]
  show "\<exists>cN. Construct (fst (AssignReverseConstructionNumber g c EF))
                = Construct (MarkUsed g c) @ [cN]
              \<and> LayerPoint cN = ReverseLayers (at1 (Construct g) c)
              \<and> TotLayers cN = TotLayers (at1 (Construct g) c)"
    using r(1) unfolding eq by (simp add: MarkUsed_entry)
  show "TotConstructs (fst (AssignReverseConstructionNumber g c EF)) = TotConstructs g + 1"
    "snd (snd (AssignReverseConstructionNumber g c EF)) = TotConstructs g + 1"
    using r(2,3) unfolding eq by (simp_all add: MarkUsed_fields)
qed

lemma ARCN_again:
  assumes c: "in_range (Construct g1) c"
      and used: "IsUsed (at1 (Construct g1) c)"
      and m: "FindMatch (Construct g1) (TotConstructs g1) (ReverseLayers (at1 (Construct g1) c))
              = n" and n: "n \<noteq> 0"
  shows "AssignReverseConstructionNumber g1 c EF = (g1, EF, n)"
  using ARCN_found [of c g1 EF] in_range_nonzero [OF c] m n
  by (simp add: MarkUsed_idem [OF used])

lemma LayersWellFormed_iff:
  "LayersWellFormed c \<longleftrightarrow>
     0 \<le> TotLayers c \<and> TotLayers c \<le> 11 \<and> length (LayerPoint c) = 11
     \<and> (\<forall>i < 11. (LayerPoint c ! i \<noteq> 0) = (int i < TotLayers c))"
proof -
  have "(\<forall>Layer \<in> {1..11::int}. (at1 (LayerPoint c) Layer \<noteq> 0) = (Layer \<le> TotLayers c))
        \<longleftrightarrow> (\<forall>i < 11. (LayerPoint c ! i \<noteq> 0) = (int i < TotLayers c))"
  proof (rule iffI)
    assume a: "\<forall>Layer \<in> {1..11::int}.
       (at1 (LayerPoint c) Layer \<noteq> 0) = (Layer \<le> TotLayers c)"
    have "(LayerPoint c ! i \<noteq> 0) = (int i < TotLayers c)" if i: "i < 11" for i
    proof -
      from i have "int i + 1 \<in> {1..11}" by simp
      from a [rule_format, OF this] show ?thesis by (auto simp: at1_def)
    qed
    then show "\<forall>i < 11. (LayerPoint c ! i \<noteq> 0) = (int i < TotLayers c)" by blast
  next
    assume a: "\<forall>i < 11. (LayerPoint c ! i \<noteq> 0) = (int i < TotLayers c)"
    have "(at1 (LayerPoint c) Layer \<noteq> 0) = (Layer \<le> TotLayers c)"
      if l: "Layer \<in> {1..11}" for Layer
    proof -
      from l have "nat (Layer - 1) < 11" by auto
      from a [rule_format, OF this] l show ?thesis by (auto simp: at1_def)
    qed
    then show "\<forall>Layer \<in> {1..11::int}.
       (at1 (LayerPoint c) Layer \<noteq> 0) = (Layer \<le> TotLayers c)" by blast
  qed
  then show ?thesis
    by (auto simp: LayersWellFormed_def MaxLayersInConstruct_def list_all_iff)
qed

lemma LayersWellFormed_cong:
  "LayerPoint c' = LayerPoint c \<Longrightarrow> TotLayers c' = TotLayers c
   \<Longrightarrow> LayersWellFormed c' = LayersWellFormed c"
  by (simp add: LayersWellFormed_def)

lemma LayersWellFormed_TotLayers:
  assumes x: "LayersWellFormed x" and y: "LayersWellFormed y"
      and eq: "LayerPoint x = LayerPoint y"
  shows "TotLayers x = TotLayers y"
proof (rule ccontr)
  assume ne: "TotLayers x \<noteq> TotLayers y"
  define i where "i = nat (min (TotLayers x) (TotLayers y))"
  have i: "i < 11" "int i = min (TotLayers x) (TotLayers y)"
    using x y ne by (auto simp: i_def LayersWellFormed_iff)
  have "(LayerPoint x ! i \<noteq> 0) = (int i < TotLayers x)"
    "(LayerPoint y ! i \<noteq> 0) = (int i < TotLayers y)"
    using x y i(1) by (simp_all add: LayersWellFormed_iff)
  then show False using ne i(2) eq by auto
qed

lemma LayersWellFormed_tail:
  assumes "LayersWellFormed c"
  shows "LayerPoint c = take (nat (TotLayers c)) (LayerPoint c)
                        @ replicate (11 - nat (TotLayers c)) 0"
proof (rule nth_equalityI)
  show "length (LayerPoint c) = length (take (nat (TotLayers c)) (LayerPoint c)
                        @ replicate (11 - nat (TotLayers c)) 0)"
    using assms by (simp add: LayersWellFormed_iff)
next
  fix i assume "i < length (LayerPoint c)"
  then have i: "i < 11" using assms by (simp add: LayersWellFormed_iff)
  then have "(LayerPoint c ! i \<noteq> 0) = (int i < TotLayers c)"
    using assms by (simp add: LayersWellFormed_iff)
  then show "LayerPoint c ! i = (take (nat (TotLayers c)) (LayerPoint c)
                        @ replicate (11 - nat (TotLayers c)) 0) ! i"
    using i assms by (auto simp: nth_append LayersWellFormed_iff)
qed

lemma ReverseLayers_wf:
  assumes "LayersWellFormed c"
  shows "ReverseLayers c = rev (take (nat (TotLayers c)) (LayerPoint c))
                           @ replicate (11 - nat (TotLayers c)) 0"
  by (rule ReverseLayers_eq) (use assms in \<open>simp_all add: LayersWellFormed_def\<close>)

lemma LayersWellFormed_reverse:
  assumes c: "LayersWellFormed c"
      and LP: "LayerPoint c' = ReverseLayers c" and T: "TotLayers c' = TotLayers c"
  shows "LayersWellFormed c'"
proof -
  let ?T = "nat (TotLayers c)"
  have T11: "?T \<le> 11" "0 \<le> TotLayers c" "length (LayerPoint c) = 11"
    using c by (auto simp: LayersWellFormed_iff)
  have nz: "(LayerPoint c ! i \<noteq> 0) = (int i < TotLayers c)" if "i < 11" for i
    using c that by (simp add: LayersWellFormed_iff)
  have "(LayerPoint c' ! i \<noteq> 0) = (int i < TotLayers c')" if i: "i < 11" for i
  proof (cases "i < ?T")
    case True
    then have "LayerPoint c' ! i = LayerPoint c ! (?T - Suc i)"
      using T11 by (simp add: LP ReverseLayers_wf [OF c] nth_append rev_nth)
    moreover have "?T - Suc i < 11" "int (?T - Suc i) < TotLayers c"
      using True T11 by simp_all
    ultimately show ?thesis using nz [of "?T - Suc i"] True T by simp
  next
    case False
    then have "LayerPoint c' ! i = 0"
      using T11 i by (simp add: LP ReverseLayers_wf [OF c] nth_append)
    then show ?thesis using False T T11 by simp
  qed
  then show ?thesis
    using T11 by (simp add: LayersWellFormed_iff T LP length_ReverseLayers)
qed

lemma ReverseLayers_twice:
  assumes c: "LayersWellFormed c"
      and LP: "LayerPoint c' = ReverseLayers c" and T: "TotLayers c' = TotLayers c"
  shows "ReverseLayers c' = LayerPoint c"
proof -
  let ?T = "nat (TotLayers c)"
  have T11: "?T \<le> length (LayerPoint c)"
    using c by (auto simp: LayersWellFormed_iff)
  have "ReverseLayers c' = rev (take ?T (LayerPoint c')) @ replicate (11 - ?T) 0"
    using ReverseLayers_wf [OF LayersWellFormed_reverse [OF c LP T]] by (simp add: T)
  also have "take ?T (LayerPoint c') = rev (take ?T (LayerPoint c))"
    using T11 by (simp add: LP ReverseLayers_wf [OF c])
  finally show ?thesis
    using LayersWellFormed_tail [OF c] by simp
qed

lemma RegistryWellFormed_iff:
  "RegistryWellFormed g \<longleftrightarrow>
     int (length (Construct g)) = TotConstructs g
     \<and> (\<forall>Loop. in_range (Construct g) Loop \<longrightarrow> LayersWellFormed (at1 (Construct g) Loop))"
proof -
  have "(\<forall>i < length (Construct g). LayersWellFormed (Construct g ! i))
        \<longleftrightarrow> (\<forall>Loop. in_range (Construct g) Loop \<longrightarrow> LayersWellFormed (at1 (Construct g) Loop))"
  proof (rule iffI)
    assume a: "\<forall>i < length (Construct g). LayersWellFormed (Construct g ! i)"
    have "LayersWellFormed (at1 (Construct g) Loop)" if "in_range (Construct g) Loop" for Loop
    proof -
      from that have "nat (Loop - 1) < length (Construct g)" by (auto simp: in_range_def)
      from a [rule_format, OF this] show ?thesis by (simp add: at1_def)
    qed
    then show "\<forall>Loop. in_range (Construct g) Loop \<longrightarrow> LayersWellFormed (at1 (Construct g) Loop)"
      by blast
  next
    assume a: "\<forall>Loop. in_range (Construct g) Loop \<longrightarrow> LayersWellFormed (at1 (Construct g) Loop)"
    have "LayersWellFormed (Construct g ! i)" if "i < length (Construct g)" for i
    proof -
      from that have "in_range (Construct g) (int i + 1)" by (simp add: in_range_def)
      from a [rule_format, OF this] show ?thesis by (simp add: at1_def)
    qed
    then show "\<forall>i < length (Construct g). LayersWellFormed (Construct g ! i)" by blast
  qed
  then show ?thesis
    by (simp add: RegistryWellFormed_def list_all_length)
qed

lemma RegistryWellFormed_entry:
  "RegistryWellFormed g \<Longrightarrow> in_range (Construct g) Loop
   \<Longrightarrow> LayersWellFormed (at1 (Construct g) Loop)"
  by (simp add: RegistryWellFormed_iff)

lemma RegistryWellFormed_MarkUsed:
  "RegistryWellFormed g \<Longrightarrow> RegistryWellFormed (MarkUsed g c)"
  by (simp add: RegistryWellFormed_iff MarkUsed_fields in_range_def
      LayersWellFormed_cong [OF MarkUsed_entry])

lemma RegistryWellFormed_append:
  assumes "RegistryWellFormed g" and "Construct g1 = Construct g @ [cN]"
      and "TotConstructs g1 = TotConstructs g + 1" and "LayersWellFormed cN"
  shows "RegistryWellFormed g1"
  using assms by (simp add: RegistryWellFormed_def)

text \<open>One call: the registry stays well formed, and the entry returned holds the
  reversed layers of the entry given.\<close>

lemma ARCN_reverse:
  assumes wf: "RegistryWellFormed g" and c: "in_range (Construct g) c"
      and r: "AssignReverseConstructionNumber g c EF = (g1, EF1, n1)"
  shows "RegistryWellFormed g1" and "in_range (Construct g1) n1"
    and "LayerPoint (at1 (Construct g1) n1) = ReverseLayers (at1 (Construct g) c)"
    and "TotLayers (at1 (Construct g1) n1) = TotLayers (at1 (Construct g) c)"
proof -
  let ?Cs = "Construct g"
  let ?src = "at1 ?Cs c"
  let ?LP = "ReverseLayers ?src"
  let ?m = "FindMatch ?Cs (TotConstructs g) ?LP"
  have sz: "int (length ?Cs) = TotConstructs g"
    using wf by (simp add: RegistryWellFormed_def)
  have src: "LayersWellFormed ?src" by (rule RegistryWellFormed_entry [OF wf c])
  then have len: "length (LayerPoint ?src) = 11" by (simp add: LayersWellFormed_iff)
  have rv: "LayersWellFormed (?src\<lparr>LayerPoint := ?LP\<rparr>)"
    by (rule LayersWellFormed_reverse [OF src]) simp_all
  have all: "RegistryWellFormed g1 \<and> in_range (Construct g1) n1
    \<and> LayerPoint (at1 (Construct g1) n1) = ?LP
    \<and> TotLayers (at1 (Construct g1) n1) = TotLayers ?src"
  proof (cases "?m = 0")
    case False
    have "AssignReverseConstructionNumber g c EF = (MarkUsed g c, EF, ?m)"
      using ARCN_found [of c g EF] in_range_nonzero [OF c] False by simp
    then have g1: "g1 = MarkUsed g c" and n1: "n1 = ?m" using r by simp_all
    have rng: "in_range ?Cs ?m"
      using FindMatch_found(1,2) [OF False] sz by (simp add: in_range_def)
    have m: "LayersWellFormed (at1 ?Cs ?m)" by (rule RegistryWellFormed_entry [OF wf rng])
    then have "length (LayerPoint (at1 ?Cs ?m)) = 11" by (simp add: LayersWellFormed_iff)
    with FindMatch_found(3) [OF False] have L: "LayerPoint (at1 ?Cs ?m) = ?LP"
      by (rule LayersMatch_eq) (rule length_ReverseLayers)
    have T: "TotLayers (at1 ?Cs ?m) = TotLayers ?src"
      using LayersWellFormed_TotLayers [OF m rv] L by simp
    show ?thesis
      unfolding g1 n1 using rng L T
      by (simp add: RegistryWellFormed_MarkUsed [OF wf] MarkUsed_entry MarkUsed_fields
          in_range_def)
  next
    case True
    note new = ARCN_new [OF c sz len True, of EF]
    obtain cN where C1: "Construct g1 = Construct (MarkUsed g c) @ [cN]"
      and LcN: "LayerPoint cN = ?LP" and TcN: "TotLayers cN = TotLayers ?src"
      using new(1) r by auto
    have T1: "TotConstructs g1 = TotConstructs (MarkUsed g c) + 1"
      using new(2) r by (simp add: MarkUsed_fields)
    have n1: "n1 = int (length (Construct (MarkUsed g c))) + 1"
      using new(3) r sz by (simp add: MarkUsed_fields)
    have "LayersWellFormed cN" by (rule LayersWellFormed_reverse [OF src LcN TcN])
    then have "RegistryWellFormed g1"
      by (rule RegistryWellFormed_append [OF RegistryWellFormed_MarkUsed [OF wf] C1 T1])
    moreover have "at1 (Construct g1) n1 = cN"
      unfolding C1 n1 by (rule at1_append_new)
    moreover have "in_range (Construct g1) n1"
      unfolding C1 n1 by (simp add: in_range_def)
    ultimately show ?thesis using LcN TcN by simp
  qed
  from all show "RegistryWellFormed g1" and "in_range (Construct g1) n1"
    and "LayerPoint (at1 (Construct g1) n1) = ReverseLayers (at1 (Construct g) c)"
    and "TotLayers (at1 (Construct g1) n1) = TotLayers (at1 (Construct g) c)"
    by simp_all
qed

lemma ex_registry: "RegistryWellFormed ex_data"
  by (simp add: RegistryWellFormed_def LayersWellFormed_def ex_data_def ex_constructs_def
      mk_construct_fields MaxLayersInConstruct_def upto_from_1 at1_def)

lemma ex_roof_reversed:
  "ReverseLayers (at1 (Construct ex_data) 3) = [7, 6, 0, 0, 0, 0, 0, 0, 0, 0, 0]"
proof -
  have "LayersWellFormed (at1 (Construct ex_data) 3)"
    by (rule RegistryWellFormed_entry [OF ex_registry ex_in_range(3)])
  then show ?thesis
    unfolding ReverseLayers_wf [OF \<open>LayersWellFormed (at1 (Construct ex_data) 3)\<close>]
    by (simp add: ex_entries mk_construct_fields eval_nat_numeral)
qed

lemma ex_roof_reverse_absent:
  "FindMatch (Construct ex_data) (TotConstructs ex_data)
     (ReverseLayers (at1 (Construct ex_data) 3)) = 0"
  unfolding ex_roof_reversed
  by (simp add: FindMatch_def LayersMatch_def ex_data_def ex_constructs_def
      mk_construct_fields MaxLayersInConstruct_def upto_from_1 at1_def)

lemma ex_roof_reverse_index:
  "snd (snd (AssignReverseConstructionNumber ex_data 3 False)) = 7"
proof -
  have sz: "int (length (Construct ex_data)) = TotConstructs ex_data"
    using ex_registry by (simp add: RegistryWellFormed_def)
  have len: "length (LayerPoint (at1 (Construct ex_data) 3)) = 11"
    by (simp add: ex_entries mk_construct_fields)
  have "TotConstructs ex_data = 6" by (simp add: ex_data_def)
  then show ?thesis
    using ARCN_new(3) [OF ex_in_range(3) sz len ex_roof_reverse_absent, of False] by simp
qed

text \<open>
  C5. For a construction number in the registry, a second call of
  \<^verbatim>\<open>AssignReverseConstructionNumber\<close> on the same number, made in the state the first call
  left, returns the number the first call returned and leaves that state as it is: it
  appends nothing. The number returned is in the registry, the entry it names agrees with
  the reversed layers in every one of the \<open>MaxLayersInConstruct\<close> slots, the zero ones
  included, and the registry has grown by at most one entry.
\<close>

theorem reverse_number_twice:
  assumes c: "in_range (Construct g) ConstrNum"
      and sz: "int (length (Construct g)) = TotConstructs g"
      and len: "int (length (LayerPoint (at1 (Construct g) ConstrNum))) = MaxLayersInConstruct"
      and r1: "AssignReverseConstructionNumber g ConstrNum ErrorsFound = (g1, ErrorsFound1, n1)"
  shows "AssignReverseConstructionNumber g1 ConstrNum ErrorsFound1 = (g1, ErrorsFound1, n1)
       \<and> in_range (Construct g1) n1
       \<and> LayersMatch (at1 (Construct g1) n1) (ReverseLayers (at1 (Construct g) ConstrNum))
       \<and> length (Construct g1) \<le> length (Construct g) + 1"
proof -
  let ?Cs = "Construct g"
  let ?LP = "ReverseLayers (at1 ?Cs ConstrNum)"
  let ?m = "FindMatch ?Cs (TotConstructs g) ?LP"
  have len': "length (LayerPoint (at1 ?Cs ConstrNum)) = 11"
    using len by (simp add: MaxLayersInConstruct_def)
  have cU: "in_range (Construct (MarkUsed g ConstrNum)) ConstrNum"
    using c by (simp add: MarkUsed_fields in_range_def)
  show ?thesis
  proof (cases "?m = 0")
    case False
    have "AssignReverseConstructionNumber g ConstrNum ErrorsFound
          = (MarkUsed g ConstrNum, ErrorsFound, ?m)"
      using ARCN_found [of ConstrNum g ErrorsFound] in_range_nonzero [OF c] False by simp
    then have g1: "g1 = MarkUsed g ConstrNum" and e1: "ErrorsFound1 = ErrorsFound"
      and n1: "n1 = ?m"
      using r1 by simp_all
    have used: "IsUsed (at1 (Construct g1) ConstrNum)"
      unfolding g1 by (simp add: MarkUsed_at [OF c])
    have m1: "FindMatch (Construct g1) (TotConstructs g1)
                (ReverseLayers (at1 (Construct g1) ConstrNum)) = n1"
      unfolding g1 n1 by (simp add: MarkUsed_Reverse MarkUsed_FindMatch MarkUsed_fields)
    have again: "AssignReverseConstructionNumber g1 ConstrNum ErrorsFound1
                 = (g1, ErrorsFound1, n1)"
      by (rule ARCN_again [OF _ used m1]) (use cU g1 n1 False in simp_all)
    have rng: "in_range (Construct g1) n1"
      using FindMatch_found(1,2) [OF False] sz
      unfolding g1 n1 by (simp add: in_range_def MarkUsed_fields)
    have "LayersMatch (at1 ?Cs ?m) ?LP" by (rule FindMatch_found(3) [OF False])
    then have mt: "LayersMatch (at1 (Construct g1) n1) ?LP"
      unfolding g1 n1 by (simp add: LayersMatch_cong [OF MarkUsed_entry(1)])
    have "length (Construct g1) = length ?Cs"
      unfolding g1 by (simp add: MarkUsed_fields)
    with again rng mt show ?thesis by simp
  next
    case True
    let ?gU = "MarkUsed g ConstrNum"
    note new = ARCN_new [OF c sz len' True, of ErrorsFound]
    obtain cN where C1: "Construct g1 = Construct ?gU @ [cN]"
      and LcN: "LayerPoint cN = ?LP"
      using new(1) r1 by auto
    have T1: "TotConstructs g1 = TotConstructs g + 1" using new(2) r1 by simp
    have n1: "n1 = TotConstructs g + 1" using new(3) r1 by simp
    have lenU: "int (length (Construct ?gU)) = TotConstructs g"
      using sz by (simp add: MarkUsed_fields)
    have old: "at1 (Construct g1) Loop = at1 (Construct ?gU) Loop"
      if "in_range (Construct ?gU) Loop" for Loop
      unfolding C1 by (rule at1_append_old [OF that])
    have atc: "at1 (Construct g1) ConstrNum = (at1 ?Cs ConstrNum)\<lparr>IsUsed := True\<rparr>"
      using old [OF cU] by (simp add: MarkUsed_at [OF c])
    have used: "IsUsed (at1 (Construct g1) ConstrNum)" by (simp add: atc)
    have LP1: "ReverseLayers (at1 (Construct g1) ConstrNum) = ?LP"
      unfolding atc by (rule ReverseLayers_cong) simp_all
    have last: "at1 (Construct g1) (TotConstructs g + 1) = cN"
      unfolding C1 lenU [symmetric] by (rule at1_append_new)
    have "FindMatch (Construct g1) (TotConstructs g) ?LP = FindMatch ?Cs (TotConstructs g) ?LP"
    proof (rule FindMatch_cong)
      fix Loop assume "Loop \<in> {1..TotConstructs g}"
      then have "in_range (Construct ?gU) Loop"
        using lenU by (simp add: in_range_def)
      then show "LayerPoint (at1 (Construct g1) Loop) = LayerPoint (at1 ?Cs Loop)"
        by (simp add: old MarkUsed_entry)
    qed
    then have none: "FindMatch (Construct g1) (TotConstructs g) ?LP = 0"
      using True by simp
    have "0 \<le> TotConstructs g" using sz by simp
    then have "FindMatch (Construct g1) (TotConstructs g + 1) ?LP = TotConstructs g + 1"
      using none by (rule FindMatch_append_new) (simp add: last LayersMatch_refl [OF LcN])
    then have m1: "FindMatch (Construct g1) (TotConstructs g1)
                     (ReverseLayers (at1 (Construct g1) ConstrNum)) = n1"
      by (simp add: T1 n1 LP1)
    have c1: "in_range (Construct g1) ConstrNum"
      using cU unfolding C1 by (simp add: in_range_def)
    have again: "AssignReverseConstructionNumber g1 ConstrNum ErrorsFound1
                 = (g1, ErrorsFound1, n1)"
      by (rule ARCN_again [OF c1 used m1]) (use sz n1 in simp)
    have rng: "in_range (Construct g1) n1"
      using lenU unfolding C1 n1 by (simp add: in_range_def)
    have mt: "LayersMatch (at1 (Construct g1) n1) ?LP"
      unfolding n1 last by (rule LayersMatch_refl [OF LcN])
    have "length (Construct g1) = length ?Cs + 1"
      unfolding C1 by (simp add: MarkUsed_fields)
    with again rng mt show ?thesis by simp
  qed
qed

theorem reverse_number_twice_witness:
  "in_range (Construct ex_data) 3
   \<and> int (length (Construct ex_data)) = TotConstructs ex_data
   \<and> int (length (LayerPoint (at1 (Construct ex_data) 3))) = MaxLayersInConstruct
   \<and> snd (snd (AssignReverseConstructionNumber ex_data 3 False)) = 7
   \<and> AssignReverseConstructionNumber
        (fst (AssignReverseConstructionNumber ex_data 3 False)) 3
        (fst (snd (AssignReverseConstructionNumber ex_data 3 False)))
      = AssignReverseConstructionNumber ex_data 3 False
   \<and> in_range (Construct (fst (AssignReverseConstructionNumber ex_data 3 False))) 7
   \<and> LayersMatch (at1 (Construct (fst (AssignReverseConstructionNumber ex_data 3 False))) 7)
        [7, 6, 0, 0, 0, 0, 0, 0, 0, 0, 0]
   \<and> length (Construct (fst (AssignReverseConstructionNumber ex_data 3 False))) \<le> 7"
proof -
  let ?r = "AssignReverseConstructionNumber ex_data 3 False"
  have sz: "int (length (Construct ex_data)) = TotConstructs ex_data"
    using ex_registry by (simp add: RegistryWellFormed_def)
  have len: "int (length (LayerPoint (at1 (Construct ex_data) 3))) = MaxLayersInConstruct"
    by (simp add: ex_entries mk_construct_fields MaxLayersInConstruct_def)
  have r: "?r = (fst ?r, fst (snd ?r), snd (snd ?r))" by simp
  have n: "length (Construct ex_data) = 6" by (simp add: ex_data_def ex_constructs_def)
  have T: "TotConstructs ex_data = 6" by (simp add: ex_data_def)
  note twice = reverse_number_twice [OF ex_in_range(3) sz len r, unfolded prod.collapse]
  from twice ex_in_range(3) len show ?thesis
    by (simp add: ex_roof_reversed ex_roof_reverse_index n T)
qed

lemma ex_unresolved_entries:
  "at1 (Construct ex_unresolved) 1
     = mk_construct ''WALL'' 2 [6, 0, 0, 0, 0, 0, 0, 0, 0, 0, 0] False"
  "at1 (Construct ex_unresolved) 2
     = mk_construct ''SLAB'' 1 [6, 0, 0, 0, 0, 0, 0, 0, 0, 0, 0] False"
  "TotConstructs ex_unresolved = 2" "length (Construct ex_unresolved) = 2"
  by (simp_all add: ex_unresolved_def at1_def)

lemma ex_unresolved_reversed:
  "ReverseLayers (at1 (Construct ex_unresolved) 1) = [0, 6, 0, 0, 0, 0, 0, 0, 0, 0, 0]"
  "ReverseLayers (at1 (Construct ex_unresolved) 2) = [6, 0, 0, 0, 0, 0, 0, 0, 0, 0, 0]"
proof -
  let ?A = "mk_construct ''WALL'' 2 [6, 0, 0, 0, 0, 0, 0, 0, 0, 0, 0] False"
  let ?B = "mk_construct ''SLAB'' 1 [6, 0, 0, 0, 0, 0, 0, 0, 0, 0, 0] False"
  have "ReverseLayers ?A = rev (take (nat (TotLayers ?A)) (LayerPoint ?A))
                           @ replicate (11 - nat (TotLayers ?A)) 0"
    by (rule ReverseLayers_eq) (simp_all add: mk_construct_fields MaxLayersInConstruct_def)
  then show "ReverseLayers (at1 (Construct ex_unresolved) 1)
             = [0, 6, 0, 0, 0, 0, 0, 0, 0, 0, 0]"
    by (simp add: ex_unresolved_entries mk_construct_fields eval_nat_numeral)
  have "ReverseLayers ?B = rev (take (nat (TotLayers ?B)) (LayerPoint ?B))
                           @ replicate (11 - nat (TotLayers ?B)) 0"
    by (rule ReverseLayers_eq) (simp_all add: mk_construct_fields MaxLayersInConstruct_def)
  then show "ReverseLayers (at1 (Construct ex_unresolved) 2)
             = [6, 0, 0, 0, 0, 0, 0, 0, 0, 0, 0]"
    by (simp add: ex_unresolved_entries mk_construct_fields eval_nat_numeral)
qed

lemma ex_unresolved_search:
  "FindMatch (Construct ex_unresolved) 2 [6, 0, 0, 0, 0, 0, 0, 0, 0, 0, 0] = 1"
  "FindMatch (Construct ex_unresolved) 2 [0, 6, 0, 0, 0, 0, 0, 0, 0, 0, 0] = 0"
  by (simp_all add: FindMatch_def LayersMatch_def ex_unresolved_def
      mk_construct_fields MaxLayersInConstruct_def upto_from_1 at1_def)

lemma ex_unresolved_first:
  "AssignReverseConstructionNumber ex_unresolved 2 False = (MarkUsed ex_unresolved 2, False, 1)"
  using ARCN_found [of 2 ex_unresolved False]
  by (simp add: ex_unresolved_entries(3) ex_unresolved_reversed ex_unresolved_search)

lemma ex_unresolved_second:
  "snd (snd (AssignReverseConstructionNumber (MarkUsed ex_unresolved 2) 1 False)) = 3"
  "LayerPoint (at1 (Construct (fst
      (AssignReverseConstructionNumber (MarkUsed ex_unresolved 2) 1 False))) 3)
   = [0, 6, 0, 0, 0, 0, 0, 0, 0, 0, 0]"
  "TotLayers (at1 (Construct (fst
      (AssignReverseConstructionNumber (MarkUsed ex_unresolved 2) 1 False))) 3) = 2"
proof -
  let ?g1 = "MarkUsed ex_unresolved 2"
  have e1: "LayerPoint (at1 (Construct ?g1) 1) = [6, 0, 0, 0, 0, 0, 0, 0, 0, 0, 0]"
    "TotLayers (at1 (Construct ?g1) 1) = 2"
    by (simp_all add: MarkUsed_entry ex_unresolved_entries mk_construct_fields)
  have rv: "ReverseLayers (at1 (Construct ?g1) 1) = [0, 6, 0, 0, 0, 0, 0, 0, 0, 0, 0]"
    unfolding ex_unresolved_reversed(1) [symmetric]
    by (rule ReverseLayers_cong) (simp_all add: MarkUsed_entry)
  have c: "in_range (Construct ?g1) 1"
    by (simp add: in_range_def MarkUsed_fields ex_unresolved_entries)
  have sz: "int (length (Construct ?g1)) = TotConstructs ?g1"
    by (simp add: MarkUsed_fields ex_unresolved_entries)
  have len: "length (LayerPoint (at1 (Construct ?g1) 1)) = 11" by (simp add: e1)
  have m: "FindMatch (Construct ?g1) (TotConstructs ?g1) (ReverseLayers (at1 (Construct ?g1) 1))
           = 0"
    by (simp add: rv MarkUsed_FindMatch MarkUsed_fields ex_unresolved_entries
        ex_unresolved_search)
  note new = ARCN_new [OF c sz len m, of False]
  show "snd (snd (AssignReverseConstructionNumber ?g1 1 False)) = 3"
    using new(3) by (simp add: MarkUsed_fields ex_unresolved_entries)
  obtain cN where C: "Construct (fst (AssignReverseConstructionNumber ?g1 1 False))
                      = Construct (MarkUsed ?g1 1) @ [cN]"
    and L: "LayerPoint cN = [0, 6, 0, 0, 0, 0, 0, 0, 0, 0, 0]" and T: "TotLayers cN = 2"
    using new(1) unfolding rv e1 by blast
  have "at1 (Construct (MarkUsed ?g1 1) @ [cN]) (int (length (Construct (MarkUsed ?g1 1))) + 1)
        = cN"
    by (rule at1_append_new)
  then have "at1 (Construct (fst (AssignReverseConstructionNumber ?g1 1 False))) 3 = cN"
    unfolding C by (simp add: MarkUsed_fields ex_unresolved_entries)
  then show "LayerPoint (at1 (Construct (fst
      (AssignReverseConstructionNumber ?g1 1 False))) 3) = [0, 6, 0, 0, 0, 0, 0, 0, 0, 0, 0]"
    "TotLayers (at1 (Construct (fst
      (AssignReverseConstructionNumber ?g1 1 False))) 3) = 2"
    using L T by simp_all
qed

text \<open>
  C6, as stated, covers every registry. In the registry with the unresolved layer the
  reverse of construction 2 is found at construction 1, whose slots agree with it; the
  reverse of construction 1 takes its two declared layers, zero first, and is appended as
  construction 3, whose layer references are not those of construction 2.
\<close>

theorem unresolved_layer_breaks_round_trip:
  "in_range (Construct ex_unresolved) 2
   \<and> LayerPoint (at1 (Construct ex_unresolved) 2) = [6, 0, 0, 0, 0, 0, 0, 0, 0, 0, 0]
   \<and> AssignReverseConstructionNumber ex_unresolved 2 False
      = (MarkUsed ex_unresolved 2, False, 1)
   \<and> snd (snd (AssignReverseConstructionNumber (MarkUsed ex_unresolved 2) 1 False)) = 3
   \<and> LayerPoint (at1 (Construct (fst
        (AssignReverseConstructionNumber (MarkUsed ex_unresolved 2) 1 False))) 3)
      = [0, 6, 0, 0, 0, 0, 0, 0, 0, 0, 0]
   \<and> LayerPoint (at1 (Construct (fst
        (AssignReverseConstructionNumber (MarkUsed ex_unresolved 2) 1 False))) 3)
      \<noteq> LayerPoint (at1 (Construct ex_unresolved) 2)
   \<and> \<not> RegistryWellFormed ex_unresolved"
proof -
  have "\<not> LayersWellFormed (at1 (Construct ex_unresolved) 1)"
    by (simp add: LayersWellFormed_iff ex_unresolved_entries mk_construct_fields)
       (rule exI [of _ 1], simp)
  then have "\<not> RegistryWellFormed ex_unresolved"
    using RegistryWellFormed_entry [of ex_unresolved 1]
    by (auto simp: in_range_def ex_unresolved_entries)
  then show ?thesis
    by (simp add: ex_unresolved_first ex_unresolved_second ex_unresolved_entries
        mk_construct_fields in_range_def)
qed

text \<open>
  C6. In a registry whose entries all have their first \<^verbatim>\<open>TotLayers\<close> layer references
  nonzero and every other slot zero, calling \<^verbatim>\<open>AssignReverseConstructionNumber\<close> on a
  construction number and then on the number it returns gives a number in the registry
  whose entry has the layer references, and the layer count, of the construction the
  first call started from. Nothing is said of its name.
\<close>

theorem reverse_of_reverse_has_original_layers:
  assumes wf: "RegistryWellFormed g" and c: "in_range (Construct g) ConstrNum"
      and r1: "AssignReverseConstructionNumber g ConstrNum ErrorsFound = (g1, ErrorsFound1, n1)"
      and r2: "AssignReverseConstructionNumber g1 n1 ErrorsFound1 = (g2, ErrorsFound2, n2)"
  shows "in_range (Construct g2) n2
       \<and> LayerPoint (at1 (Construct g2) n2) = LayerPoint (at1 (Construct g) ConstrNum)
       \<and> TotLayers (at1 (Construct g2) n2) = TotLayers (at1 (Construct g) ConstrNum)"
proof -
  note a = ARCN_reverse [OF wf c r1]
  note b = ARCN_reverse [OF a(1) a(2) r2]
  have "ReverseLayers (at1 (Construct g1) n1) = LayerPoint (at1 (Construct g) ConstrNum)"
    by (rule ReverseLayers_twice [OF RegistryWellFormed_entry [OF wf c] a(3) a(4)])
  then show ?thesis using b a(4) by simp
qed

theorem reverse_of_reverse_has_original_layers_witness:
  "RegistryWellFormed ex_data \<and> in_range (Construct ex_data) 3
   \<and> LayerPoint (at1 (Construct ex_data) 3) = [6, 7, 0, 0, 0, 0, 0, 0, 0, 0, 0]
   \<and> in_range
        (Construct (fst (AssignReverseConstructionNumber
           (fst (AssignReverseConstructionNumber ex_data 3 False))
           (snd (snd (AssignReverseConstructionNumber ex_data 3 False)))
           (fst (snd (AssignReverseConstructionNumber ex_data 3 False))))))
        (snd (snd (AssignReverseConstructionNumber
           (fst (AssignReverseConstructionNumber ex_data 3 False))
           (snd (snd (AssignReverseConstructionNumber ex_data 3 False)))
           (fst (snd (AssignReverseConstructionNumber ex_data 3 False))))))
   \<and> LayerPoint (at1
        (Construct (fst (AssignReverseConstructionNumber
           (fst (AssignReverseConstructionNumber ex_data 3 False))
           (snd (snd (AssignReverseConstructionNumber ex_data 3 False)))
           (fst (snd (AssignReverseConstructionNumber ex_data 3 False))))))
        (snd (snd (AssignReverseConstructionNumber
           (fst (AssignReverseConstructionNumber ex_data 3 False))
           (snd (snd (AssignReverseConstructionNumber ex_data 3 False)))
           (fst (snd (AssignReverseConstructionNumber ex_data 3 False)))))))
      = [6, 7, 0, 0, 0, 0, 0, 0, 0, 0, 0]"
proof -
  let ?r1 = "AssignReverseConstructionNumber ex_data 3 False"
  let ?r2 = "AssignReverseConstructionNumber (fst ?r1) (snd (snd ?r1)) (fst (snd ?r1))"
  have r1: "?r1 = (fst ?r1, fst (snd ?r1), snd (snd ?r1))" by simp
  have r2: "?r2 = (fst ?r2, fst (snd ?r2), snd (snd ?r2))" by simp
  have L: "LayerPoint (at1 (Construct ex_data) 3) = [6, 7, 0, 0, 0, 0, 0, 0, 0, 0, 0]"
    by (simp add: ex_entries mk_construct_fields)
  show ?thesis
    using reverse_of_reverse_has_original_layers [OF ex_registry ex_in_range(3) r1 r2]
      ex_registry ex_in_range(3)
    unfolding L by simp
qed

end
